theory Spec2Isabelle
  imports Complex_Main "HOL-Library.Log_Nat"
begin

section \<open>Numbers, truthiness and rounding\<close>

text \<open>
  The model follows the Express server, the port of the earlier FastAPI server; where the
  two differ in a way that matters below, the FastAPI line is modelled beside it. The
  server keeps every amount and every rate as a JavaScript number, an IEEE 754 binary64
  value: a finite double, \<^verbatim>\<open>Infinity\<close>, \<^verbatim>\<open>-Infinity\<close> or \<^verbatim>\<open>NaN\<close>. A finite double
  is kept as the rational it stands for. The sign of zero is not kept: no handler below
  divides by a number that can be zero, and \<^verbatim>\<open>-0\<close> is falsy and is stored and sent as
  \<^verbatim>\<open>0\<close> is, so the two cannot be told apart. Instants are milliseconds since the epoch.
\<close>

type_synonym ident = string
type_synonym instant = int

datatype number = Finite rat | PInf | NInf | NaN

type_synonym amount = number

text \<open>
  Rounding a real to binary64, to nearest with ties to even. For \<open>a > 0\<close>,
  \<open>exponent a\<close> is the \<open>e\<close> with \<open>2 powi e \<le> a < 2 powi (e + 1)\<close>; the doubles
  with that exponent are multiples of \<open>2 powi (e - 52)\<close>, and below \<open>2 powi (- 1022)\<close>
  the doubles are the multiples of \<open>2 powi (- 1074)\<close>. A result that rounds to
  \<open>2 ^ 1024\<close> or more in magnitude overflows to an infinity.
\<close>

definition exponent :: "rat \<Rightarrow> int" where
  "exponent a =
     (let (p, q) = quotient_of a; k = bitlen p - bitlen q
      in if 2 powi k \<le> a then k else k - 1)"

definition round_half_even :: "rat \<Rightarrow> int" where
  "round_half_even y =
     (let n = \<lfloor>y\<rfloor>; d = y - of_int n
      in if d < 1 / 2 then n else if 1 / 2 < d then n + 1 else if even n then n else n + 1)"

definition nearest_double :: "rat \<Rightarrow> rat" where
  "nearest_double x =
     (if x = 0 then 0
      else let e = max (exponent \<bar>x\<bar>) (- 1022); q = 2 powi (e - 52)
           in of_int (round_half_even (x / q)) * q)"

definition to_double :: "rat \<Rightarrow> number" where
  "to_double x =
     (let r = nearest_double x
      in if 2 ^ 1024 \<le> r then PInf else if r \<le> - (2 ^ 1024) then NInf else Finite r)"

text \<open>
  The operators \<^verbatim>\<open>*\<close>, \<^verbatim>\<open>/\<close> and \<^verbatim>\<open>-\<close> on numbers: the exact result rounded to
  binary64, with the IEEE 754 rules for infinities and \<^verbatim>\<open>NaN\<close>.
\<close>

definition inf_of_sign :: "rat \<Rightarrow> number" where
  "inf_of_sign s = (if 0 < s then PInf else if s < 0 then NInf else NaN)"

fun sign_of :: "number \<Rightarrow> rat" where
  "sign_of (Finite x) = sgn x"
| "sign_of PInf = 1"
| "sign_of NInf = - 1"
| "sign_of NaN = 0"

fun js_mul :: "number \<Rightarrow> number \<Rightarrow> number" where
  "js_mul (Finite x) (Finite y) = to_double (x * y)"
| "js_mul a b = inf_of_sign (sign_of a * sign_of b)"

fun js_div :: "number \<Rightarrow> number \<Rightarrow> number" where
  "js_div (Finite x) (Finite y) = (if y = 0 then inf_of_sign x else to_double (x / y))"
| "js_div (Finite x) PInf = Finite 0"
| "js_div (Finite x) NInf = Finite 0"
| "js_div PInf (Finite y) = (if y < 0 then NInf else PInf)"
| "js_div NInf (Finite y) = (if y < 0 then PInf else NInf)"
| "js_div a b = NaN"

fun js_sub :: "number \<Rightarrow> number \<Rightarrow> number" where
  "js_sub (Finite x) (Finite y) = to_double (x - y)"
| "js_sub NaN b = NaN"
| "js_sub a NaN = NaN"
| "js_sub PInf PInf = NaN"
| "js_sub NInf NInf = NaN"
| "js_sub PInf b = PInf"
| "js_sub NInf b = NInf"
| "js_sub (Finite x) PInf = NInf"
| "js_sub (Finite x) NInf = PInf"

text \<open>
  \<^verbatim>\<open>Math.round(x)\<close>: the nearest integer, a tie going up; an integer that comes out of a
  double this way is a double again, so nothing is rounded a second time. The comparison
  \<^verbatim>\<open>a < b\<close> is false as soon as one side is \<^verbatim>\<open>NaN\<close>.
\<close>

fun math_round :: "number \<Rightarrow> number" where
  "math_round (Finite x) = Finite (of_int \<lfloor>x + 1 / 2\<rfloor>)"
| "math_round a = a"

fun js_less :: "number \<Rightarrow> number \<Rightarrow> bool" where
  "js_less NaN b = False"
| "js_less a NaN = False"
| "js_less (Finite x) (Finite y) = (x < y)"
| "js_less a NInf = False"
| "js_less PInf b = False"
| "js_less NInf b = True"
| "js_less (Finite x) PInf = True"

text \<open>
  \<^verbatim>\<open>a || b\<close> on numbers: \<^verbatim>\<open>null\<close>, \<^verbatim>\<open>undefined\<close>, \<^verbatim>\<open>0\<close> and \<^verbatim>\<open>NaN\<close> are falsy.
  On strings the empty string is falsy as well.
\<close>

fun truthy :: "number \<Rightarrow> bool" where
  "truthy (Finite x) = (x \<noteq> 0)"
| "truthy NaN = False"
| "truthy a = True"

fun num_or :: "number option \<Rightarrow> number \<Rightarrow> number" where
  "num_or None d = d"
| "num_or (Some v) d = (if truthy v then v else d)"

fun str_or :: "string option \<Rightarrow> string \<Rightarrow> string" where
  "str_or None d = d"
| "str_or (Some s) d = (if s = [] then d else s)"

section \<open>Documents and collections\<close>

text \<open>
  Each MongoDB collection is the list of its documents in insertion order:
  \<^verbatim>\<open>findOne\<close> answers the first document that matches and \<^verbatim>\<open>updateOne\<close> changes the
  first document that matches. Only the fields that the escrow, cancellation, dispute and
  review handlers read or write are kept. A field that a document may lack, or that may
  hold \<^verbatim>\<open>null\<close>, is an option.
\<close>

record user =
  user_id :: ident
  user_name :: string
  user_email :: string
  is_admin :: bool

record collaboration =
  collab_id :: ident
  brand_user_id :: ident
  title :: string
  collaboration_type :: "string option"
  budget_min :: "number option"
  budget_max :: "number option"
  c_status :: string
  c_payment_status :: "string option"
  c_escrow_id :: "ident option"
  c_completed_at :: "instant option"
  c_release_scheduled_at :: "instant option"
  c_cancelled_at :: "instant option"
  cancelled_by :: "ident option"
  cancellation_reason :: "string option"
  c_disputed_at :: "instant option"
  c_released_at :: "instant option"

record escrow =
  escrow_id :: ident
  e_collab_id :: ident
  e_brand_user_id :: ident
  total_amount :: amount
  influencer_payout :: amount
  platform_commission :: amount
  commission_rate :: "number option"
  e_payment_status :: string
  e_status :: string
  payment_provider :: string
  payment_reference :: "string option"
  e_created_at :: instant
  secured_at :: "instant option"
  e_completed_at :: "instant option"
  e_release_scheduled_at :: "instant option"
  e_released_at :: "instant option"
  refunded_at :: "instant option"
  e_disputed_at :: "instant option"
  e_resolved_at :: "instant option"
  e_split_influencer :: "rat option"
  e_split_brand :: "rat option"
  partial_refund_amount :: "rat option"

record application =
  application_id :: ident
  a_collab_id :: ident
  influencer_user_id :: ident
  proposed_price :: "number option"
  a_status :: string

record dispute =
  dispute_id :: ident
  d_collab_id :: ident
  opened_by :: ident
  opener_type :: string
  opener_name :: string
  d_reason :: string
  d_details :: string
  d_status :: string
  d_created_at :: instant
  d_brand_user_id :: ident
  d_influencer_user_id :: "ident option"
  d_resolution :: "string option"
  d_admin_notes :: "string option"
  d_split_influencer :: "rat option"
  d_split_brand :: "rat option"
  d_resolved_at :: "instant option"

record cancellation =
  cancellation_id :: ident
  x_collab_id :: ident
  requested_by :: ident
  requester_type :: string
  x_reason :: string
  x_details :: string
  x_status :: string
  x_resolution :: "string option"
  x_created_at :: instant
  x_resolved_at :: "instant option"
  x_admin_notes :: "string option"
  partial_amount :: "rat option"

record message =
  message_id :: ident
  m_collab_id :: ident
  sender_id :: ident
  content :: string
  thread_locked :: bool

record review =
  review_id :: ident
  r_application_id :: ident
  r_collab_id :: ident
  reviewer_user_id :: ident
  reviewer_name :: string
  reviewer_type :: string
  reviewed_user_id :: ident
  rating :: rat
  comment :: "string option"
  collab_title :: string
  is_revealed :: bool
  r_created_at :: instant

record commission =
  commission_id :: ident
  k_collab_id :: ident
  k_application_id :: ident
  k_brand_user_id :: ident
  k_influencer_user_id :: ident
  k_gross_amount :: amount
  k_commission_rate :: number
  k_commission_amount :: amount
  k_net_amount :: amount
  k_status :: string
  k_created_at :: instant

record influencer_profile =
  p_user_id :: ident
  avg_rating :: number
  review_count :: nat

text \<open>
  The database, with the one settings document the handlers use (the value stored under
  \<^verbatim>\<open>commission_rate\<close>, if any) and the \<^verbatim>\<open>ADMIN_EMAILS\<close> list of the environment.
\<close>

record world =
  collaborations :: "collaboration list"
  escrow_payments :: "escrow list"
  applications :: "application list"
  disputes :: "dispute list"
  cancellations :: "cancellation list"
  messages :: "message list"
  reviews :: "review list"
  commissions :: "commission list"
  influencer_profiles :: "influencer_profile list"
  settings :: "number option"
  ADMIN_EMAILS :: "string list"

text \<open>\<^verbatim>\<open>updateOne(filter, {$set: ...})\<close> and \<^verbatim>\<open>updateMany\<close>.\<close>

fun updateOne :: "('a \<Rightarrow> bool) \<Rightarrow> ('a \<Rightarrow> 'a) \<Rightarrow> 'a list \<Rightarrow> 'a list" where
  "updateOne P f [] = []"
| "updateOne P f (x # xs) = (if P x then f x # xs else x # updateOne P f xs)"

definition updateMany :: "('a \<Rightarrow> bool) \<Rightarrow> ('a \<Rightarrow> 'a) \<Rightarrow> 'a list \<Rightarrow> 'a list" where
  "updateMany P f xs = map (\<lambda>x. if P x then f x else x) xs"

abbreviation findOne :: "('a \<Rightarrow> bool) \<Rightarrow> 'a list \<Rightarrow> 'a option" where
  "findOne \<equiv> List.find"

section \<open>Failures\<close>

text \<open>
  A handler that stops early answers an HTTP status and a \<^verbatim>\<open>detail\<close> message. Each
  constructor below stands for one message of the source; the specification's failure
  kinds are read off as follows: \<open>Escrow_already_exists\<close> and \<open>Dispute_already_open\<close>
  and \<open>Already_reviewed\<close> are its Conflict, \<open>Funds_not_secured\<close> its PreconditionFailed,
  \<open>Dispute_outside_window\<close>, \<open>Cancellation_blocked\<close>, \<open>Cancellation_not_possible\<close>,
  \<open>Escrow_not_pending\<close>, \<open>Escrow_not_release_ready\<close>, \<open>Cannot_refund\<close>,
  \<open>Dispute_already_resolved\<close> and \<open>Cancellation_already_resolved\<close> its InvalidState.
\<close>

datatype detail =
    Not_authenticated
  | Admin_access_required
  | Not_authorized
  | Collaboration_not_found
  | Funds_not_secured
  | Cancellation_blocked
  | Cancellation_not_possible
  | Dispute_outside_window
  | Dispute_already_open
  | Escrow_only_for_paid
  | Escrow_already_exists
  | Escrow_not_found
  | Escrow_not_pending
  | Escrow_not_release_ready
  | Cannot_refund
  | Dispute_not_found
  | Dispute_already_resolved
  | Cancellation_not_found
  | Cancellation_already_resolved
  | Rate_out_of_range
  | Rating_out_of_range
  | Application_not_found
  | Only_accepted_reviewable
  | Reviews_after_release
  | Collaboration_not_completed
  | Not_authorized_to_review
  | Already_reviewed

datatype failure = Failure nat detail

text \<open>\<^verbatim>\<open>requireAdmin\<close>, once the caller is authenticated.\<close>

definition admin_ok :: "world \<Rightarrow> user \<Rightarrow> bool" where
  "admin_ok w u = (is_admin u \<or> user_email u \<in> set (ADMIN_EMAILS w))"

section \<open>Commission rate and calculator\<close>

text \<open>
  \<^verbatim>\<open>getCommissionRate\<close> reads the settings document with key \<^verbatim>\<open>commission_rate\<close> and
  falls back to \<^verbatim>\<open>DEFAULT_COMMISSION_RATE = 10.0\<close> when there is none.
\<close>

definition DEFAULT_COMMISSION_RATE :: number where
  "DEFAULT_COMMISSION_RATE = Finite 10"

definition getCommissionRate :: "number option \<Rightarrow> number" where
  "getCommissionRate stored = (case stored of Some v \<Rightarrow> v | None \<Rightarrow> DEFAULT_COMMISSION_RATE)"

text \<open>
  \<^verbatim>\<open>GET /commission/calculate\<close>, with the current rate:
  \<^verbatim>\<open>commission = Math.round(amount * rate / 100 * 100) / 100\<close> and
  \<^verbatim>\<open>net_amount = Math.round((amount - commission) * 100) / 100\<close>. \<open>amt\<close> is the number
  that \<^verbatim>\<open>parseFloat\<close> makes of the query parameter.
\<close>

record calculation =
  gross_amount :: amount
  calc_commission_rate :: number
  commission_amount :: amount
  net_amount :: amount

definition calculateCommission :: "world \<Rightarrow> user option \<Rightarrow> amount \<Rightarrow> failure + calculation" where
  "calculateCommission w actor amt =
    (case actor of None \<Rightarrow> Inl (Failure 401 Not_authenticated) | Some usr \<Rightarrow>
       let rate = getCommissionRate (settings w);
           commission = js_div (math_round (js_mul (js_div (js_mul amt rate) (Finite 100)) (Finite 100)))
                          (Finite 100)
       in Inr \<lparr> gross_amount = amt, calc_commission_rate = rate, commission_amount = commission,
                net_amount = js_div (math_round (js_mul (js_sub amt commission) (Finite 100)))
                               (Finite 100) \<rparr>)"

section \<open>Collaboration status\<close>

text \<open>
  \<^verbatim>\<open>PATCH /collaborations/:collab_id/status\<close>. A collaboration whose type is missing
  counts as paid. Asking for \<^verbatim>\<open>completed\<close> on a paid collaboration needs an escrow of the
  collaboration in status \<^verbatim>\<open>secured\<close> and opens the 48 hour confirmation window; on any
  other collaboration it completes at once; every other target status is written as it is.
\<close>

definition is_paid :: "collaboration \<Rightarrow> bool" where
  "is_paid c = (str_or (collaboration_type c) ''paid'' = ''paid'')"

definition update_collaboration_status ::
  "world \<Rightarrow> user option \<Rightarrow> ident \<Rightarrow> string \<Rightarrow> instant \<Rightarrow> failure + world" where
  "update_collaboration_status w actor cid newStatus now =
    (case actor of None \<Rightarrow> Inl (Failure 401 Not_authenticated) | Some usr \<Rightarrow>
     (case findOne (\<lambda>c. collab_id c = cid) (collaborations w) of
        None \<Rightarrow> Inl (Failure 404 Collaboration_not_found)
      | Some collab \<Rightarrow>
         if brand_user_id collab \<noteq> user_id usr then Inl (Failure 403 Not_authorized)
         else if newStatus = ''completed'' \<and> is_paid collab then
           (case findOne (\<lambda>e. e_collab_id e = cid \<and> e_status e = ''secured'') (escrow_payments w) of
              None \<Rightarrow> Inl (Failure 400 Funds_not_secured)
            | Some esc \<Rightarrow>
               let release_at = now + 48 * 60 * 60 * 1000 in
               Inr (w\<lparr> collaborations := updateOne (\<lambda>c. collab_id c = cid)
                          (\<lambda>c. c\<lparr> c_status := ''completed_pending_release'',
                                   c_payment_status := Some ''completed_pending_release'',
                                   c_completed_at := Some now,
                                   c_release_scheduled_at := Some release_at \<rparr>)
                          (collaborations w),
                        escrow_payments := updateOne (\<lambda>e. escrow_id e = escrow_id esc)
                          (\<lambda>e. e\<lparr> e_status := ''completed_pending_release'',
                                   e_completed_at := Some now,
                                   e_release_scheduled_at := Some release_at \<rparr>)
                          (escrow_payments w) \<rparr>))
         else if newStatus = ''completed'' \<and> \<not> is_paid collab then
           Inr (w\<lparr> collaborations := updateOne (\<lambda>c. collab_id c = cid)
                      (\<lambda>c. c\<lparr> c_status := ''completed'', c_payment_status := Some ''none'',
                               c_completed_at := Some now \<rparr>)
                      (collaborations w) \<rparr>)
         else
           Inr (w\<lparr> collaborations := updateOne (\<lambda>c. collab_id c = cid)
                      (\<lambda>c. c\<lparr> c_status := newStatus \<rparr>) (collaborations w) \<rparr>)))"

section \<open>Cancellation\<close>

text \<open>
  The caller of the cancellation and dispute handlers must be the brand of the
  collaboration or an influencer with an accepted application on it.
\<close>

definition accepted_influencer :: "world \<Rightarrow> ident \<Rightarrow> ident \<Rightarrow> bool" where
  "accepted_influencer w cid uid =
     (findOne (\<lambda>a. a_collab_id a = cid \<and> influencer_user_id a = uid \<and> a_status a = ''accepted'')
        (applications w) \<noteq> None)"

text \<open>
  \<^verbatim>\<open>POST /collaborations/:collab_id/cancel\<close>. \<open>new_id\<close> is the identifier that
  \<^verbatim>\<open>genId('cancel')\<close> draws.
\<close>

definition cancel_collaboration ::
  "world \<Rightarrow> user option \<Rightarrow> ident \<Rightarrow> string \<Rightarrow> string \<Rightarrow> ident \<Rightarrow> instant \<Rightarrow> failure + world" where
  "cancel_collaboration w actor cid reason details new_id ts =
    (case actor of None \<Rightarrow> Inl (Failure 401 Not_authenticated) | Some usr \<Rightarrow>
     (case findOne (\<lambda>c. collab_id c = cid) (collaborations w) of
        None \<Rightarrow> Inl (Failure 404 Collaboration_not_found)
      | Some collab \<Rightarrow>
         let is_brand = (brand_user_id collab = user_id usr);
             is_influencer = (\<not> is_brand \<and> accepted_influencer w cid (user_id usr))
         in
         if \<not> is_brand \<and> \<not> is_influencer then Inl (Failure 403 Not_authorized)
         else if c_status collab \<in> set [''completed_pending_release'', ''completed'', ''disputed'', ''cancelled'']
           then Inl (Failure 400 Cancellation_blocked)
         else if c_status collab = ''active'' \<and>
                 str_or (c_payment_status collab) ''none'' \<in> set [''secured'', ''awaiting_escrow'', ''none'']
           then
             let was_secured = (c_payment_status collab = Some ''secured'') in
             Inr (w\<lparr> collaborations := updateOne (\<lambda>c. collab_id c = cid)
                        (\<lambda>c. c\<lparr> c_status := ''cancelled'',
                                 c_payment_status := Some (if was_secured then ''refunded'' else ''none''),
                                 c_cancelled_at := Some ts,
                                 cancelled_by := Some (user_id usr),
                                 cancellation_reason := Some reason \<rparr>)
                        (collaborations w),
                      escrow_payments :=
                        (if was_secured
                         then updateOne (\<lambda>e. e_collab_id e = cid \<and> e_status e = ''secured'')
                                (\<lambda>e. e\<lparr> e_status := ''refunded'', refunded_at := Some ts \<rparr>)
                                (escrow_payments w)
                         else escrow_payments w),
                      cancellations := cancellations w @
                        [\<lparr> cancellation_id = new_id, x_collab_id = cid, requested_by = user_id usr,
                           requester_type = (if is_brand then ''brand'' else ''influencer''),
                           x_reason = reason, x_details = details, x_status = ''completed'',
                           x_resolution = Some (if was_secured then ''full_refund'' else ''no_payment''),
                           x_created_at = ts, x_resolved_at = Some ts,
                           x_admin_notes = None, partial_amount = None \<rparr>] \<rparr>)
         else if c_status collab = ''in_progress'' then
             let requesterType = (if is_brand then ''brand'' else ''influencer'');
                 cancelStatus = ''cancellation_requested_by_'' @ requesterType
             in
             Inr (w\<lparr> collaborations := updateOne (\<lambda>c. collab_id c = cid)
                        (\<lambda>c. c\<lparr> c_status := cancelStatus \<rparr>) (collaborations w),
                      cancellations := cancellations w @
                        [\<lparr> cancellation_id = new_id, x_collab_id = cid, requested_by = user_id usr,
                           requester_type = requesterType,
                           x_reason = reason, x_details = details, x_status = ''pending_admin_review'',
                           x_resolution = None, x_created_at = ts, x_resolved_at = None,
                           x_admin_notes = None, partial_amount = None \<rparr>] \<rparr>)
         else Inl (Failure 400 Cancellation_not_possible)))"

text \<open>
  \<^verbatim>\<open>PATCH /admin/cancellations/:cancellation_id/resolve\<close>. The body's
  \<^verbatim>\<open>partial_amount\<close> defaults to 0 and \<^verbatim>\<open>admin_notes\<close> to the empty string.
\<close>

definition resolve_cancellation ::
  "world \<Rightarrow> user option \<Rightarrow> ident \<Rightarrow> string \<Rightarrow> string \<Rightarrow> rat \<Rightarrow> instant \<Rightarrow> failure + world" where
  "resolve_cancellation w actor xid resolution admin_notes partial ts =
    (case actor of None \<Rightarrow> Inl (Failure 401 Not_authenticated) | Some usr \<Rightarrow>
     if \<not> admin_ok w usr then Inl (Failure 403 Admin_access_required) else
     (case findOne (\<lambda>x. cancellation_id x = xid) (cancellations w) of
        None \<Rightarrow> Inl (Failure 404 Cancellation_not_found)
      | Some canc \<Rightarrow>
         if x_status canc \<noteq> ''pending_admin_review'' then Inl (Failure 400 Cancellation_already_resolved)
         else
           let cid = x_collab_id canc;
               refundable = (\<lambda>e. e_collab_id e = cid \<and>
                                  e_status e \<in> set [''secured'', ''completed_pending_release'']);
               w1 =
                (if resolution = ''full_refund'' then
                   w\<lparr> collaborations := updateOne (\<lambda>c. collab_id c = cid)
                          (\<lambda>c. c\<lparr> c_status := ''cancelled'', c_payment_status := Some ''refunded'',
                                   c_cancelled_at := Some ts \<rparr>) (collaborations w),
                       escrow_payments := updateOne refundable
                          (\<lambda>e. e\<lparr> e_status := ''refunded'', refunded_at := Some ts \<rparr>)
                          (escrow_payments w) \<rparr>
                 else if resolution = ''partial_refund'' then
                   w\<lparr> collaborations := updateOne (\<lambda>c. collab_id c = cid)
                          (\<lambda>c. c\<lparr> c_status := ''cancelled'', c_payment_status := Some ''partial_refund'',
                                   c_cancelled_at := Some ts \<rparr>) (collaborations w),
                       escrow_payments :=
                          (case findOne refundable (escrow_payments w) of
                             None \<Rightarrow> escrow_payments w
                           | Some esc \<Rightarrow> updateOne (\<lambda>e. escrow_id e = escrow_id esc)
                               (\<lambda>e. e\<lparr> e_status := ''partial_refund'',
                                        partial_refund_amount := Some partial,
                                        refunded_at := Some ts \<rparr>)
                               (escrow_payments w)) \<rparr>
                 else if resolution = ''continue'' then
                   w\<lparr> collaborations := updateOne (\<lambda>c. collab_id c = cid)
                          (\<lambda>c. c\<lparr> c_status := ''in_progress'' \<rparr>) (collaborations w) \<rparr>
                 else w)
           in
           Inr (w1\<lparr> cancellations := updateOne (\<lambda>x. cancellation_id x = xid)
                        (\<lambda>x. x\<lparr> x_status := ''resolved'', x_resolution := Some resolution,
                                 x_admin_notes := Some admin_notes,
                                 partial_amount := (if resolution = ''partial_refund'' then Some partial else None),
                                 x_resolved_at := Some ts \<rparr>)
                        (cancellations w1) \<rparr>)))"

section \<open>Disputes\<close>

text \<open>
  \<^verbatim>\<open>POST /disputes/create/:collab_id\<close>. The status of the collaboration is examined
  first, then the caller, then whether a dispute is already open. \<open>new_id\<close> is the
  identifier that \<^verbatim>\<open>genId('dispute')\<close> draws.
\<close>

definition create_dispute ::
  "world \<Rightarrow> user option \<Rightarrow> ident \<Rightarrow> string \<Rightarrow> string \<Rightarrow> ident \<Rightarrow> instant \<Rightarrow> failure + world" where
  "create_dispute w actor cid reason details new_id ts =
    (case actor of None \<Rightarrow> Inl (Failure 401 Not_authenticated) | Some usr \<Rightarrow>
     (case findOne (\<lambda>c. collab_id c = cid) (collaborations w) of
        None \<Rightarrow> Inl (Failure 404 Collaboration_not_found)
      | Some collab \<Rightarrow>
         if c_status collab \<noteq> ''completed_pending_release'' then Inl (Failure 400 Dispute_outside_window)
         else
           let is_brand = (brand_user_id collab = user_id usr);
               is_influencer = (\<not> is_brand \<and> accepted_influencer w cid (user_id usr))
           in
           if \<not> is_brand \<and> \<not> is_influencer then Inl (Failure 403 Not_authorized)
           else if findOne (\<lambda>d. d_collab_id d = cid \<and> d_status d \<in> set [''open'', ''under_review''])
                     (disputes w) \<noteq> None
             then Inl (Failure 400 Dispute_already_open)
           else
             let infApp = findOne (\<lambda>a. a_collab_id a = cid \<and> a_status a = ''accepted'') (applications w);
                 disputeDoc =
                   \<lparr> dispute_id = new_id, d_collab_id = cid, opened_by = user_id usr,
                     opener_type = (if is_brand then ''brand'' else ''influencer''),
                     opener_name = user_name usr, d_reason = reason, d_details = details,
                     d_status = ''open'', d_created_at = ts, d_brand_user_id = brand_user_id collab,
                     d_influencer_user_id =
                       (case infApp of None \<Rightarrow> None
                        | Some a \<Rightarrow> if influencer_user_id a = [] then None else Some (influencer_user_id a)),
                     d_resolution = None, d_admin_notes = None, d_split_influencer = None,
                     d_split_brand = None, d_resolved_at = None \<rparr>
             in
             Inr (w\<lparr> disputes := disputes w @ [disputeDoc],
                      collaborations := updateOne (\<lambda>c. collab_id c = cid)
                        (\<lambda>c. c\<lparr> c_status := ''disputed'', c_payment_status := Some ''disputed'',
                                 c_disputed_at := Some ts \<rparr>) (collaborations w),
                      escrow_payments := updateOne
                        (\<lambda>e. e_collab_id e = cid \<and> e_status e = ''completed_pending_release'')
                        (\<lambda>e. e\<lparr> e_status := ''disputed'', e_disputed_at := Some ts \<rparr>)
                        (escrow_payments w),
                      messages := updateMany (\<lambda>m. m_collab_id m = cid)
                        (\<lambda>m. m\<lparr> thread_locked := True \<rparr>) (messages w) \<rparr>)))"

section \<open>Commission records\<close>

text \<open>
  The loop shared by the release handler and by the dispute resolution in favour of the
  influencer: one commission document for each accepted application, on the application's
  \<^verbatim>\<open>proposed_price\<close>, or on the escrow's \<^verbatim>\<open>total_amount\<close> when the price is missing
  or 0, with \<^verbatim>\<open>commission = Math.round(proposed * rate / 100 * 100) / 100\<close> and
  \<^verbatim>\<open>net = Math.round((proposed - commission) * 100) / 100\<close>. \<open>gen i\<close> is the identifier
  that \<^verbatim>\<open>genId('comm')\<close> draws in round \<open>i\<close>.
\<close>

definition commission_doc ::
  "escrow \<Rightarrow> ident \<Rightarrow> number \<Rightarrow> instant \<Rightarrow> ident \<Rightarrow> application \<Rightarrow> commission" where
  "commission_doc esc cid rate ts new_id a =
     (let proposed = num_or (proposed_price a) (num_or (Some (total_amount esc)) (Finite 0));
          commission = js_div (math_round (js_mul (js_div (js_mul proposed rate) (Finite 100)) (Finite 100)))
                         (Finite 100);
          net = js_div (math_round (js_mul (js_sub proposed commission) (Finite 100))) (Finite 100)
      in \<lparr> commission_id = new_id, k_collab_id = cid, k_application_id = application_id a,
           k_brand_user_id = e_brand_user_id esc, k_influencer_user_id = influencer_user_id a,
           k_gross_amount = proposed, k_commission_rate = rate, k_commission_amount = commission,
           k_net_amount = net, k_status = ''completed'', k_created_at = ts \<rparr>)"

fun commission_docs ::
  "escrow \<Rightarrow> ident \<Rightarrow> number \<Rightarrow> instant \<Rightarrow> (nat \<Rightarrow> ident) \<Rightarrow> nat \<Rightarrow> application list \<Rightarrow> commission list" where
  "commission_docs esc cid rate ts gen i [] = []"
| "commission_docs esc cid rate ts gen i (a # as) =
     commission_doc esc cid rate ts (gen i) a # commission_docs esc cid rate ts gen (Suc i) as"

text \<open>
  The rate of a release, as the Express server takes it:
  \<^verbatim>\<open>escrow.commission_rate || await getCommissionRate()\<close>.
\<close>

definition release_rate :: "world \<Rightarrow> escrow \<Rightarrow> number" where
  "release_rate w esc = num_or (commission_rate esc) (getCommissionRate (settings w))"

text \<open>
  The same line of the FastAPI server,
  \<^verbatim>\<open>escrow.get('commission_rate', await get_commission_rate())\<close>: the stored rate
  whenever the escrow has one.
\<close>

definition release_rate_py :: "world \<Rightarrow> escrow \<Rightarrow> number" where
  "release_rate_py w esc =
     (case commission_rate esc of Some r \<Rightarrow> r | None \<Rightarrow> getCommissionRate (settings w))"

definition accepted_apps :: "world \<Rightarrow> ident \<Rightarrow> application list" where
  "accepted_apps w cid = filter (\<lambda>a. a_collab_id a = cid \<and> a_status a = ''accepted'') (applications w)"

text \<open>
  \<^verbatim>\<open>PATCH /admin/disputes/:dispute_id/resolve\<close>. The body's \<^verbatim>\<open>split_influencer\<close> and
  \<^verbatim>\<open>split_brand\<close> default to 0 and \<^verbatim>\<open>admin_notes\<close> to the empty string. A resolution
  that is none of the three known ones falls through every branch.
\<close>

definition resolve_dispute ::
  "world \<Rightarrow> user option \<Rightarrow> ident \<Rightarrow> string \<Rightarrow> string \<Rightarrow> rat \<Rightarrow> rat \<Rightarrow> (nat \<Rightarrow> ident) \<Rightarrow> instant
     \<Rightarrow> failure + world" where
  "resolve_dispute w actor did resolution admin_notes split_influencer split_brand gen ts =
    (case actor of None \<Rightarrow> Inl (Failure 401 Not_authenticated) | Some usr \<Rightarrow>
     if \<not> admin_ok w usr then Inl (Failure 403 Admin_access_required) else
     (case findOne (\<lambda>d. dispute_id d = did) (disputes w) of
        None \<Rightarrow> Inl (Failure 404 Dispute_not_found)
      | Some disp \<Rightarrow>
         if d_status disp = ''resolved'' then Inl (Failure 400 Dispute_already_resolved)
         else
           let cid = d_collab_id disp;
               found = findOne (\<lambda>e. e_collab_id e = cid \<and> e_status e = ''disputed'') (escrow_payments w);
               w1 =
                (if resolution = ''release_to_influencer'' then
                   (case found of
                      None \<Rightarrow> w
                    | Some esc \<Rightarrow>
                        w\<lparr> commissions := commissions w @
                              commission_docs esc cid (release_rate w esc) ts gen 0 (accepted_apps w cid),
                            escrow_payments := updateOne (\<lambda>e. escrow_id e = escrow_id esc)
                              (\<lambda>e. e\<lparr> e_status := ''released'', e_released_at := Some ts \<rparr>)
                              (escrow_payments w) \<rparr>)
                   \<lparr> collaborations := updateOne (\<lambda>c. collab_id c = cid)
                        (\<lambda>c. c\<lparr> c_status := ''completed'', c_payment_status := Some ''released'',
                                 c_released_at := Some ts \<rparr>) (collaborations w) \<rparr>
                 else if resolution = ''refund_to_brand'' then
                   w\<lparr> escrow_payments :=
                        (case found of None \<Rightarrow> escrow_payments w
                         | Some esc \<Rightarrow> updateOne (\<lambda>e. escrow_id e = escrow_id esc)
                              (\<lambda>e. e\<lparr> e_status := ''refunded'', refunded_at := Some ts \<rparr>)
                              (escrow_payments w)),
                       collaborations := updateOne (\<lambda>c. collab_id c = cid)
                        (\<lambda>c. c\<lparr> c_status := ''cancelled'', c_payment_status := Some ''refunded'',
                                 c_cancelled_at := Some ts \<rparr>) (collaborations w) \<rparr>
                 else if resolution = ''split'' then
                   w\<lparr> escrow_payments :=
                        (case found of None \<Rightarrow> escrow_payments w
                         | Some esc \<Rightarrow> updateOne (\<lambda>e. escrow_id e = escrow_id esc)
                              (\<lambda>e. e\<lparr> e_status := ''split_resolved'',
                                       e_split_influencer := Some split_influencer,
                                       e_split_brand := Some split_brand,
                                       e_resolved_at := Some ts \<rparr>)
                              (escrow_payments w)),
                       collaborations := updateOne (\<lambda>c. collab_id c = cid)
                        (\<lambda>c. c\<lparr> c_status := ''completed'', c_payment_status := Some ''split_resolved'' \<rparr>)
                        (collaborations w) \<rparr>
                 else w)
           in
           Inr (w1\<lparr> disputes := updateOne (\<lambda>d. dispute_id d = did)
                        (\<lambda>d. d\<lparr> d_status := ''resolved'', d_resolution := Some resolution,
                                 d_admin_notes := Some admin_notes,
                                 d_split_influencer := (if resolution = ''split'' then Some split_influencer else None),
                                 d_split_brand := (if resolution = ''split'' then Some split_brand else None),
                                 d_resolved_at := Some ts \<rparr>)
                        (disputes w1) \<rparr>)))"

section \<open>Escrow\<close>

text \<open>
  \<^verbatim>\<open>POST /escrow/create/:collab_id\<close>. The budget is
  \<^verbatim>\<open>collab.budget_max || collab.budget_min || 0\<close>; the rate is read from the settings
  at this moment and stored in the escrow;
  \<^verbatim>\<open>commission = Math.round(budget * rate / 100 * 100) / 100\<close> and
  \<^verbatim>\<open>influencer_payout = Math.round((budget - commission) * 100) / 100\<close>. \<open>new_id\<close> is
  the identifier that \<^verbatim>\<open>genId('escrow')\<close> draws.
\<close>

definition new_escrow :: "ident \<Rightarrow> ident \<Rightarrow> ident \<Rightarrow> number \<Rightarrow> number \<Rightarrow> instant \<Rightarrow> escrow" where
  "new_escrow new_id cid uid budget rate ts =
     (let commission = js_div (math_round (js_mul (js_div (js_mul budget rate) (Finite 100)) (Finite 100)))
                         (Finite 100);
          payout = js_div (math_round (js_mul (js_sub budget commission) (Finite 100))) (Finite 100)
      in \<lparr> escrow_id = new_id, e_collab_id = cid, e_brand_user_id = uid,
           total_amount = budget, influencer_payout = payout, platform_commission = commission,
           commission_rate = Some rate, e_payment_status = ''pending'', e_status = ''pending'',
           payment_provider = ''mock'', payment_reference = None, e_created_at = ts,
           secured_at = None, e_completed_at = None, e_release_scheduled_at = None,
           e_released_at = None, refunded_at = None, e_disputed_at = None, e_resolved_at = None,
           e_split_influencer = None, e_split_brand = None, partial_refund_amount = None \<rparr>)"

definition create_escrow ::
  "world \<Rightarrow> user option \<Rightarrow> ident \<Rightarrow> ident \<Rightarrow> instant \<Rightarrow> failure + world" where
  "create_escrow w actor cid new_id ts =
    (case actor of None \<Rightarrow> Inl (Failure 401 Not_authenticated) | Some usr \<Rightarrow>
     (case findOne (\<lambda>c. collab_id c = cid) (collaborations w) of
        None \<Rightarrow> Inl (Failure 404 Collaboration_not_found)
      | Some collab \<Rightarrow>
         if brand_user_id collab \<noteq> user_id usr then Inl (Failure 403 Not_authorized)
         else if str_or (collaboration_type collab) ''paid'' \<noteq> ''paid''
           then Inl (Failure 400 Escrow_only_for_paid)
         else if findOne (\<lambda>e. e_collab_id e = cid \<and> e_status e \<in> set [''pending'', ''secured''])
                   (escrow_payments w) \<noteq> None
           then Inl (Failure 400 Escrow_already_exists)
         else
           let rate = getCommissionRate (settings w);
               budget = num_or (budget_max collab) (num_or (budget_min collab) (Finite 0))
           in Inr (w\<lparr> escrow_payments := escrow_payments w @
                          [new_escrow new_id cid (user_id usr) budget rate ts] \<rparr>)))"

text \<open>
  \<^verbatim>\<open>POST /escrow/:escrow_id/secure\<close>, with the mock provider. \<open>payment_ref\<close> is the
  reference that the handler draws.
\<close>

definition secure_escrow_payment ::
  "world \<Rightarrow> user option \<Rightarrow> ident \<Rightarrow> string \<Rightarrow> instant \<Rightarrow> failure + world" where
  "secure_escrow_payment w actor eid payment_ref ts =
    (case actor of None \<Rightarrow> Inl (Failure 401 Not_authenticated) | Some usr \<Rightarrow>
     (case findOne (\<lambda>e. escrow_id e = eid) (escrow_payments w) of
        None \<Rightarrow> Inl (Failure 404 Escrow_not_found)
      | Some esc \<Rightarrow>
         if e_brand_user_id esc \<noteq> user_id usr then Inl (Failure 403 Not_authorized)
         else if e_status esc \<noteq> ''pending'' then Inl (Failure 400 Escrow_not_pending)
         else
           Inr (w\<lparr> escrow_payments := updateOne (\<lambda>e. escrow_id e = eid)
                      (\<lambda>e. e\<lparr> e_status := ''secured'', payment_reference := Some payment_ref,
                               secured_at := Some ts \<rparr>) (escrow_payments w),
                    collaborations := updateOne (\<lambda>c. collab_id c = e_collab_id esc)
                      (\<lambda>c. c\<lparr> c_payment_status := Some ''secured'', c_escrow_id := Some eid \<rparr>)
                      (collaborations w) \<rparr>)))"

text \<open>\<^verbatim>\<open>POST /escrow/:escrow_id/release\<close>, by the brand of the escrow or a user flagged admin.\<close>

definition release_escrow ::
  "world \<Rightarrow> user option \<Rightarrow> ident \<Rightarrow> (nat \<Rightarrow> ident) \<Rightarrow> instant \<Rightarrow> failure + world" where
  "release_escrow w actor eid gen ts =
    (case actor of None \<Rightarrow> Inl (Failure 401 Not_authenticated) | Some usr \<Rightarrow>
     (case findOne (\<lambda>e. escrow_id e = eid) (escrow_payments w) of
        None \<Rightarrow> Inl (Failure 404 Escrow_not_found)
      | Some esc \<Rightarrow>
         if e_brand_user_id esc \<noteq> user_id usr \<and> \<not> is_admin usr then Inl (Failure 403 Not_authorized)
         else if e_status esc \<noteq> ''completed_pending_release'' then Inl (Failure 400 Escrow_not_release_ready)
         else
           Inr (w\<lparr> commissions := commissions w @
                      commission_docs esc (e_collab_id esc) (release_rate w esc) ts gen 0
                        (accepted_apps w (e_collab_id esc)),
                    escrow_payments := updateOne (\<lambda>e. escrow_id e = eid)
                      (\<lambda>e. e\<lparr> e_status := ''released'', e_released_at := Some ts \<rparr>) (escrow_payments w),
                    collaborations := updateOne (\<lambda>c. collab_id c = e_collab_id esc)
                      (\<lambda>c. c\<lparr> c_status := ''completed'', c_payment_status := Some ''released'',
                               c_released_at := Some ts \<rparr>) (collaborations w) \<rparr>)))"

text \<open>\<^verbatim>\<open>POST /escrow/:escrow_id/refund\<close>.\<close>

definition refund_escrow :: "world \<Rightarrow> user option \<Rightarrow> ident \<Rightarrow> instant \<Rightarrow> failure + world" where
  "refund_escrow w actor eid ts =
    (case actor of None \<Rightarrow> Inl (Failure 401 Not_authenticated) | Some usr \<Rightarrow>
     (case findOne (\<lambda>e. escrow_id e = eid) (escrow_payments w) of
        None \<Rightarrow> Inl (Failure 404 Escrow_not_found)
      | Some esc \<Rightarrow>
         if e_brand_user_id esc \<noteq> user_id usr \<and> \<not> is_admin usr then Inl (Failure 403 Not_authorized)
         else if e_status esc \<notin> set [''secured'', ''completed_pending_release'']
           then Inl (Failure 400 Cannot_refund)
         else
           Inr (w\<lparr> escrow_payments := updateOne (\<lambda>e. escrow_id e = eid)
                      (\<lambda>e. e\<lparr> e_status := ''refunded'', refunded_at := Some ts \<rparr>) (escrow_payments w),
                    collaborations := updateOne (\<lambda>c. collab_id c = e_collab_id esc)
                      (\<lambda>c. c\<lparr> c_payment_status := Some ''refunded'' \<rparr>) (collaborations w) \<rparr>)))"

section \<open>Commission rate setting\<close>

text \<open>
  \<^verbatim>\<open>PUT /settings/commission\<close>: a rate that is missing, below 0 or above 100 is
  refused; any other replaces the stored one. \<open>body_rate\<close> is the number in the body's
  \<^verbatim>\<open>commission_rate\<close>, if there is one.
\<close>

definition update_commission :: "world \<Rightarrow> user option \<Rightarrow> number option \<Rightarrow> failure + world" where
  "update_commission w actor body_rate =
    (case actor of None \<Rightarrow> Inl (Failure 401 Not_authenticated) | Some usr \<Rightarrow>
     if \<not> admin_ok w usr then Inl (Failure 403 Admin_access_required) else
     (case body_rate of
        None \<Rightarrow> Inl (Failure 400 Rate_out_of_range)
      | Some r \<Rightarrow> if js_less r (Finite 0) \<or> js_less (Finite 100) r then Inl (Failure 400 Rate_out_of_range)
                  else Inr (w\<lparr> settings := Some r \<rparr>)))"

section \<open>Reviews\<close>

text \<open>
  \<^verbatim>\<open>updateInfluencerRating\<close>: the average of the ratings of the revealed reviews that
  brands wrote about the user, rounded to one decimal by
  \<^verbatim>\<open>Math.round(avg * 10) / 10\<close>, and their number; nothing is written when there is no
  such review. The average is the \<^verbatim>\<open>$avg\<close> of a MongoDB aggregation, which is not part of
  the server: it is taken to be the sum of the ratings, as a double, divided by their
  number. A rating is a number that the review handler has accepted, so it is finite.
\<close>

definition aggregate_avg :: "rat list \<Rightarrow> number" where
  "aggregate_avg xs = js_div (to_double (sum_list xs)) (Finite (of_nat (length xs)))"

definition updateInfluencerRating :: "ident \<Rightarrow> world \<Rightarrow> world" where
  "updateInfluencerRating userId w =
     (let matching = filter (\<lambda>r. reviewed_user_id r = userId \<and> reviewer_type r = ''brand'' \<and> is_revealed r)
                       (reviews w)
      in if matching = [] then w
         else
           let avg = aggregate_avg (map rating matching) in
           w\<lparr> influencer_profiles := updateOne (\<lambda>p. p_user_id p = userId)
                 (\<lambda>p. p\<lparr> avg_rating := js_div (math_round (js_mul avg (Finite 10))) (Finite 10),
                          review_count := length matching \<rparr>)
                 (influencer_profiles w) \<rparr>)"

definition REVIEW_REVEAL_TIMEOUT_DAYS :: int where
  "REVIEW_REVEAL_TIMEOUT_DAYS = 14"

text \<open>
  \<^verbatim>\<open>autoRevealTimedOutReviews\<close>, which \<^verbatim>\<open>GET /reviews/user/:user_id\<close> runs before it
  answers: every unrevealed review older than 14 days is revealed, and the rating of each
  influencer that such a brand review is about is computed again (each influencer once, in
  the order of first appearance, as the \<^verbatim>\<open>Set\<close> of the source iterates).
\<close>

definition autoRevealTimedOutReviews :: "world \<Rightarrow> instant \<Rightarrow> world" where
  "autoRevealTimedOutReviews w now =
     (let cutoff = now - REVIEW_REVEAL_TIMEOUT_DAYS * 24 * 60 * 60 * 1000;
          unrevealed = filter (\<lambda>r. \<not> is_revealed r \<and> r_created_at r < cutoff) (reviews w)
      in if unrevealed = [] then w
         else
           let ids = map review_id unrevealed;
               w1 = w\<lparr> reviews := updateMany (\<lambda>r. review_id r \<in> set ids)
                                     (\<lambda>r. r\<lparr> is_revealed := True \<rparr>) (reviews w) \<rparr>;
               affected = rev (remdups (rev (map reviewed_user_id
                                    (filter (\<lambda>r. reviewer_type r = ''brand'') unrevealed))))
           in fold updateInfluencerRating affected w1)"

text \<open>
  \<^verbatim>\<open>POST /reviews\<close>. The document is stored unrevealed; when a review of the same
  application by another user exists, every review of the application is revealed and the
  rating of the application's influencer is computed again. The handler answers with the
  document as it built it. \<open>new_id\<close> is the identifier that \<^verbatim>\<open>genId('review')\<close> draws;
  \<open>rating_in\<close> is the number in the body's \<^verbatim>\<open>rating\<close>, 0 standing for a missing one.
\<close>

definition create_review ::
  "world \<Rightarrow> user option \<Rightarrow> ident \<Rightarrow> rat \<Rightarrow> string option \<Rightarrow> ident \<Rightarrow> instant \<Rightarrow> failure + review \<times> world" where
  "create_review w actor aid rating_in comment_in new_id ts =
    (case actor of None \<Rightarrow> Inl (Failure 401 Not_authenticated) | Some usr \<Rightarrow>
     if rating_in = 0 \<or> rating_in < 1 \<or> rating_in > 5 then Inl (Failure 400 Rating_out_of_range) else
     (case findOne (\<lambda>a. application_id a = aid) (applications w) of
        None \<Rightarrow> Inl (Failure 404 Application_not_found)
      | Some app \<Rightarrow>
         if a_status app \<noteq> ''accepted'' then Inl (Failure 400 Only_accepted_reviewable) else
         (case findOne (\<lambda>c. collab_id c = a_collab_id app) (collaborations w) of
            None \<Rightarrow> Inl (Failure 404 Collaboration_not_found)
          | Some collab \<Rightarrow>
             if is_paid collab \<and> c_payment_status collab \<noteq> Some ''released''
               then Inl (Failure 400 Reviews_after_release)
             else if \<not> is_paid collab \<and> c_status collab \<notin> set [''completed'', ''completed_pending_release'']
               then Inl (Failure 400 Collaboration_not_completed)
             else
               let is_brand = (brand_user_id collab = user_id usr);
                   is_influencer = (influencer_user_id app = user_id usr)
               in
               if \<not> is_brand \<and> \<not> is_influencer then Inl (Failure 403 Not_authorized_to_review)
               else if findOne (\<lambda>r. r_application_id r = aid \<and> reviewer_user_id r = user_id usr)
                         (reviews w) \<noteq> None
                 then Inl (Failure 400 Already_reviewed)
               else
                 let reviewDoc =
                       \<lparr> review_id = new_id, r_application_id = aid, r_collab_id = collab_id collab,
                         reviewer_user_id = user_id usr, reviewer_name = user_name usr,
                         reviewer_type = (if is_brand then ''brand'' else ''influencer''),
                         reviewed_user_id = (if is_brand then influencer_user_id app else brand_user_id collab),
                         rating = rating_in,
                         comment = (case comment_in of None \<Rightarrow> None
                                    | Some s \<Rightarrow> if s = [] then None else Some s),
                         collab_title = title collab, is_revealed = False, r_created_at = ts \<rparr>;
                     w1 = w\<lparr> reviews := reviews w @ [reviewDoc] \<rparr>
                 in
                 if findOne (\<lambda>r. r_application_id r = aid \<and> reviewer_user_id r \<noteq> user_id usr)
                      (reviews w1) \<noteq> None
                 then Inr (reviewDoc,
                           updateInfluencerRating (influencer_user_id app)
                             (w1\<lparr> reviews := updateMany (\<lambda>r. r_application_id r = aid)
                                               (\<lambda>r. r\<lparr> is_revealed := True \<rparr>) (reviews w1) \<rparr>))
                 else Inr (reviewDoc, w1))))"

section \<open>Commands\<close>

text \<open>
  The commands of the escrow, cancellation, dispute and review state machine, and one step
  of the system. No other handler of the server writes to the escrow, dispute,
  cancellation, review or commission collection.
\<close>

datatype command =
    Change_status "user option" ident string instant
  | Cancel "user option" ident string string ident instant
  | Resolve_cancellation "user option" ident string string rat instant
  | Open_dispute "user option" ident string string ident instant
  | Resolve_dispute "user option" ident string string rat rat "nat \<Rightarrow> ident" instant
  | Create_escrow "user option" ident ident instant
  | Secure_escrow "user option" ident string instant
  | Release_escrow "user option" ident "nat \<Rightarrow> ident" instant
  | Refund_escrow "user option" ident instant
  | Set_commission "user option" "number option"
  | Submit_review "user option" ident rat "string option" ident instant
  | Read_reviews instant

fun exec :: "world \<Rightarrow> command \<Rightarrow> failure + world" where
  "exec w (Change_status actor cid s now) = update_collaboration_status w actor cid s now"
| "exec w (Cancel actor cid reason details new_id ts) = cancel_collaboration w actor cid reason details new_id ts"
| "exec w (Resolve_cancellation actor xid res notes partial ts) = resolve_cancellation w actor xid res notes partial ts"
| "exec w (Open_dispute actor cid reason details new_id ts) = create_dispute w actor cid reason details new_id ts"
| "exec w (Resolve_dispute actor did res notes si sb gen ts) = resolve_dispute w actor did res notes si sb gen ts"
| "exec w (Create_escrow actor cid new_id ts) = create_escrow w actor cid new_id ts"
| "exec w (Secure_escrow actor eid payment_ref ts) = secure_escrow_payment w actor eid payment_ref ts"
| "exec w (Release_escrow actor eid gen ts) = release_escrow w actor eid gen ts"
| "exec w (Refund_escrow actor eid ts) = refund_escrow w actor eid ts"
| "exec w (Set_commission actor r) = update_commission w actor r"
| "exec w (Submit_review actor aid rating_in comment_in new_id ts) =
     map_sum id snd (create_review w actor aid rating_in comment_in new_id ts)"
| "exec w (Read_reviews now) = Inr (autoRevealTimedOutReviews w now)"

text \<open>A run of commands; a command that fails leaves the database as it was.\<close>

fun run :: "world \<Rightarrow> command list \<Rightarrow> world" where
  "run w [] = w"
| "run w (c # cs) = (case exec w c of Inl _ \<Rightarrow> run w cs | Inr w' \<Rightarrow> run w' cs)"

section \<open>A small database\<close>

text \<open>
  One brand, one influencer with an accepted application, one administrator, and one paid
  collaboration with a budget of 1000 and one message; no commission rate is stored, so the
  default of 10 percent applies. The worlds below are this database at later moments of the
  life of the collaboration.
\<close>

definition brand0 :: user where
  "brand0 = \<lparr> user_id = ''b1'', user_name = ''Brand'', user_email = ''brand@example.org'', is_admin = False \<rparr>"

definition influencer0 :: user where
  "influencer0 = \<lparr> user_id = ''i1'', user_name = ''Creator'', user_email = ''creator@example.org'', is_admin = False \<rparr>"

definition admin0 :: user where
  "admin0 = \<lparr> user_id = ''a1'', user_name = ''Admin'', user_email = ''admin@example.org'', is_admin = True \<rparr>"

definition collab0 :: collaboration where
  "collab0 = \<lparr> collab_id = ''c1'', brand_user_id = ''b1'', title = ''Launch'',
      collaboration_type = Some ''paid'', budget_min = Some (Finite 1000), budget_max = None,
      c_status = ''active'', c_payment_status = Some ''awaiting_escrow'', c_escrow_id = None,
      c_completed_at = None, c_release_scheduled_at = None, c_cancelled_at = None,
      cancelled_by = None, cancellation_reason = None, c_disputed_at = None,
      c_released_at = None \<rparr>"

definition application0 :: application where
  "application0 = \<lparr> application_id = ''app1'', a_collab_id = ''c1'', influencer_user_id = ''i1'',
      proposed_price = None, a_status = ''accepted'' \<rparr>"

definition message0 :: message where
  "message0 = \<lparr> message_id = ''m1'', m_collab_id = ''c1'', sender_id = ''b1'',
      content = ''hello'', thread_locked = False \<rparr>"

definition profile0 :: influencer_profile where
  "profile0 = \<lparr> p_user_id = ''i1'', avg_rating = Finite 0, review_count = 0 \<rparr>"

definition world0 :: world where
  "world0 = \<lparr> collaborations = [collab0], escrow_payments = [], applications = [application0],
      disputes = [], cancellations = [], messages = [message0], reviews = [], commissions = [],
      influencer_profiles = [profile0], settings = None, ADMIN_EMAILS = [] \<rparr>"

text \<open>The escrow \<^verbatim>\<open>e1\<close> created at instant 1 and secured at instant 2.\<close>

definition world_secured :: world where
  "world_secured = run world0
     [Create_escrow (Some brand0) ''c1'' ''e1'' 1, Secure_escrow (Some brand0) ''e1'' ''pay1'' 2]"

text \<open>The brand marks the collaboration completed at instant 3: the confirmation window.\<close>

definition world_window :: world where
  "world_window = run world_secured [Change_status (Some brand0) ''c1'' ''completed'' 3]"

text \<open>The influencer opens the dispute \<^verbatim>\<open>d1\<close> at instant 4.\<close>

definition world_disputed :: world where
  "world_disputed = run world_window
     [Open_dispute (Some influencer0) ''c1'' ''quality'' ''late'' ''d1'' 4]"

text \<open>
  Instead of a dispute, the brand releases the funds at instant 4; the commission record
  gets the identifier \<^verbatim>\<open>k1\<close>.
\<close>

definition world_released :: world where
  "world_released = run world_window [Release_escrow (Some brand0) ''e1'' (\<lambda>i. ''k1'') 4]"

text \<open>
  The administrator resolves the dispute \<^verbatim>\<open>d1\<close> at instant 5 with a resolution that is
  none of the three known ones.
\<close>

definition world_unknown_resolution :: world where
  "world_unknown_resolution = run world_disputed
     [Resolve_dispute (Some admin0) ''d1'' ''escalate'' ''see ticket'' 0 0 (\<lambda>i. ''k1'') 5]"

text \<open>
  The same collaboration while the stored commission rate is 0: the escrow \<^verbatim>\<open>e1\<close> is
  created, secured and brought into the confirmation window, and only then the
  administrator raises the rate to 10.
\<close>

definition world_zero_rate :: world where
  "world_zero_rate = run (world0\<lparr> settings := Some (Finite 0) \<rparr>)
     [Create_escrow (Some brand0) ''c1'' ''e1'' 1, Secure_escrow (Some brand0) ''e1'' ''pay1'' 2,
      Change_status (Some brand0) ''c1'' ''completed'' 3, Set_commission (Some admin0) (Some (Finite 10))]"

text \<open>
  After the release the brand reviews the influencer at instant 5 with 4 stars, and the
  influencer reviews the brand at instant 6 with 5 stars.
\<close>

definition world_first_review :: world where
  "world_first_review = run world_released
     [Submit_review (Some brand0) ''app1'' 4 (Some ''on time'') ''r1'' 5]"

definition world_second_review :: world where
  "world_second_review = run world_first_review
     [Submit_review (Some influencer0) ''app1'' 5 None ''r2'' 6]"

text \<open>The first database with a budget of \<open>2 ^ 53\<close> for the collaboration.\<close>

definition world_large_budget :: world where
  "world_large_budget = world0\<lparr> collaborations := [collab0\<lparr> budget_min := Some (Finite (2 ^ 53)) \<rparr>] \<rparr>"

section \<open>What is kept of an escrow\<close>

text \<open>
  The money of an escrow: the gross amount, the platform's commission and the influencer's
  payout. \<open>rounded_share t r\<close> is \<open>r\<close> percent of \<open>t\<close> rounded to two decimals, and
  \<open>rounded_rest t c\<close> is \<open>t - c\<close> rounded to two decimals, both in the arithmetic of the
  server. \<open>money_rule\<close> ties the money of an escrow to the rate stored in it.
  \<open>within_cent\<close> is the identity that commission and payout add up to the gross amount,
  up to one cent, and \<open>in_range\<close> says that the gross amount is at most \<open>10 ^ 12\<close> in
  magnitude and the stored rate between 0 and 100.
\<close>

definition rounded_share :: "number \<Rightarrow> number \<Rightarrow> number" where
  "rounded_share t r =
     js_div (math_round (js_mul (js_div (js_mul t r) (Finite 100)) (Finite 100))) (Finite 100)"

definition rounded_rest :: "number \<Rightarrow> number \<Rightarrow> number" where
  "rounded_rest t c = js_div (math_round (js_mul (js_sub t c) (Finite 100))) (Finite 100)"

definition money_fields :: "escrow \<Rightarrow> number \<times> number \<times> number" where
  "money_fields e = (total_amount e, platform_commission e, influencer_payout e)"

definition money_rule :: "escrow \<Rightarrow> bool" where
  "money_rule e =
     (case commission_rate e of
        None \<Rightarrow> False
      | Some r \<Rightarrow> platform_commission e = rounded_share (total_amount e) r \<and>
                  influencer_payout e = rounded_rest (total_amount e) (platform_commission e))"

fun sum_close :: "number \<Rightarrow> number \<Rightarrow> number \<Rightarrow> bool" where
  "sum_close (Finite c) (Finite p) (Finite t) = (\<bar>c + p - t\<bar> \<le> 1 / 100)"
| "sum_close c p t = False"

definition within_cent :: "escrow \<Rightarrow> bool" where
  "within_cent e = sum_close (platform_commission e) (influencer_payout e) (total_amount e)"

fun amount_rate_in_range :: "number \<Rightarrow> number option \<Rightarrow> bool" where
  "amount_rate_in_range (Finite t) (Some (Finite r)) = (\<bar>t\<bar> \<le> 10 ^ 12 \<and> 0 \<le> r \<and> r \<le> 100)"
| "amount_rate_in_range t r = False"

definition in_range :: "escrow \<Rightarrow> bool" where
  "in_range e = amount_rate_in_range (total_amount e) (commission_rate e)"

text \<open>
  \<open>same_money e e'\<close>: the document \<open>e'\<close> is the escrow \<open>e\<close> of the same collaboration
  with the same money and the same stored rate. \<open>kept xs ys\<close>: the collection \<open>ys\<close> holds
  every escrow of \<open>xs\<close> at its place, with its money as it was, and every escrow
  behind them obeys the rule.
\<close>

definition same_money :: "escrow \<Rightarrow> escrow \<Rightarrow> bool" where
  "same_money e e' =
     (escrow_id e' = escrow_id e \<and> e_collab_id e' = e_collab_id e \<and>
      money_fields e' = money_fields e \<and> commission_rate e' = commission_rate e)"

definition kept :: "escrow list \<Rightarrow> escrow list \<Rightarrow> bool" where
  "kept xs ys =
     (length xs \<le> length ys \<and> list_all2 same_money xs (take (length xs) ys) \<and>
      list_all money_rule (drop (length xs) ys))"

section \<open>Escrows that block a new escrow\<close>

text \<open>
  The escrows of a collaboration in status \<^verbatim>\<open>pending\<close> or \<^verbatim>\<open>secured\<close>: the ones that
  \<^verbatim>\<open>createEscrow\<close> looks for. \<open>non_terminal_escrows\<close> adds the statuses
  \<^verbatim>\<open>completed_pending_release\<close> and \<^verbatim>\<open>disputed\<close>.
\<close>

definition active_escrows :: "ident \<Rightarrow> escrow list \<Rightarrow> escrow list" where
  "active_escrows cid es =
     filter (\<lambda>e. e_collab_id e = cid \<and> e_status e \<in> set [''pending'', ''secured'']) es"

definition non_terminal_escrows :: "ident \<Rightarrow> escrow list \<Rightarrow> escrow list" where
  "non_terminal_escrows cid es =
     filter (\<lambda>e. e_collab_id e = cid \<and>
                 e_status e \<in> set [''pending'', ''secured'', ''completed_pending_release'', ''disputed'']) es"

definition one_active_each :: "escrow list \<Rightarrow> bool" where
  "one_active_each es = list_all (\<lambda>e. length (active_escrows (e_collab_id e) es) \<le> 1) es"

section \<open>Reviews of one application\<close>

text \<open>
  \<open>reveal_agree\<close>: any two reviews of the same application are both revealed or both
  hidden. \<open>hidden_alone\<close>: a review that is still hidden is the only review of its
  application.
\<close>

definition reviews_of :: "ident \<Rightarrow> review list \<Rightarrow> review list" where
  "reviews_of aid rs = filter (\<lambda>r. r_application_id r = aid) rs"

definition reveal_agree :: "review list \<Rightarrow> bool" where
  "reveal_agree rs =
     list_all (\<lambda>r. list_all (\<lambda>r'. r_application_id r' = r_application_id r
                                  \<longrightarrow> is_revealed r' = is_revealed r) rs) rs"

definition hidden_alone :: "review list \<Rightarrow> bool" where
  "hidden_alone rs =
     list_all (\<lambda>r. is_revealed r \<or> length (reviews_of (r_application_id r) rs) \<le> 1) rs"

text \<open>
  The ratings that count for an influencer, as the specification words it: the ratings of
  all revealed reviews that brands wrote about the influencer. \<open>mean\<close> is their exact
  arithmetic mean, and \<open>shown_rating\<close> the average rounded to one decimal in the
  arithmetic of the server.
\<close>

definition revealed_brand_ratings :: "ident \<Rightarrow> review list \<Rightarrow> rat list" where
  "revealed_brand_ratings uid rs =
     map rating (filter (\<lambda>r. reviewed_user_id r = uid \<and> reviewer_type r = ''brand'' \<and> is_revealed r) rs)"

definition mean :: "rat list \<Rightarrow> rat" where
  "mean xs = sum_list xs / of_nat (length xs)"

definition shown_rating :: "rat list \<Rightarrow> number" where
  "shown_rating xs = js_div (math_round (js_mul (aggregate_avg xs) (Finite 10))) (Finite 10)"

section \<open>Rounding to a double\<close>

text \<open>
  The exponent is the right one, and the double nearest to \<open>x\<close> is within
  \<open>\<bar>x\<bar> / 2 ^ 53 + 1 / 2 ^ 1075\<close> of \<open>x\<close>: half a unit in the last place, for normal
  and for subnormal results.
\<close>

lemma exponent_le:
  assumes "0 < a"
  shows "2 powi (exponent a) \<le> a"
proof -
  obtain p q where pq: "quotient_of a = (p, q)" by (cases "quotient_of a")
  have q: "0 < q" using quotient_of_denom_pos [OF pq] .
  have a: "a = of_int p / of_int q" using quotient_of_div [OF pq] .
  have p: "0 < p" using assms q unfolding a by (simp add: zero_less_divide_iff)
  define k where "k = bitlen p - bitlen q"
  show ?thesis
  proof (cases "2 powi k \<le> a")
    case True
    then show ?thesis by (simp add: exponent_def pq k_def)
  next
    case False
    have e: "exponent a = k - 1" using False by (simp add: exponent_def pq k_def)
    have bp: "(2::int) ^ nat (bitlen p - 1) \<le> p" using bitlen_bounds [OF p] by simp
    have bq: "q < (2::int) ^ nat (bitlen q)" using bitlen_bounds [OF q] by simp
    have bp1: "1 \<le> bitlen p" using p by (simp add: bitlen_def floorlog_def)
    have bq0: "0 \<le> bitlen q" by (rule bitlen_nonneg)
    have "(2::rat) powi (bitlen p - 1) = 2 ^ nat (bitlen p - 1)"
      using bp1 by (simp add: power_int_def)
    also have "\<dots> = of_int (2 ^ nat (bitlen p - 1))" by simp
    also have "\<dots> \<le> of_int p" using bp by (simp only: of_int_le_iff)
    finally have P: "(2::rat) powi (bitlen p - 1) \<le> of_int p" .
    have "(of_int q :: rat) \<le> of_int (2 ^ nat (bitlen q))" using bq by (simp only: of_int_le_iff less_imp_le)
    also have "\<dots> = 2 powi (bitlen q)" using bq0 by (simp add: power_int_def)
    finally have Q: "(of_int q :: rat) \<le> 2 powi (bitlen q)" .
    have "(2::rat) powi (k - 1) = 2 powi (bitlen p - 1) / 2 powi (bitlen q)"
    proof -
      have "k - 1 = (bitlen p - 1) - bitlen q" unfolding k_def by arith
      moreover have "(2::rat) powi ((bitlen p - 1) - bitlen q) = 2 powi (bitlen p - 1) / 2 powi bitlen q"
        by (rule power_int_diff) simp
      ultimately show ?thesis by (simp only:)
    qed
    also have "\<dots> \<le> of_int p / of_int q"
      by (rule frac_le) (use P Q q p in simp_all)
    finally have "(2::rat) powi (k - 1) \<le> a" by (simp only: a [symmetric])
    then show ?thesis by (simp only: e)
  qed
qed

lemma exponent_less:
  assumes "0 < a"
  shows "a < 2 powi (exponent a + 1)"
proof -
  obtain p q where pq: "quotient_of a = (p, q)" by (cases "quotient_of a")
  have q: "0 < q" using quotient_of_denom_pos [OF pq] .
  have a: "a = of_int p / of_int q" using quotient_of_div [OF pq] .
  have p: "0 < p" using assms q unfolding a by (simp add: zero_less_divide_iff)
  define k where "k = bitlen p - bitlen q"
  have bp: "p < (2::int) ^ nat (bitlen p)" using bitlen_bounds [OF p] by simp
  have bq: "(2::int) ^ nat (bitlen q - 1) \<le> q" using bitlen_bounds [OF q] by simp
  have bp0: "0 \<le> bitlen p" by (rule bitlen_nonneg)
  have bq1: "1 \<le> bitlen q" using q by (simp add: bitlen_def floorlog_def)
  have "(of_int p :: rat) < of_int (2 ^ nat (bitlen p))" using bp by (simp only: of_int_less_iff)
  also have "\<dots> = 2 powi (bitlen p)" using bp0 by (simp add: power_int_def)
  finally have P: "(of_int p :: rat) < 2 powi (bitlen p)" .
  have "(2::rat) powi (bitlen q - 1) = 2 ^ nat (bitlen q - 1)"
    using bq1 by (simp add: power_int_def)
  also have "\<dots> = of_int (2 ^ nat (bitlen q - 1))" by simp
  also have "\<dots> \<le> of_int q" using bq by (simp only: of_int_le_iff)
  finally have Q: "(2::rat) powi (bitlen q - 1) \<le> of_int q" .
  have "of_int p / of_int q < (2::rat) powi (bitlen p) / 2 powi (bitlen q - 1)"
    by (rule frac_less) (use P Q q p in simp_all)
  also have "\<dots> = 2 powi (k + 1)"
  proof -
    have "k + 1 = bitlen p - (bitlen q - 1)" unfolding k_def by arith
    moreover have "(2::rat) powi (bitlen p - (bitlen q - 1)) = 2 powi (bitlen p) / 2 powi (bitlen q - 1)"
      by (rule power_int_diff) simp
    ultimately show ?thesis by (simp only:)
  qed
  finally have up: "a < 2 powi (k + 1)" by (simp only: a [symmetric])
  show ?thesis
  proof (cases "2 powi k \<le> a")
    case True
    then have "exponent a = k" by (simp add: exponent_def pq k_def)
    with up show ?thesis by simp
  next
    case False
    then have "exponent a = k - 1" by (simp add: exponent_def pq k_def)
    with False show ?thesis by simp
  qed
qed

lemma exponent_ge_iff:
  assumes "0 < a"
  shows "n \<le> exponent a \<longleftrightarrow> 2 powi n \<le> a"
proof
  assume "n \<le> exponent a"
  then have "(2::rat) powi n \<le> 2 powi (exponent a)" by (intro power_int_increasing) simp_all
  with exponent_le [OF assms] show "2 powi n \<le> a" by simp
next
  assume le: "2 powi n \<le> a"
  show "n \<le> exponent a"
  proof (rule ccontr)
    assume "\<not> n \<le> exponent a"
    then have "exponent a + 1 \<le> n" by simp
    then have "(2::rat) powi (exponent a + 1) \<le> 2 powi n" by (intro power_int_increasing) simp_all
    with exponent_less [OF assms] le show False by simp
  qed
qed

lemma round_half_even_error: "\<bar>of_int (round_half_even y) - y\<bar> \<le> 1 / 2"
proof -
  have "of_int \<lfloor>y\<rfloor> \<le> y" "y < of_int \<lfloor>y\<rfloor> + 1" by linarith+
  then show ?thesis unfolding round_half_even_def Let_def
    by (auto simp: abs_le_iff)
qed

lemma nearest_double_error:
  "\<bar>nearest_double x - x\<bar> \<le> \<bar>x\<bar> / 2 ^ 53 + 1 / 2 ^ 1075"
proof (cases "x = 0")
  case True
  then show ?thesis by (simp add: nearest_double_def)
next
  case False
  define e where "e = max (exponent \<bar>x\<bar>) (- 1022)"
  define q :: rat where "q = 2 powi (e - 52)"
  have q: "0 < q" unfolding q_def by simp
  have nd: "nearest_double x = of_int (round_half_even (x / q)) * q"
    using False by (simp add: nearest_double_def Let_def e_def q_def)
  have "\<bar>nearest_double x - x\<bar> = \<bar>of_int (round_half_even (x / q)) - x / q\<bar> * q"
  proof -
    have "of_int (round_half_even (x / q)) * q - x = (of_int (round_half_even (x / q)) - x / q) * q"
      using q by (simp add: field_simps)
    then show ?thesis unfolding nd using q by (simp add: abs_mult)
  qed
  also have "\<dots> \<le> 1 / 2 * q"
    by (rule mult_right_mono [OF round_half_even_error]) (use q in simp)
  also have "\<dots> = 2 powi (e - 53)"
    unfolding q_def by (simp add: power_int_diff)
  also have "\<dots> \<le> \<bar>x\<bar> / 2 ^ 53 + 1 / 2 ^ 1075"
  proof (cases "exponent \<bar>x\<bar> \<le> - 1022")
    case True
    then have "e = - 1022" by (simp add: e_def)
    then have "(2::rat) powi (e - 53) = 1 / 2 ^ 1075" by (simp add: power_int_def inverse_eq_divide power_one_over)
    then show ?thesis by simp
  next
    case False
    then have "e = exponent \<bar>x\<bar>" by (simp add: e_def)
    then have "(2::rat) powi (e - 53) = 2 powi (exponent \<bar>x\<bar>) / 2 ^ 53" by (simp add: power_int_diff)
    also have "\<dots> \<le> \<bar>x\<bar> / 2 ^ 53"
      by (rule divide_right_mono [OF exponent_le]) (use \<open>x \<noteq> 0\<close> in simp_all)
    finally show ?thesis by simp
  qed
  finally show ?thesis .
qed


lemma round_half_even_of_int [simp]: "round_half_even (of_int n) = n"
  by (simp add: round_half_even_def)

text \<open>A whole number below \<open>2 ^ 53\<close> in magnitude is a double.\<close>

lemma nearest_double_of_int:
  assumes "\<bar>of_int n :: rat\<bar> < 9007199254740992"
  shows "nearest_double (of_int n) = of_int n"
proof (cases "n = 0")
  case True
  then show ?thesis by (simp add: nearest_double_def)
next
  case False
  define a :: rat where "a = \<bar>of_int n\<bar>"
  define e where "e = exponent a"
  have pos: "0 < a" using False by (simp add: a_def)
  have "1 \<le> \<bar>n\<bar>" using False by simp
  then have "(of_int 1 :: rat) \<le> of_int \<bar>n\<bar>" by (simp only: of_int_le_iff)
  then have "(2::rat) powi 0 \<le> a" by (simp add: a_def)
  then have e0: "0 \<le> e" unfolding e_def by (simp only: exponent_ge_iff [OF pos])
  have e52: "e \<le> 52"
  proof (rule ccontr)
    assume "\<not> e \<le> 52"
    then have "53 \<le> exponent a" by (simp add: e_def)
    then have "(2::rat) powi 53 \<le> a" by (simp only: exponent_ge_iff [OF pos])
    moreover have "(2::rat) powi 53 = 9007199254740992" by (simp add: power_int_def)
    ultimately show False using assms by (simp add: a_def)
  qed
  define j where "j = nat (52 - e)"
  have q: "(2::rat) powi (e - 52) = 1 / 2 ^ j"
  proof -
    have "e - 52 = - int j" using e52 by (simp add: j_def)
    then show ?thesis by (simp add: power_int_minus inverse_eq_divide)
  qed
  have m: "max e (- 1022) = e" using e0 by simp
  have "of_int n / (1 / 2 ^ j) = (of_int (n * 2 ^ j) :: rat)" by simp
  then have r: "round_half_even (of_int n / (1 / 2 ^ j)) = n * 2 ^ j"
    by (simp only: round_half_even_of_int)
  have "nearest_double (of_int n) = of_int (n * 2 ^ j) * (1 / 2 ^ j)"
    using False by (simp only: nearest_double_def Let_def a_def [symmetric] e_def [symmetric] m q r)
      simp
  then show ?thesis by simp
qed

text \<open>
  For evaluation, a whole number below \<open>2 ^ 53\<close> is returned as it is, and overflow is
  read off the exponent, which avoids computing \<open>2 ^ 1024\<close>.
\<close>

lemma nearest_double_code [code]:
  "nearest_double x =
     (let (p, q) = quotient_of x
      in if q = 1 \<and> \<bar>p\<bar> < 9007199254740992 then x
         else if x = 0 then 0
         else let e = max (exponent \<bar>x\<bar>) (- 1022); q = 2 powi (e - 52)
              in of_int (round_half_even (x / q)) * q)"
proof -
  obtain p q where pq: "quotient_of x = (p, q)" by (cases "quotient_of x")
  show ?thesis
  proof (cases "q = 1 \<and> \<bar>p\<bar> < 9007199254740992")
    case True
    then have x: "x = of_int p" using quotient_of_div [OF pq] by simp
    from True have "(of_int \<bar>p\<bar> :: rat) < of_int 9007199254740992" by (simp only: of_int_less_iff)
    then have "\<bar>of_int p :: rat\<bar> < 9007199254740992" by simp
    then have "nearest_double (of_int p) = of_int p" by (rule nearest_double_of_int)
    with True show ?thesis by (simp add: pq x [symmetric])
  next
    case False
    show ?thesis
      by (simp only: pq prod.case Let_def if_not_P [OF False] nearest_double_def)
  qed
qed

lemma to_double_code [code]:
  "to_double x =
     (let r = nearest_double x
      in if \<bar>r\<bar> < 9007199254740992 then Finite r
         else if 1024 \<le> exponent \<bar>r\<bar> then (if 0 < r then PInf else NInf) else Finite r)"
proof (cases "\<bar>nearest_double x\<bar> < 9007199254740992")
  case True
  moreover have "(9007199254740992 :: rat) < 2 ^ 1024" by simp
  ultimately have "\<bar>nearest_double x\<bar> < 2 ^ 1024" by (rule less_trans)
  with True show ?thesis by (simp add: to_double_def Let_def abs_less_iff not_le)
next
  case big: False
  then have pos: "0 < \<bar>nearest_double x\<bar>" by simp
  have "(2::rat) powi 1024 = 2 ^ 1024" by (simp add: power_int_def)
  with exponent_ge_iff [OF pos, of 1024]
  have iff: "1024 \<le> exponent \<bar>nearest_double x\<bar> \<longleftrightarrow> 2 ^ 1024 \<le> \<bar>nearest_double x\<bar>"
    by simp
  show ?thesis
  proof (cases "0 < nearest_double x")
    case True
    with iff big show ?thesis by (simp add: to_double_def Let_def)
  next
    case neg: False
    with pos have "nearest_double x < 0" by simp
    with iff big show ?thesis by (auto simp: to_double_def Let_def)
  qed
qed

lemma nearest_double_near:
  assumes "\<bar>x\<bar> \<le> M" and "1 \<le> M"
  shows "\<bar>nearest_double x - x\<bar> \<le> M / 2 ^ 52"
proof -
  have "\<bar>x\<bar> / 2 ^ 53 \<le> M / 2 ^ 53" using assms(1) by (simp add: divide_right_mono)
  moreover have "(1::rat) / 2 ^ 1075 \<le> 1 / 2 ^ 53" by simp
  moreover have "(1::rat) / 2 ^ 53 \<le> M / 2 ^ 53" using assms(2) by (simp add: divide_right_mono)
  moreover have "M / 2 ^ 53 + M / 2 ^ 53 = M / 2 ^ 52" by simp
  ultimately show ?thesis using nearest_double_error [of x] by linarith
qed

lemma nearest_double_bound:
  assumes "\<bar>x\<bar> \<le> M" and "1 \<le> M"
  shows "\<bar>nearest_double x\<bar> \<le> M + M / 2 ^ 52"
  using nearest_double_near [OF assms] assms(1) by linarith

lemma to_double_finite:
  assumes "\<bar>x\<bar> \<le> 10 ^ 100"
  shows "to_double x = Finite (nearest_double x)"
proof -
  have "\<bar>nearest_double x\<bar> \<le> 10 ^ 100 + 10 ^ 100 / 2 ^ 52"
    by (rule nearest_double_bound [OF assms]) simp
  moreover have "(10::rat) ^ 100 + 10 ^ 100 / 2 ^ 52 < 2 ^ 1024" by simp
  ultimately have "\<bar>nearest_double x\<bar> < 2 ^ 1024" by linarith
  then show ?thesis by (simp add: to_double_def Let_def abs_less_iff not_le)
qed

lemma math_round_near: "\<bar>of_int \<lfloor>x + 1 / 2\<rfloor> - x\<bar> \<le> 1 / 2"
  for x :: rat
  by linarith


lemma nearest_double_within:
  assumes "\<bar>x\<bar> \<le> M" and "1 \<le> M" and "M / 2 ^ 52 \<le> E"
  shows "\<bar>nearest_double x - x\<bar> \<le> E"
  using nearest_double_near [OF assms(1,2)] assms(3) by linarith

lemma to_double_small:
  assumes "\<bar>x\<bar> \<le> 1000000000000000"
  shows "to_double x = Finite (nearest_double x)"
proof -
  have "(1000000000000000::rat) \<le> 10 ^ 100" by simp
  with assms have "\<bar>x\<bar> \<le> 10 ^ 100" by (rule order_trans)
  then show ?thesis by (rule to_double_finite)
qed

lemma rounded_share_close:
  assumes t: "\<bar>t\<bar> \<le> 10 ^ 12" and r0: "0 \<le> r" and r1: "r \<le> 100"
  shows "\<exists>k::int. rounded_share (Finite t) (Finite r) = Finite (nearest_double (of_int k / 100)) \<and>
           \<bar>nearest_double (of_int k / 100) - t * r / 100\<bar> \<le> 6 / 1000 \<and>
           \<bar>nearest_double (of_int k / 100)\<bar> \<le> 10 ^ 12 + 1"
proof -
  define c1 where "c1 = nearest_double (t * r)"
  define c2 where "c2 = nearest_double (c1 / 100)"
  define c3 where "c3 = nearest_double (c2 * 100)"
  define k where "k = \<lfloor>c3 + 1 / 2\<rfloor>"
  define c where "c = nearest_double (of_int k / 100)"
  have t': "\<bar>t\<bar> \<le> 1000000000000" using t by simp
  have "\<bar>t * r\<bar> = \<bar>t\<bar> * r" using r0 by (simp add: abs_mult)
  also have "\<dots> \<le> 1000000000000 * 100" using t' r0 r1 by (intro mult_mono) simp_all
  finally have tr: "\<bar>t * r\<bar> \<le> 100000000000000" by simp
  have e1: "\<bar>c1 - t * r\<bar> \<le> 23 / 1000"
    unfolding c1_def by (rule nearest_double_within [OF tr]) simp_all
  have b1: "\<bar>c1 / 100\<bar> \<le> 1000000000001" using e1 tr by linarith
  have e2: "\<bar>c2 - c1 / 100\<bar> \<le> 23 / 100000"
    unfolding c2_def by (rule nearest_double_within [OF b1]) simp_all
  have b2: "\<bar>c2 * 100\<bar> \<le> 100000000000200" using e2 b1 by linarith
  have e3: "\<bar>c3 - c2 * 100\<bar> \<le> 23 / 1000"
    unfolding c3_def by (rule nearest_double_within [OF b2]) simp_all
  have e4: "\<bar>of_int k - c3\<bar> \<le> 1 / 2" unfolding k_def by (rule math_round_near)
  have b4: "\<bar>of_int k / 100 :: rat\<bar> \<le> 1000000000001" using e1 e2 e3 e4 tr by linarith
  have e5: "\<bar>c - of_int k / 100\<bar> \<le> 23 / 100000"
    unfolding c_def by (rule nearest_double_within [OF b4]) simp_all
  have f1: "to_double (t * r) = Finite c1"
    unfolding c1_def by (rule to_double_small) (use tr in linarith)
  have f2: "to_double (c1 / 100) = Finite c2"
    unfolding c2_def by (rule to_double_small) (use b1 in linarith)
  have f3: "to_double (c2 * 100) = Finite c3"
    unfolding c3_def by (rule to_double_small) (use b2 in linarith)
  have f5: "to_double (of_int k / 100) = Finite c"
    unfolding c_def by (rule to_double_small) (use b4 in linarith)
  have "rounded_share (Finite t) (Finite r) = Finite c"
    by (simp add: rounded_share_def f1 f2 f3 k_def [symmetric] f5)
  moreover have "\<bar>c - t * r / 100\<bar> \<le> 6 / 1000"
    using e1 e2 e3 e4 e5 by linarith
  moreover have "\<bar>c\<bar> \<le> 1000000000001"
    using e1 e2 e3 e4 e5 tr by linarith
  then have "\<bar>c\<bar> \<le> 10 ^ 12 + 1" by simp
  ultimately show ?thesis unfolding c_def by blast
qed

lemma rounded_rest_close:
  assumes t: "\<bar>t\<bar> \<le> 10 ^ 12" and c: "\<bar>c\<bar> \<le> 10 ^ 12 + 1"
  shows "\<exists>m::int. rounded_rest (Finite t) (Finite c) = Finite (nearest_double (of_int m / 100)) \<and>
           \<bar>nearest_double (of_int m / 100) - (t - c)\<bar> \<le> 64 / 10000"
proof -
  define d1 where "d1 = nearest_double (t - c)"
  define d2 where "d2 = nearest_double (d1 * 100)"
  define m where "m = \<lfloor>d2 + 1 / 2\<rfloor>"
  define p where "p = nearest_double (of_int m / 100)"
  have t': "\<bar>t\<bar> \<le> 1000000000000" using t by simp
  have c': "\<bar>c\<bar> \<le> 1000000000001" using c by simp
  have b0: "\<bar>t - c\<bar> \<le> 2000000000001" using t' c' by linarith
  have e1: "\<bar>d1 - (t - c)\<bar> \<le> 45 / 100000"
    unfolding d1_def by (rule nearest_double_within [OF b0]) simp_all
  have b1: "\<bar>d1 * 100\<bar> \<le> 200000000000200" using e1 b0 by linarith
  have e2: "\<bar>d2 - d1 * 100\<bar> \<le> 45 / 1000"
    unfolding d2_def by (rule nearest_double_within [OF b1]) simp_all
  have e3: "\<bar>of_int m - d2\<bar> \<le> 1 / 2" unfolding m_def by (rule math_round_near)
  have b3: "\<bar>of_int m / 100 :: rat\<bar> \<le> 2000000000003" using e1 e2 e3 b0 by linarith
  have e4: "\<bar>p - of_int m / 100\<bar> \<le> 45 / 100000"
    unfolding p_def by (rule nearest_double_within [OF b3]) simp_all
  have f1: "to_double (t - c) = Finite d1"
    unfolding d1_def by (rule to_double_small) (use b0 in linarith)
  have f2: "to_double (d1 * 100) = Finite d2"
    unfolding d2_def by (rule to_double_small) (use b1 in linarith)
  have f4: "to_double (of_int m / 100) = Finite p"
    unfolding p_def by (rule to_double_small) (use b3 in linarith)
  have "rounded_rest (Finite t) (Finite c) = Finite p"
    by (simp add: rounded_rest_def f1 f2 m_def [symmetric] f4)
  moreover have "\<bar>p - (t - c)\<bar> \<le> 64 / 10000"
    using e1 e2 e3 e4 by linarith
  ultimately show ?thesis unfolding p_def by blast
qed

section \<open>The commission calculator gives the amount back\<close>

lemma calculateCommission_eq:
  "calculateCommission w (Some usr) amt =
     Inr \<lparr> gross_amount = amt, calc_commission_rate = getCommissionRate (settings w),
           commission_amount = rounded_share amt (getCommissionRate (settings w)),
           net_amount = rounded_rest amt (rounded_share amt (getCommissionRate (settings w))) \<rparr>"
  by (simp add: calculateCommission_def Let_def rounded_share_def rounded_rest_def)

text \<open>
  C9 as stated fails for large amounts. At the default rate of 10 percent the calculator
  answers the amount \<open>2 ^ 53\<close> with the commission 900719925474099.25 and the net amount
  8106479329266893: the doubles near the net amount are whole numbers, so commission and
  net miss the amount by 0.25.
\<close>

theorem calculateCommission_counterexample:
  "getCommissionRate (settings world0) = Finite 10 \<and>
   map_sum id (\<lambda>c. (gross_amount c, commission_amount c, net_amount c))
     (calculateCommission world0 (Some brand0) (Finite (2 ^ 53)))
     = Inr (Finite (2 ^ 53), Finite (3602879701896397 / 4), Finite 8106479329266893) \<and>
   (1 :: rat) / 100 < \<bar>3602879701896397 / 4 + 8106479329266893 - 2 ^ 53\<bar>"
  by code_simp

text \<open>
  C9, for amounts up to \<open>10 ^ 12\<close>. Let the amount \<open>a\<close> be at most \<open>10 ^ 12\<close> in
  magnitude and the current rate \<open>r\<close> between 0 and 100. Then \<^verbatim>\<open>calculateCommission\<close>
  answers an authenticated caller with finite numbers: the commission is the double nearest
  to a whole number of cents and lies within 0.006 of \<open>a * r / 100\<close>, the net amount is
  the double nearest to a whole number of cents and lies within 0.0064 of the amount less
  the commission, and commission plus net gives the amount back to within one cent.
\<close>

theorem calculateCommission_roundtrip:
  assumes "\<bar>a\<bar> \<le> 10 ^ 12" and "getCommissionRate (settings w) = Finite r" and "0 \<le> r" and "r \<le> 100"
  shows "\<exists>k m :: int.
           calculateCommission w (Some usr) (Finite a) =
             Inr \<lparr> gross_amount = Finite a, calc_commission_rate = Finite r,
                   commission_amount = Finite (nearest_double (of_int k / 100)),
                   net_amount = Finite (nearest_double (of_int m / 100)) \<rparr> \<and>
           \<bar>nearest_double (of_int k / 100) - a * r / 100\<bar> \<le> 6 / 1000 \<and>
           \<bar>nearest_double (of_int m / 100) - (a - nearest_double (of_int k / 100))\<bar> \<le> 64 / 10000 \<and>
           \<bar>nearest_double (of_int k / 100) + nearest_double (of_int m / 100) - a\<bar> \<le> 1 / 100"
proof -
  from rounded_share_close [OF assms(1,3,4)] obtain k :: int where
    c: "rounded_share (Finite a) (Finite r) = Finite (nearest_double (of_int k / 100))"
    and ce: "\<bar>nearest_double (of_int k / 100) - a * r / 100\<bar> \<le> 6 / 1000"
    and cb: "\<bar>nearest_double (of_int k / 100)\<bar> \<le> 10 ^ 12 + 1"
    by blast
  from rounded_rest_close [OF assms(1) cb] obtain m :: int where
    n: "rounded_rest (Finite a) (Finite (nearest_double (of_int k / 100)))
          = Finite (nearest_double (of_int m / 100))"
    and ne: "\<bar>nearest_double (of_int m / 100) - (a - nearest_double (of_int k / 100))\<bar> \<le> 64 / 10000"
    by blast
  have res: "calculateCommission w (Some usr) (Finite a) =
             Inr \<lparr> gross_amount = Finite a, calc_commission_rate = Finite r,
                   commission_amount = Finite (nearest_double (of_int k / 100)),
                   net_amount = Finite (nearest_double (of_int m / 100)) \<rparr>"
    by (simp only: calculateCommission_eq assms(2) c n)
  have "\<bar>nearest_double (of_int k / 100) + nearest_double (of_int m / 100) - a\<bar> \<le> 1 / 100"
    using ne by linarith
  with res ce ne show ?thesis by blast
qed

theorem calculateCommission_roundtrip_witness:
  "\<bar>17 :: rat\<bar> \<le> 10 ^ 12 \<and>
   getCommissionRate (settings (world0\<lparr> settings := Some (Finite (15 / 2)) \<rparr>)) = Finite (15 / 2) \<and>
   (0 :: rat) \<le> 15 / 2 \<and> (15 :: rat) / 2 \<le> 100 \<and>
   calculateCommission (world0\<lparr> settings := Some (Finite (15 / 2)) \<rparr>) (Some brand0) (Finite 17) =
     Inr \<lparr> gross_amount = Finite 17, calc_commission_rate = Finite (15 / 2),
           commission_amount = Finite (nearest_double (127 / 100)),
           net_amount = Finite (nearest_double (1573 / 100)) \<rparr> \<and>
   (\<exists>k m :: int.
      calculateCommission (world0\<lparr> settings := Some (Finite (15 / 2)) \<rparr>) (Some brand0) (Finite 17) =
        Inr \<lparr> gross_amount = Finite 17, calc_commission_rate = Finite (15 / 2),
              commission_amount = Finite (nearest_double (of_int k / 100)),
              net_amount = Finite (nearest_double (of_int m / 100)) \<rparr> \<and>
      \<bar>nearest_double (of_int k / 100) - 17 * (15 / 2) / 100\<bar> \<le> 6 / 1000 \<and>
      \<bar>nearest_double (of_int m / 100) - (17 - nearest_double (of_int k / 100))\<bar> \<le> 64 / 10000 \<and>
      \<bar>nearest_double (of_int k / 100) + nearest_double (of_int m / 100) - 17\<bar> \<le> 1 / 100)"
proof -
  have h1: "\<bar>17 :: rat\<bar> \<le> 10 ^ 12" by simp
  have h2: "getCommissionRate (settings (world0\<lparr> settings := Some (Finite (15 / 2)) \<rparr>)) = Finite (15 / 2)"
    by (simp add: getCommissionRate_def)
  have h3: "(0 :: rat) \<le> 15 / 2" and h4: "(15 :: rat) / 2 \<le> 100" by simp_all
  have run: "calculateCommission (world0\<lparr> settings := Some (Finite (15 / 2)) \<rparr>) (Some brand0) (Finite 17) =
     Inr \<lparr> gross_amount = Finite 17, calc_commission_rate = Finite (15 / 2),
           commission_amount = Finite (nearest_double (127 / 100)),
           net_amount = Finite (nearest_double (1573 / 100)) \<rparr>"
    by code_simp
  from calculateCommission_roundtrip [OF h1 h2 h3 h4, of brand0] h1 h2 h3 h4 run
  show ?thesis by blast
qed

section \<open>Facts about the collection operations\<close>

lemma updateOne_length [simp]: "length (updateOne P f xs) = length xs"
  by (induction xs) auto

lemma updateOne_split:
  "(\<forall>y \<in> set pre. \<not> P y) \<Longrightarrow> P x \<Longrightarrow> updateOne P f (pre @ x # post) = pre @ f x # post"
  by (induction pre) auto

lemma findOne_updateOne_same:
  "findOne P xs = Some x \<Longrightarrow> P (f x) \<Longrightarrow> findOne P (updateOne P f xs) = Some (f x)"
  by (induction xs) (auto split: if_splits)

lemma findOne_by_key:
  "distinct (map k xs) \<Longrightarrow> x \<in> set xs \<Longrightarrow> findOne (\<lambda>y. k y = k x) xs = Some x"
proof (induction xs)
  case Nil
  then show ?case by simp
next
  case (Cons a xs)
  then show ?case by (cases "a = x") (auto simp: image_iff)
qed

lemma findOne_in_set: "findOne P xs = Some x \<Longrightarrow> x \<in> set xs \<and> P x"
  by (induction xs) (auto split: if_splits)

lemma updateOne_rel:
  assumes "\<And>x. R x x" and "\<And>x. R x (f x)"
  shows "list_all2 R xs (updateOne P f xs)"
  using assms by (induction xs) (auto simp: list_all2_refl)

section \<open>Completing a collaboration\<close>

lemma not_paid_types: "collaboration_type c = Some ''barter'' \<or> collaboration_type c = Some ''free'' \<Longrightarrow> \<not> is_paid c"
  by (auto simp: is_paid_def)

text \<open>
  C4. Let the brand that owns a collaboration ask for status \<^verbatim>\<open>completed\<close>. If the
  collaboration is paid and no escrow of it is in status \<^verbatim>\<open>secured\<close>, the request fails
  with status 400 and the message that the funds must be secured first. If it is paid and
  such an escrow exists, the request succeeds, the collaboration and that escrow are both in
  status \<^verbatim>\<open>completed_pending_release\<close> afterwards and both carry
  \<^verbatim>\<open>release_scheduled_at = now + 48 h\<close>. If the collaboration is barter or free, the
  request succeeds and leaves the collaboration with status \<^verbatim>\<open>completed\<close> and payment
  status \<^verbatim>\<open>none\<close>. Escrow identifiers are taken to be distinct.
\<close>

theorem completed_request:
  assumes found: "findOne (\<lambda>c. collab_id c = cid) (collaborations w) = Some collab"
    and owner: "brand_user_id collab = user_id usr"
    and ids: "distinct (map escrow_id (escrow_payments w))"
  shows
    "(is_paid collab \<and> \<not> (\<exists>e \<in> set (escrow_payments w). e_collab_id e = cid \<and> e_status e = ''secured'')
        \<longrightarrow> update_collaboration_status w (Some usr) cid ''completed'' now = Inl (Failure 400 Funds_not_secured)) \<and>
     (is_paid collab \<and> (\<exists>e \<in> set (escrow_payments w). e_collab_id e = cid \<and> e_status e = ''secured'')
        \<longrightarrow> (\<exists>w' esc. update_collaboration_status w (Some usr) cid ''completed'' now = Inr w' \<and>
              esc \<in> set (escrow_payments w) \<and> e_collab_id esc = cid \<and> e_status esc = ''secured'' \<and>
              findOne (\<lambda>c. collab_id c = cid) (collaborations w') =
                Some (collab\<lparr> c_status := ''completed_pending_release'',
                              c_payment_status := Some ''completed_pending_release'',
                              c_completed_at := Some now,
                              c_release_scheduled_at := Some (now + 48 * 60 * 60 * 1000) \<rparr>) \<and>
              findOne (\<lambda>e. escrow_id e = escrow_id esc) (escrow_payments w') =
                Some (esc\<lparr> e_status := ''completed_pending_release'',
                           e_completed_at := Some now,
                           e_release_scheduled_at := Some (now + 48 * 60 * 60 * 1000) \<rparr>))) \<and>
     ((collaboration_type collab = Some ''barter'' \<or> collaboration_type collab = Some ''free'')
        \<longrightarrow> (\<exists>w'. update_collaboration_status w (Some usr) cid ''completed'' now = Inr w' \<and>
              findOne (\<lambda>c. collab_id c = cid) (collaborations w') =
                Some (collab\<lparr> c_status := ''completed'', c_payment_status := Some ''none'',
                              c_completed_at := Some now \<rparr>) \<and>
              escrow_payments w' = escrow_payments w))"
proof (intro conjI impI)
  assume a: "is_paid collab \<and> \<not> (\<exists>e \<in> set (escrow_payments w). e_collab_id e = cid \<and> e_status e = ''secured'')"
  then have "findOne (\<lambda>e. e_collab_id e = cid \<and> e_status e = ''secured'') (escrow_payments w) = None"
    by (auto simp: find_None_iff)
  with a found owner show "update_collaboration_status w (Some usr) cid ''completed'' now = Inl (Failure 400 Funds_not_secured)"
    by (simp add: update_collaboration_status_def)
next
  assume a: "is_paid collab \<and> (\<exists>e \<in> set (escrow_payments w). e_collab_id e = cid \<and> e_status e = ''secured'')"
  then obtain esc where esc: "findOne (\<lambda>e. e_collab_id e = cid \<and> e_status e = ''secured'') (escrow_payments w) = Some esc"
    by (cases "findOne (\<lambda>e. e_collab_id e = cid \<and> e_status e = ''secured'') (escrow_payments w)")
       (auto simp: find_None_iff)
  then have mem: "esc \<in> set (escrow_payments w)" "e_collab_id esc = cid" "e_status esc = ''secured''"
    using findOne_in_set [OF esc] by auto
  let ?fc = "\<lambda>c. c\<lparr> c_status := ''completed_pending_release'',
                     c_payment_status := Some ''completed_pending_release'',
                     c_completed_at := Some now,
                     c_release_scheduled_at := Some (now + 48 * 60 * 60 * 1000) \<rparr>"
  let ?fe = "\<lambda>e. e\<lparr> e_status := ''completed_pending_release'', e_completed_at := Some now,
                     e_release_scheduled_at := Some (now + 48 * 60 * 60 * 1000) \<rparr>"
  let ?w' = "w\<lparr> collaborations := updateOne (\<lambda>c. collab_id c = cid) ?fc (collaborations w),
                escrow_payments := updateOne (\<lambda>e. escrow_id e = escrow_id esc) ?fe (escrow_payments w) \<rparr>"
  have res: "update_collaboration_status w (Some usr) cid ''completed'' now = Inr ?w'"
    using a found owner esc by (simp add: update_collaboration_status_def Let_def)
  have c: "findOne (\<lambda>c. collab_id c = cid) (collaborations ?w') = Some (?fc collab)"
    using findOne_updateOne_same [OF found, of ?fc] findOne_in_set [OF found] by simp
  have byid: "findOne (\<lambda>e. escrow_id e = escrow_id esc) (escrow_payments w) = Some esc"
    using findOne_by_key [OF ids mem(1)] .
  have e: "findOne (\<lambda>e. escrow_id e = escrow_id esc) (escrow_payments ?w') = Some (?fe esc)"
    using findOne_updateOne_same [OF byid, of ?fe] by simp
  show "\<exists>w' esc. update_collaboration_status w (Some usr) cid ''completed'' now = Inr w' \<and>
              esc \<in> set (escrow_payments w) \<and> e_collab_id esc = cid \<and> e_status esc = ''secured'' \<and>
              findOne (\<lambda>c. collab_id c = cid) (collaborations w') = Some (?fc collab) \<and>
              findOne (\<lambda>e. escrow_id e = escrow_id esc) (escrow_payments w') = Some (?fe esc)"
    using res c e mem by blast
next
  assume "collaboration_type collab = Some ''barter'' \<or> collaboration_type collab = Some ''free''"
  then have np: "\<not> is_paid collab" by (rule not_paid_types)
  let ?fc = "\<lambda>c. c\<lparr> c_status := ''completed'', c_payment_status := Some ''none'', c_completed_at := Some now \<rparr>"
  let ?w' = "w\<lparr> collaborations := updateOne (\<lambda>c. collab_id c = cid) ?fc (collaborations w) \<rparr>"
  have res: "update_collaboration_status w (Some usr) cid ''completed'' now = Inr ?w'"
    using np found owner by (simp add: update_collaboration_status_def)
  have c: "findOne (\<lambda>c. collab_id c = cid) (collaborations ?w') = Some (?fc collab)"
    using findOne_updateOne_same [OF found, of ?fc] findOne_in_set [OF found] by simp
  show "\<exists>w'. update_collaboration_status w (Some usr) cid ''completed'' now = Inr w' \<and>
              findOne (\<lambda>c. collab_id c = cid) (collaborations w') = Some (?fc collab) \<and>
              escrow_payments w' = escrow_payments w"
    using res c by (intro exI [of _ ?w']) simp
qed


theorem completed_request_witness:
  "findOne (\<lambda>c. collab_id c = ''c1'') (collaborations world_secured)
     = Some (collab0\<lparr> c_payment_status := Some ''secured'', c_escrow_id := Some ''e1'' \<rparr>) \<and>
   brand_user_id (collab0\<lparr> c_payment_status := Some ''secured'', c_escrow_id := Some ''e1'' \<rparr>)
     = user_id brand0 \<and>
   distinct (map escrow_id (escrow_payments world_secured)) \<and>
   is_paid (collab0\<lparr> c_payment_status := Some ''secured'', c_escrow_id := Some ''e1'' \<rparr>) \<and>
   (\<exists>w' esc. update_collaboration_status world_secured (Some brand0) ''c1'' ''completed'' 3 = Inr w' \<and>
      esc \<in> set (escrow_payments world_secured) \<and> e_collab_id esc = ''c1'' \<and>
      e_status esc = ''secured'' \<and>
      findOne (\<lambda>c. collab_id c = ''c1'') (collaborations w') =
        Some (collab0\<lparr> c_payment_status := Some ''secured'', c_escrow_id := Some ''e1'',
                       c_status := ''completed_pending_release'',
                       c_payment_status := Some ''completed_pending_release'',
                       c_completed_at := Some 3,
                       c_release_scheduled_at := Some (3 + 48 * 60 * 60 * 1000) \<rparr>) \<and>
      findOne (\<lambda>e. escrow_id e = escrow_id esc) (escrow_payments w') =
        Some (esc\<lparr> e_status := ''completed_pending_release'', e_completed_at := Some 3,
                   e_release_scheduled_at := Some (3 + 48 * 60 * 60 * 1000) \<rparr>))"
proof -
  let ?c = "collab0\<lparr> c_payment_status := Some ''secured'', c_escrow_id := Some ''e1'' \<rparr>"
  have h1: "findOne (\<lambda>c. collab_id c = ''c1'') (collaborations world_secured) = Some ?c"
    by code_simp
  have h2: "brand_user_id ?c = user_id brand0"
    by code_simp
  have h3: "distinct (map escrow_id (escrow_payments world_secured))"
    by code_simp
  have h4: "is_paid ?c \<and>
      (\<exists>e \<in> set (escrow_payments world_secured). e_collab_id e = ''c1'' \<and> e_status e = ''secured'')"
    by code_simp
  from completed_request [OF h1 h2 h3, of 3] h4 h1 h2 h3 show ?thesis
    by simp
qed

section \<open>Other status requests\<close>

text \<open>
  C6, as the code has it. A request of the owning brand for any status other than
  \<^verbatim>\<open>completed\<close> succeeds and writes that status into the collaboration, whatever the
  status of the collaboration was; nothing else in the database changes. The handler has
  no notion of a terminal status.
\<close>

theorem other_status_unguarded:
  assumes found: "findOne (\<lambda>c. collab_id c = cid) (collaborations w) = Some collab"
    and owner: "brand_user_id collab = user_id usr"
    and other: "newStatus \<noteq> ''completed''"
  shows "\<exists>w'. update_collaboration_status w (Some usr) cid newStatus now = Inr w' \<and>
           findOne (\<lambda>c. collab_id c = cid) (collaborations w') = Some (collab\<lparr> c_status := newStatus \<rparr>) \<and>
           w' = w\<lparr> collaborations := collaborations w' \<rparr>"
proof -
  let ?w' = "w\<lparr> collaborations := updateOne (\<lambda>c. collab_id c = cid)
                    (\<lambda>c. c\<lparr> c_status := newStatus \<rparr>) (collaborations w) \<rparr>"
  have res: "update_collaboration_status w (Some usr) cid newStatus now = Inr ?w'"
    using found owner other by (simp add: update_collaboration_status_def)
  have c: "findOne (\<lambda>c. collab_id c = cid) (collaborations ?w') = Some (collab\<lparr> c_status := newStatus \<rparr>)"
    using findOne_updateOne_same [OF found, of "\<lambda>c. c\<lparr> c_status := newStatus \<rparr>"]
      findOne_in_set [OF found] by simp
  show ?thesis using res c by (intro exI [of _ ?w']) simp
qed

theorem other_status_unguarded_witness:
  "findOne (\<lambda>c. collab_id c = ''c1'') (collaborations world0) = Some collab0 \<and>
   brand_user_id collab0 = user_id brand0 \<and> ''in_progress'' \<noteq> ''completed'' \<and>
   (\<exists>w'. update_collaboration_status world0 (Some brand0) ''c1'' ''in_progress'' 1 = Inr w' \<and>
      findOne (\<lambda>c. collab_id c = ''c1'') (collaborations w') = Some (collab0\<lparr> c_status := ''in_progress'' \<rparr>) \<and>
      w' = world0\<lparr> collaborations := collaborations w' \<rparr>)"
proof -
  have h1: "findOne (\<lambda>c. collab_id c = ''c1'') (collaborations world0) = Some collab0" by code_simp
  have h2: "brand_user_id collab0 = user_id brand0" by code_simp
  have h3: "''in_progress'' \<noteq> ''completed''" by simp
  from other_status_unguarded [OF h1 h2 h3, of 1] h1 h2 h3 show ?thesis by simp
qed

text \<open>
  C6 as stated fails: after the release the collaboration is \<^verbatim>\<open>completed\<close>, and the
  brand's request to make it \<^verbatim>\<open>active\<close> again is not rejected but carried out.
\<close>

theorem terminal_status_counterexample:
  "map c_status (collaborations world_released) = [''completed''] \<and>
   map_sum id (\<lambda>w'. map c_status (collaborations w'))
     (update_collaboration_status world_released (Some brand0) ''c1'' ''active'' 5) = Inr [''active'']"
  by code_simp

section \<open>Cancelling before work starts\<close>

text \<open>
  C7. Let the brand, or an influencer with an accepted application, ask to cancel a
  collaboration that is \<^verbatim>\<open>active\<close> with payment status \<^verbatim>\<open>secured\<close>,
  \<^verbatim>\<open>awaiting_escrow\<close> or \<^verbatim>\<open>none\<close> (a missing payment status counts as
  \<^verbatim>\<open>none\<close>). The request succeeds; the collaboration is \<^verbatim>\<open>cancelled\<close>; if the
  payment status was \<^verbatim>\<open>secured\<close>, the first secured escrow of the collaboration is
  \<^verbatim>\<open>refunded\<close> and the payment status is \<^verbatim>\<open>refunded\<close>, otherwise the escrows are
  untouched and the payment status is \<^verbatim>\<open>none\<close>; and one cancellation record with status
  \<^verbatim>\<open>completed\<close> is added.
\<close>

theorem auto_cancellation:
  assumes found: "findOne (\<lambda>c. collab_id c = cid) (collaborations w) = Some collab"
    and party: "brand_user_id collab = user_id usr \<or> accepted_influencer w cid (user_id usr)"
    and active: "c_status collab = ''active''"
    and pay: "str_or (c_payment_status collab) ''none'' \<in> {''secured'', ''awaiting_escrow'', ''none''}"
  shows "\<exists>w' x. cancel_collaboration w (Some usr) cid reason details new_id ts = Inr w' \<and>
           findOne (\<lambda>c. collab_id c = cid) (collaborations w') =
             Some (collab\<lparr> c_status := ''cancelled'',
                           c_payment_status := Some (if c_payment_status collab = Some ''secured''
                                                     then ''refunded'' else ''none''),
                           c_cancelled_at := Some ts, cancelled_by := Some (user_id usr),
                           cancellation_reason := Some reason \<rparr>) \<and>
           (c_payment_status collab = Some ''secured'' \<longrightarrow>
              (\<forall>pre esc post.
                 escrow_payments w = pre @ esc # post \<and>
                 (\<forall>e \<in> set pre. \<not> (e_collab_id e = cid \<and> e_status e = ''secured'')) \<and>
                 e_collab_id esc = cid \<and> e_status esc = ''secured''
                 \<longrightarrow> escrow_payments w' = pre @ esc\<lparr> e_status := ''refunded'', refunded_at := Some ts \<rparr> # post)) \<and>
           (c_payment_status collab \<noteq> Some ''secured'' \<longrightarrow> escrow_payments w' = escrow_payments w) \<and>
           cancellations w' = cancellations w @ [x] \<and>
           x_status x = ''completed'' \<and> x_collab_id x = cid \<and> requested_by x = user_id usr \<and>
           x_resolution x = Some (if c_payment_status collab = Some ''secured''
                                  then ''full_refund'' else ''no_payment'')"
proof -
  let ?sec = "c_payment_status collab = Some ''secured''"
  let ?fc = "\<lambda>c. c\<lparr> c_status := ''cancelled'',
                     c_payment_status := Some (if ?sec then ''refunded'' else ''none''),
                     c_cancelled_at := Some ts, cancelled_by := Some (user_id usr),
                     cancellation_reason := Some reason \<rparr>"
  let ?fe = "\<lambda>e. e\<lparr> e_status := ''refunded'', refunded_at := Some ts \<rparr>"
  let ?P = "\<lambda>e. e_collab_id e = cid \<and> e_status e = ''secured''"
  let ?brand = "brand_user_id collab = user_id usr"
  let ?x = "\<lparr> cancellation_id = new_id, x_collab_id = cid, requested_by = user_id usr,
              requester_type = (if ?brand then ''brand'' else ''influencer''),
              x_reason = reason, x_details = details, x_status = ''completed'',
              x_resolution = Some (if ?sec then ''full_refund'' else ''no_payment''),
              x_created_at = ts, x_resolved_at = Some ts,
              x_admin_notes = None, partial_amount = None \<rparr>"
  let ?w' = "w\<lparr> collaborations := updateOne (\<lambda>c. collab_id c = cid) ?fc (collaborations w),
                escrow_payments := (if ?sec then updateOne ?P ?fe (escrow_payments w) else escrow_payments w),
                cancellations := cancellations w @ [?x] \<rparr>"
  have res: "cancel_collaboration w (Some usr) cid reason details new_id ts = Inr ?w'"
    using found party active pay by (auto simp: cancel_collaboration_def Let_def)
  have c: "findOne (\<lambda>c. collab_id c = cid) (collaborations ?w') = Some (?fc collab)"
    using findOne_updateOne_same [OF found, of ?fc] findOne_in_set [OF found] by simp
  have e: "?sec \<longrightarrow> (\<forall>pre esc post.
                 escrow_payments w = pre @ esc # post \<and> (\<forall>e \<in> set pre. \<not> ?P e) \<and>
                 e_collab_id esc = cid \<and> e_status esc = ''secured''
                 \<longrightarrow> escrow_payments ?w' = pre @ ?fe esc # post)"
    by (auto simp: updateOne_split)
  show ?thesis
    apply (rule exI [of _ ?w'], rule exI [of _ ?x])
    using res c e by simp
qed


theorem auto_cancellation_witness:
  "findOne (\<lambda>c. collab_id c = ''c1'') (collaborations world_secured)
     = Some (collab0\<lparr> c_payment_status := Some ''secured'', c_escrow_id := Some ''e1'' \<rparr>) \<and>
   accepted_influencer world_secured ''c1'' (user_id influencer0) \<and>
   c_status (collab0\<lparr> c_payment_status := Some ''secured'', c_escrow_id := Some ''e1'' \<rparr>) = ''active'' \<and>
   (\<exists>w' x. cancel_collaboration world_secured (Some influencer0) ''c1'' ''other'' ''plans changed'' ''x1'' 3 = Inr w' \<and>
      findOne (\<lambda>c. collab_id c = ''c1'') (collaborations w') =
        Some (collab0\<lparr> c_escrow_id := Some ''e1'', c_status := ''cancelled'',
                       c_payment_status := Some ''refunded'', c_cancelled_at := Some 3,
                       cancelled_by := Some ''i1'', cancellation_reason := Some ''other'' \<rparr>) \<and>
      escrow_payments w' =
        [(hd (escrow_payments world_secured))\<lparr> e_status := ''refunded'', refunded_at := Some 3 \<rparr>] \<and>
      cancellations w' = [x] \<and> x_status x = ''completed'' \<and> x_collab_id x = ''c1'' \<and>
      requested_by x = ''i1'' \<and> x_resolution x = Some ''full_refund'')"
proof -
  let ?c = "collab0\<lparr> c_payment_status := Some ''secured'', c_escrow_id := Some ''e1'' \<rparr>"
  let ?e = "hd (escrow_payments world_secured)"
  have h1: "findOne (\<lambda>c. collab_id c = ''c1'') (collaborations world_secured) = Some ?c"
    by code_simp
  have inf: "accepted_influencer world_secured ''c1'' (user_id influencer0)"
    by code_simp
  then have h2: "brand_user_id ?c = user_id influencer0 \<or>
      accepted_influencer world_secured ''c1'' (user_id influencer0)" by simp
  have h3: "c_status ?c = ''active''"
    by code_simp
  have h4: "str_or (c_payment_status ?c) ''none'' \<in> {''secured'', ''awaiting_escrow'', ''none''}"
    by code_simp
  have sec: "c_payment_status ?c = Some ''secured''"
    by code_simp
  have shape: "escrow_payments world_secured = [] @ ?e # []"
    by code_simp
  have first: "e_collab_id ?e = ''c1'' \<and> e_status ?e = ''secured''"
    by code_simp
  have none: "cancellations world_secured = []" and uid: "user_id influencer0 = ''i1''"
    by code_simp+
  from auto_cancellation [OF h1 h2 h3 h4, of "''other''" "''plans changed''" "''x1''" 3]
  obtain w' x where r: "cancel_collaboration world_secured (Some influencer0) ''c1'' ''other'' ''plans changed'' ''x1'' 3 = Inr w'"
    and c: "findOne (\<lambda>c. collab_id c = ''c1'') (collaborations w') =
             Some (?c\<lparr> c_status := ''cancelled'',
                       c_payment_status := Some (if c_payment_status ?c = Some ''secured'' then ''refunded'' else ''none''),
                       c_cancelled_at := Some 3, cancelled_by := Some (user_id influencer0),
                       cancellation_reason := Some ''other'' \<rparr>)"
    and e: "c_payment_status ?c = Some ''secured'' \<longrightarrow>
              (\<forall>pre esc post.
                 escrow_payments world_secured = pre @ esc # post \<and>
                 (\<forall>e \<in> set pre. \<not> (e_collab_id e = ''c1'' \<and> e_status e = ''secured'')) \<and>
                 e_collab_id esc = ''c1'' \<and> e_status esc = ''secured''
                 \<longrightarrow> escrow_payments w' = pre @ esc\<lparr> e_status := ''refunded'', refunded_at := Some 3 \<rparr> # post)"
    and x: "cancellations w' = cancellations world_secured @ [x]" "x_status x = ''completed''"
      "x_collab_id x = ''c1''" "requested_by x = user_id influencer0"
      "x_resolution x = Some (if c_payment_status ?c = Some ''secured'' then ''full_refund'' else ''no_payment'')"
    by blast
  from e sec shape first
  have e': "escrow_payments w' = [] @ ?e\<lparr> e_status := ''refunded'', refunded_at := Some 3 \<rparr> # []"
    by (metis empty_iff list.set(1))
  have c': "findOne (\<lambda>c. collab_id c = ''c1'') (collaborations w') =
        Some (collab0\<lparr> c_escrow_id := Some ''e1'', c_status := ''cancelled'',
                       c_payment_status := Some ''refunded'', c_cancelled_at := Some 3,
                       cancelled_by := Some ''i1'', cancellation_reason := Some ''other'' \<rparr>)"
    using c sec uid by simp
  show ?thesis
    using h1 inf h3 r c' e' x sec none uid by simp
qed

section \<open>Opening a dispute\<close>

text \<open>
  C5, as the code has it. If opening a dispute succeeds, then the caller is authenticated,
  the collaboration was in status \<^verbatim>\<open>completed_pending_release\<close> and had no dispute in
  status \<^verbatim>\<open>open\<close> or \<^verbatim>\<open>under_review\<close>; afterwards its status and payment status
  are both \<^verbatim>\<open>disputed\<close>, its first escrow in status
  \<^verbatim>\<open>completed_pending_release\<close> is \<^verbatim>\<open>disputed\<close>, every message of the
  collaboration has \<^verbatim>\<open>thread_locked = true\<close> (the other messages are as before), and
  one dispute in status \<^verbatim>\<open>open\<close> is added. A second attempt on the collaboration, by
  any user, then fails on the status check, which comes first: status 400 with the message
  that disputes are only possible in the confirmation window (the specification's
  InvalidState). The message that a dispute is already open (its Conflict) is the answer
  when the collaboration is in the confirmation window, the caller is a party, and a
  dispute in status \<^verbatim>\<open>open\<close> or \<^verbatim>\<open>under_review\<close> exists.
\<close>

theorem open_dispute:
  "(create_dispute w actor cid reason details new_id ts = Inr w' \<longrightarrow>
      (\<exists>usr collab d.
         actor = Some usr \<and>
         findOne (\<lambda>c. collab_id c = cid) (collaborations w) = Some collab \<and>
         c_status collab = ''completed_pending_release'' \<and>
         \<not> (\<exists>d \<in> set (disputes w). d_collab_id d = cid \<and> d_status d \<in> {''open'', ''under_review''}) \<and>
         findOne (\<lambda>c. collab_id c = cid) (collaborations w') =
           Some (collab\<lparr> c_status := ''disputed'', c_payment_status := Some ''disputed'',
                         c_disputed_at := Some ts \<rparr>) \<and>
         (\<forall>pre esc post.
            escrow_payments w = pre @ esc # post \<and>
            (\<forall>e \<in> set pre. \<not> (e_collab_id e = cid \<and> e_status e = ''completed_pending_release'')) \<and>
            e_collab_id esc = cid \<and> e_status esc = ''completed_pending_release''
            \<longrightarrow> escrow_payments w' = pre @ esc\<lparr> e_status := ''disputed'', e_disputed_at := Some ts \<rparr> # post) \<and>
         messages w' = map (\<lambda>m. if m_collab_id m = cid then m\<lparr> thread_locked := True \<rparr> else m) (messages w) \<and>
         disputes w' = disputes w @ [d] \<and> dispute_id d = new_id \<and> d_collab_id d = cid \<and>
         d_status d = ''open'' \<and> opened_by d = user_id usr \<and>
         (\<forall>usr2 reason2 details2 id2 ts2.
            create_dispute w' (Some usr2) cid reason2 details2 id2 ts2
              = Inl (Failure 400 Dispute_outside_window)))) \<and>
   (\<forall>usr collab.
      findOne (\<lambda>c. collab_id c = cid) (collaborations w) = Some collab \<and>
      c_status collab = ''completed_pending_release'' \<and>
      (brand_user_id collab = user_id usr \<or> accepted_influencer w cid (user_id usr)) \<and>
      (\<exists>d \<in> set (disputes w). d_collab_id d = cid \<and> d_status d \<in> {''open'', ''under_review''})
      \<longrightarrow> create_dispute w (Some usr) cid reason details new_id ts = Inl (Failure 400 Dispute_already_open))"
proof (intro conjI impI allI)
  assume ok: "create_dispute w actor cid reason details new_id ts = Inr w'"
  then obtain usr where actor: "actor = Some usr"
    by (cases actor) (auto simp: create_dispute_def)
  from ok actor obtain collab where found: "findOne (\<lambda>c. collab_id c = cid) (collaborations w) = Some collab"
    by (cases "findOne (\<lambda>c. collab_id c = cid) (collaborations w)") (auto simp: create_dispute_def)
  from ok actor found have st: "c_status collab = ''completed_pending_release''"
    by (auto simp: create_dispute_def split: if_splits)
  let ?open = "\<lambda>d. d_collab_id d = cid \<and> d_status d \<in> set [''open'', ''under_review'']"
  from ok actor found st have nod: "findOne ?open (disputes w) = None"
    by (auto simp: create_dispute_def Let_def split: if_splits)
  then have nod': "\<not> (\<exists>d \<in> set (disputes w). d_collab_id d = cid \<and> d_status d \<in> {''open'', ''under_review''})"
    by (auto simp: find_None_iff)
  let ?fc = "\<lambda>c. c\<lparr> c_status := ''disputed'', c_payment_status := Some ''disputed'', c_disputed_at := Some ts \<rparr>"
  let ?fe = "\<lambda>e. e\<lparr> e_status := ''disputed'', e_disputed_at := Some ts \<rparr>"
  let ?P = "\<lambda>e. e_collab_id e = cid \<and> e_status e = ''completed_pending_release''"
  from ok actor found st nod obtain d where
    w': "w' = w\<lparr> disputes := disputes w @ [d],
                 collaborations := updateOne (\<lambda>c. collab_id c = cid) ?fc (collaborations w),
                 escrow_payments := updateOne ?P ?fe (escrow_payments w),
                 messages := updateMany (\<lambda>m. m_collab_id m = cid) (\<lambda>m. m\<lparr> thread_locked := True \<rparr>) (messages w) \<rparr>"
    and d: "dispute_id d = new_id" "d_collab_id d = cid" "d_status d = ''open''" "opened_by d = user_id usr"
    by (auto simp: create_dispute_def Let_def split: if_splits)
  have c: "findOne (\<lambda>c. collab_id c = cid) (collaborations w') = Some (?fc collab)"
    using findOne_updateOne_same [OF found, of ?fc] findOne_in_set [OF found] by (simp add: w')
  have e: "\<forall>pre esc post.
            escrow_payments w = pre @ esc # post \<and> (\<forall>e \<in> set pre. \<not> ?P e) \<and>
            e_collab_id esc = cid \<and> e_status esc = ''completed_pending_release''
            \<longrightarrow> escrow_payments w' = pre @ ?fe esc # post"
    by (auto simp: w' updateOne_split)
  have m: "messages w' = map (\<lambda>m. if m_collab_id m = cid then m\<lparr> thread_locked := True \<rparr> else m) (messages w)"
    by (simp add: w' updateMany_def)
  have again: "\<forall>usr2 reason2 details2 id2 ts2.
            create_dispute w' (Some usr2) cid reason2 details2 id2 ts2 = Inl (Failure 400 Dispute_outside_window)"
    using c by (simp add: create_dispute_def)
  have dd: "disputes w' = disputes w @ [d]" by (simp add: w')
  show "\<exists>usr collab d.
         actor = Some usr \<and>
         findOne (\<lambda>c. collab_id c = cid) (collaborations w) = Some collab \<and>
         c_status collab = ''completed_pending_release'' \<and>
         \<not> (\<exists>d \<in> set (disputes w). d_collab_id d = cid \<and> d_status d \<in> {''open'', ''under_review''}) \<and>
         findOne (\<lambda>c. collab_id c = cid) (collaborations w') = Some (?fc collab) \<and>
         (\<forall>pre esc post.
            escrow_payments w = pre @ esc # post \<and>
            (\<forall>e \<in> set pre. \<not> ?P e) \<and>
            e_collab_id esc = cid \<and> e_status esc = ''completed_pending_release''
            \<longrightarrow> escrow_payments w' = pre @ ?fe esc # post) \<and>
         messages w' = map (\<lambda>m. if m_collab_id m = cid then m\<lparr> thread_locked := True \<rparr> else m) (messages w) \<and>
         disputes w' = disputes w @ [d] \<and> dispute_id d = new_id \<and> d_collab_id d = cid \<and>
         d_status d = ''open'' \<and> opened_by d = user_id usr \<and>
         (\<forall>usr2 reason2 details2 id2 ts2.
            create_dispute w' (Some usr2) cid reason2 details2 id2 ts2
              = Inl (Failure 400 Dispute_outside_window))"
    apply (rule exI [of _ usr], rule exI [of _ collab], rule exI [of _ d])
    using actor found st nod' c e m dd d again by blast
next
  fix usr :: user and collab :: collaboration
  assume a: "findOne (\<lambda>c. collab_id c = cid) (collaborations w) = Some collab \<and>
      c_status collab = ''completed_pending_release'' \<and>
      (brand_user_id collab = user_id usr \<or> accepted_influencer w cid (user_id usr)) \<and>
      (\<exists>d \<in> set (disputes w). d_collab_id d = cid \<and> d_status d \<in> {''open'', ''under_review''})"
  then have "findOne (\<lambda>d. d_collab_id d = cid \<and> d_status d \<in> set [''open'', ''under_review'']) (disputes w) \<noteq> None"
    by (auto simp: find_None_iff)
  with a show "create_dispute w (Some usr) cid reason details new_id ts = Inl (Failure 400 Dispute_already_open)"
    by (auto simp: create_dispute_def Let_def)
qed

theorem open_dispute_witness:
  "create_dispute world_window (Some influencer0) ''c1'' ''quality'' ''late'' ''d1'' 4 = Inr world_disputed \<and>
   (\<exists>collab d.
      findOne (\<lambda>c. collab_id c = ''c1'') (collaborations world_window) = Some collab \<and>
      c_status collab = ''completed_pending_release'' \<and>
      findOne (\<lambda>c. collab_id c = ''c1'') (collaborations world_disputed) =
        Some (collab\<lparr> c_status := ''disputed'', c_payment_status := Some ''disputed'',
                      c_disputed_at := Some 4 \<rparr>) \<and>
      escrow_payments world_disputed =
        [(hd (escrow_payments world_window))\<lparr> e_status := ''disputed'', e_disputed_at := Some 4 \<rparr>] \<and>
      messages world_disputed =
        map (\<lambda>m. if m_collab_id m = ''c1'' then m\<lparr> thread_locked := True \<rparr> else m) (messages world_window) \<and>
      disputes world_disputed = disputes world_window @ [d] \<and> d_status d = ''open'' \<and>
      (\<forall>usr2 reason2 details2 id2 ts2.
         create_dispute world_disputed (Some usr2) ''c1'' reason2 details2 id2 ts2
           = Inl (Failure 400 Dispute_outside_window)))"
proof -
  let ?e = "hd (escrow_payments world_window)"
  have ok: "create_dispute world_window (Some influencer0) ''c1'' ''quality'' ''late'' ''d1'' 4 = Inr world_disputed"
    by code_simp
  have shape: "escrow_payments world_window = [] @ ?e # []"
    by code_simp
  have first: "e_collab_id ?e = ''c1'' \<and> e_status ?e = ''completed_pending_release''"
    by code_simp
  from open_dispute [THEN conjunct1, rule_format, OF ok]
  obtain usr collab d where
    f: "findOne (\<lambda>c. collab_id c = ''c1'') (collaborations world_window) = Some collab"
      "c_status collab = ''completed_pending_release''"
      "findOne (\<lambda>c. collab_id c = ''c1'') (collaborations world_disputed) =
         Some (collab\<lparr> c_status := ''disputed'', c_payment_status := Some ''disputed'',
                       c_disputed_at := Some 4 \<rparr>)"
    and e: "\<forall>pre esc post.
            escrow_payments world_window = pre @ esc # post \<and>
            (\<forall>e \<in> set pre. \<not> (e_collab_id e = ''c1'' \<and> e_status e = ''completed_pending_release'')) \<and>
            e_collab_id esc = ''c1'' \<and> e_status esc = ''completed_pending_release''
            \<longrightarrow> escrow_payments world_disputed = pre @ esc\<lparr> e_status := ''disputed'', e_disputed_at := Some 4 \<rparr> # post"
    and m: "messages world_disputed =
        map (\<lambda>m. if m_collab_id m = ''c1'' then m\<lparr> thread_locked := True \<rparr> else m) (messages world_window)"
    and d: "disputes world_disputed = disputes world_window @ [d]" "d_status d = ''open''"
    and again: "\<forall>usr2 reason2 details2 id2 ts2.
         create_dispute world_disputed (Some usr2) ''c1'' reason2 details2 id2 ts2
           = Inl (Failure 400 Dispute_outside_window)"
    by blast
  from e shape first
  have e': "escrow_payments world_disputed = [] @ ?e\<lparr> e_status := ''disputed'', e_disputed_at := Some 4 \<rparr> # []"
    by (metis empty_iff list.set(1))
  show ?thesis
    using ok f e' m d again by auto
qed

text \<open>
  C5 as stated fails in its parenthesis: once the influencer has opened the dispute
  \<^verbatim>\<open>d1\<close>, a second attempt is refused because the collaboration is no longer in the
  confirmation window, not because a dispute is already open.
\<close>

theorem second_dispute_counterexample:
  "create_dispute world_window (Some influencer0) ''c1'' ''quality'' ''late'' ''d1'' 4 = Inr world_disputed \<and>
   create_dispute world_disputed (Some influencer0) ''c1'' ''quality'' ''late'' ''d2'' 5
     = Inl (Failure 400 Dispute_outside_window) \<and>
   create_dispute world_disputed (Some influencer0) ''c1'' ''quality'' ''late'' ''d2'' 5
     \<noteq> Inl (Failure 400 Dispute_already_open)"
  by code_simp

section \<open>Resolving a dispute with an unknown resolution\<close>

text \<open>
  C10, as the code has it. Let an administrator resolve a dispute that is not yet
  \<^verbatim>\<open>resolved\<close> with a resolution that is none of \<^verbatim>\<open>release_to_influencer\<close>,
  \<^verbatim>\<open>refund_to_brand\<close> and \<^verbatim>\<open>split\<close>. The call succeeds; the dispute is
  \<^verbatim>\<open>resolved\<close> with that resolution recorded; only the dispute collection changes, so the
  escrows and the collaborations are as before. In the database that results, the release
  handler and the refund handler refuse every escrow in status \<^verbatim>\<open>disputed\<close>, and the
  dispute cannot be resolved a second time.
\<close>

theorem unknown_resolution:
  assumes admin: "admin_ok w usr"
    and found: "findOne (\<lambda>d. dispute_id d = did) (disputes w) = Some disp"
    and unresolved: "d_status disp \<noteq> ''resolved''"
    and unknown: "resolution \<notin> {''release_to_influencer'', ''refund_to_brand'', ''split''}"
  shows "\<exists>w'. resolve_dispute w (Some usr) did resolution notes si sb gen ts = Inr w' \<and>
           findOne (\<lambda>d. dispute_id d = did) (disputes w') =
             Some (disp\<lparr> d_status := ''resolved'', d_resolution := Some resolution,
                         d_admin_notes := Some notes, d_split_influencer := None,
                         d_split_brand := None, d_resolved_at := Some ts \<rparr>) \<and>
           w' = w\<lparr> disputes := disputes w' \<rparr> \<and>
           escrow_payments w' = escrow_payments w \<and> collaborations w' = collaborations w \<and>
           (\<forall>eid esc. findOne (\<lambda>e. escrow_id e = eid) (escrow_payments w') = Some esc \<and>
                       e_status esc = ''disputed''
              \<longrightarrow> (\<forall>actor gen2 ts2. isl (release_escrow w' actor eid gen2 ts2)) \<and>
                  (\<forall>actor ts2. isl (refund_escrow w' actor eid ts2))) \<and>
           (\<forall>res2 notes2 si2 sb2 gen2 ts2.
              resolve_dispute w' (Some usr) did res2 notes2 si2 sb2 gen2 ts2
                = Inl (Failure 400 Dispute_already_resolved))"
proof -
  let ?fd = "\<lambda>d. d\<lparr> d_status := ''resolved'', d_resolution := Some resolution,
                     d_admin_notes := Some notes, d_split_influencer := None,
                     d_split_brand := None, d_resolved_at := Some ts \<rparr>"
  let ?w' = "w\<lparr> disputes := updateOne (\<lambda>d. dispute_id d = did) ?fd (disputes w) \<rparr>"
  have res: "resolve_dispute w (Some usr) did resolution notes si sb gen ts = Inr ?w'"
    using admin found unresolved unknown by (simp add: resolve_dispute_def Let_def)
  have d: "findOne (\<lambda>d. dispute_id d = did) (disputes ?w') = Some (?fd disp)"
    using findOne_updateOne_same [OF found, of ?fd] findOne_in_set [OF found] by simp
  have adm: "admin_ok ?w' usr" using admin by (simp add: admin_ok_def)
  have again: "\<forall>res2 notes2 si2 sb2 gen2 ts2.
              resolve_dispute ?w' (Some usr) did res2 notes2 si2 sb2 gen2 ts2
                = Inl (Failure 400 Dispute_already_resolved)"
    using d adm by (simp add: resolve_dispute_def)
  have stuck: "\<forall>eid esc. findOne (\<lambda>e. escrow_id e = eid) (escrow_payments ?w') = Some esc \<and>
                       e_status esc = ''disputed''
              \<longrightarrow> (\<forall>actor gen2 ts2. isl (release_escrow ?w' actor eid gen2 ts2)) \<and>
                  (\<forall>actor ts2. isl (refund_escrow ?w' actor eid ts2))"
    by (auto simp: release_escrow_def refund_escrow_def split: option.splits)
  show ?thesis
    apply (rule exI [of _ ?w'])
    using res d again stuck by simp
qed

theorem unknown_resolution_witness:
  "admin_ok world_disputed admin0 \<and>
   findOne (\<lambda>d. dispute_id d = ''d1'') (disputes world_disputed) = Some (hd (disputes world_disputed)) \<and>
   d_status (hd (disputes world_disputed)) \<noteq> ''resolved'' \<and>
   ''escalate'' \<notin> {''release_to_influencer'', ''refund_to_brand'', ''split''} \<and>
   resolve_dispute world_disputed (Some admin0) ''d1'' ''escalate'' ''see ticket'' 0 0 (\<lambda>i. ''k1'') 5
     = Inr world_unknown_resolution \<and>
   findOne (\<lambda>d. dispute_id d = ''d1'') (disputes world_unknown_resolution) =
     Some ((hd (disputes world_disputed))\<lparr> d_status := ''resolved'', d_resolution := Some ''escalate'',
              d_admin_notes := Some ''see ticket'', d_split_influencer := None,
              d_split_brand := None, d_resolved_at := Some 5 \<rparr>) \<and>
   escrow_payments world_unknown_resolution = escrow_payments world_disputed \<and>
   collaborations world_unknown_resolution = collaborations world_disputed \<and>
   (\<forall>actor gen2 ts2. isl (release_escrow world_unknown_resolution actor ''e1'' gen2 ts2)) \<and>
   (\<forall>actor ts2. isl (refund_escrow world_unknown_resolution actor ''e1'' ts2)) \<and>
   (\<forall>res2 notes2 si2 sb2 gen2 ts2.
      resolve_dispute world_unknown_resolution (Some admin0) ''d1'' res2 notes2 si2 sb2 gen2 ts2
        = Inl (Failure 400 Dispute_already_resolved))"
proof -
  let ?d = "hd (disputes world_disputed)"
  have h1: "admin_ok world_disputed admin0"
    by code_simp
  have h2: "findOne (\<lambda>d. dispute_id d = ''d1'') (disputes world_disputed) = Some ?d"
    by code_simp
  have h3: "d_status ?d \<noteq> ''resolved''"
    by code_simp
  have h4: "''escalate'' \<notin> {''release_to_influencer'', ''refund_to_brand'', ''split''}"
    by simp
  have run: "resolve_dispute world_disputed (Some admin0) ''d1'' ''escalate'' ''see ticket'' 0 0 (\<lambda>i. ''k1'') 5
     = Inr world_unknown_resolution"
    by code_simp
  have esc: "findOne (\<lambda>e. escrow_id e = ''e1'') (escrow_payments world_unknown_resolution)
               = Some (hd (escrow_payments world_unknown_resolution)) \<and>
             e_status (hd (escrow_payments world_unknown_resolution)) = ''disputed''"
    by code_simp
  from unknown_resolution [OF h1 h2 h3 h4, of "''see ticket''" 0 0 "\<lambda>i. ''k1''" 5] run
  have r: "findOne (\<lambda>d. dispute_id d = ''d1'') (disputes world_unknown_resolution) =
             Some (?d\<lparr> d_status := ''resolved'', d_resolution := Some ''escalate'',
                      d_admin_notes := Some ''see ticket'', d_split_influencer := None,
                      d_split_brand := None, d_resolved_at := Some 5 \<rparr>)"
      "escrow_payments world_unknown_resolution = escrow_payments world_disputed"
      "collaborations world_unknown_resolution = collaborations world_disputed"
      "\<forall>eid esc. findOne (\<lambda>e. escrow_id e = eid) (escrow_payments world_unknown_resolution) = Some esc \<and>
                       e_status esc = ''disputed''
              \<longrightarrow> (\<forall>actor gen2 ts2. isl (release_escrow world_unknown_resolution actor eid gen2 ts2)) \<and>
                  (\<forall>actor ts2. isl (refund_escrow world_unknown_resolution actor eid ts2))"
      "\<forall>res2 notes2 si2 sb2 gen2 ts2.
         resolve_dispute world_unknown_resolution (Some admin0) ''d1'' res2 notes2 si2 sb2 gen2 ts2
           = Inl (Failure 400 Dispute_already_resolved)"
    by auto
  from r(4) esc
  have stuck: "(\<forall>actor gen2 ts2. isl (release_escrow world_unknown_resolution actor ''e1'' gen2 ts2)) \<and>
               (\<forall>actor ts2. isl (refund_escrow world_unknown_resolution actor ''e1'' ts2))"
    by blast
  show ?thesis
    using h1 h2 h3 h4 run r(1,2,3,5) stuck by simp
qed

text \<open>
  C10 as stated fails in its parenthesis: the escrow that the unknown resolution left in
  status \<^verbatim>\<open>disputed\<close> is released after all, once the brand has put the collaboration
  back into the confirmation window, a second dispute has been opened, and the
  administrator has resolved that one in favour of the influencer.
\<close>

theorem unknown_resolution_counterexample:
  "map e_status (escrow_payments world_unknown_resolution) = [''disputed''] \<and>
   map d_status (disputes world_unknown_resolution) = [''resolved''] \<and>
   map d_resolution (disputes world_unknown_resolution) = [Some ''escalate''] \<and>
   map e_status (escrow_payments (run world_unknown_resolution
      [Change_status (Some brand0) ''c1'' ''completed_pending_release'' 6,
       Open_dispute (Some brand0) ''c1'' ''quality'' ''again'' ''d2'' 7,
       Resolve_dispute (Some admin0) ''d2'' ''release_to_influencer'' '''' 0 0 (\<lambda>i. ''k1'') 8]))
     = [''released'']"
  by code_simp

section \<open>The money of an escrow\<close>

lemma map_sum_snd_Inr: "map_sum id snd x = Inr w' \<longleftrightarrow> (\<exists>d. x = Inr (d, w'))"
  by (cases x) auto

lemma same_money_refl: "same_money e e"
  by (simp add: same_money_def)

lemma same_money_trans: "same_money a b \<Longrightarrow> same_money b c \<Longrightarrow> same_money a c"
  by (simp add: same_money_def)

lemma kept_refl: "kept xs xs"
  by (simp add: kept_def list_all2_refl same_money_refl)

lemma kept_updateOne:
  "(\<And>e. same_money e (f e)) \<Longrightarrow> kept xs (updateOne P f xs)"
  by (simp add: kept_def updateOne_rel same_money_refl)

lemma kept_append: "money_rule e \<Longrightarrow> kept xs (xs @ [e])"
  by (simp add: kept_def list_all2_refl same_money_refl)

lemma kept_iff:
  "kept xs ys \<longleftrightarrow>
     (\<exists>ys1 ys2. ys = ys1 @ ys2 \<and> list_all2 same_money xs ys1 \<and> list_all money_rule ys2)"
proof
  assume k: "kept xs ys"
  then have "ys = take (length xs) ys @ drop (length xs) ys \<and>
             list_all2 same_money xs (take (length xs) ys) \<and>
             list_all money_rule (drop (length xs) ys)"
    by (simp add: kept_def)
  then show "\<exists>ys1 ys2. ys = ys1 @ ys2 \<and> list_all2 same_money xs ys1 \<and> list_all money_rule ys2"
    by blast
next
  assume "\<exists>ys1 ys2. ys = ys1 @ ys2 \<and> list_all2 same_money xs ys1 \<and> list_all money_rule ys2"
  then obtain ys1 ys2 where ys: "ys = ys1 @ ys2" and a: "list_all2 same_money xs ys1"
    and r: "list_all money_rule ys2" by blast
  from a have "length ys1 = length xs" by (simp add: list_all2_lengthD)
  with ys a r show "kept xs ys" by (simp add: kept_def)
qed

lemma money_rule_same: "same_money a b \<Longrightarrow> money_rule a \<Longrightarrow> money_rule b"
  by (auto simp: same_money_def money_rule_def money_fields_def split: option.splits)

lemma money_rule_all_same:
  "list_all2 same_money xs ys \<Longrightarrow> list_all money_rule xs \<Longrightarrow> list_all money_rule ys"
  by (induction rule: list_all2_induct) (auto intro: money_rule_same)

lemma kept_trans:
  assumes "kept xs ys" and "kept ys zs"
  shows "kept xs zs"
proof -
  from assms(1) obtain ys1 ys2 where ys: "ys = ys1 @ ys2" and xy: "list_all2 same_money xs ys1"
    and r1: "list_all money_rule ys2" by (auto simp: kept_iff)
  from assms(2) obtain zs1 zs2 where zs: "zs = zs1 @ zs2" and yz: "list_all2 same_money ys zs1"
    and r2: "list_all money_rule zs2" by (auto simp: kept_iff)
  from yz ys obtain za zb where z1: "zs1 = za @ zb" and a: "list_all2 same_money ys1 za"
    and b: "list_all2 same_money ys2 zb" by (auto simp: list_all2_append1)
  have "list_all2 same_money xs za"
    using xy a by (rule list_all2_trans [rotated 1]) (rule same_money_trans)
  moreover have "list_all money_rule (zb @ zs2)"
    using money_rule_all_same [OF b r1] r2 by simp
  moreover have "zs = za @ (zb @ zs2)" using zs z1 by simp
  ultimately show ?thesis unfolding kept_iff by blast
qed

lemma money_rule_new_escrow: "money_rule (new_escrow new_id cid uid budget rate ts)"
  by (simp add: money_rule_def new_escrow_def Let_def rounded_share_def rounded_rest_def)

lemma in_range_cases:
  assumes "in_range e"
  obtains t r where "total_amount e = Finite t" and "commission_rate e = Some (Finite r)"
    and "\<bar>t\<bar> \<le> 10 ^ 12" and "0 \<le> r" and "r \<le> 100"
proof -
  from assms have "amount_rate_in_range (total_amount e) (commission_rate e)"
    by (simp add: in_range_def)
  then show ?thesis
    by (rule amount_rate_in_range.elims(2)) (use that in auto)
qed

lemma money_rule_close:
  assumes rule: "money_rule e" and t: "total_amount e = Finite t" and r: "commission_rate e = Some (Finite r)"
    and bt: "\<bar>t\<bar> \<le> 10 ^ 12" and r0: "0 \<le> r" and r1: "r \<le> 100"
  shows "\<exists>k m :: int.
           platform_commission e = Finite (nearest_double (of_int k / 100)) \<and>
           influencer_payout e = Finite (nearest_double (of_int m / 100)) \<and>
           \<bar>nearest_double (of_int k / 100) - t * r / 100\<bar> \<le> 6 / 1000 \<and>
           \<bar>nearest_double (of_int m / 100) - (t - nearest_double (of_int k / 100))\<bar> \<le> 64 / 10000 \<and>
           \<bar>nearest_double (of_int k / 100) + nearest_double (of_int m / 100) - t\<bar> \<le> 1 / 100"
proof -
  from rule t r have c0: "platform_commission e = rounded_share (Finite t) (Finite r)"
    and p0: "influencer_payout e = rounded_rest (Finite t) (platform_commission e)"
    by (simp_all add: money_rule_def)
  from rounded_share_close [OF bt r0 r1] obtain k :: int where
    c: "rounded_share (Finite t) (Finite r) = Finite (nearest_double (of_int k / 100))"
    and ce: "\<bar>nearest_double (of_int k / 100) - t * r / 100\<bar> \<le> 6 / 1000"
    and cb: "\<bar>nearest_double (of_int k / 100)\<bar> \<le> 10 ^ 12 + 1"
    by blast
  from rounded_rest_close [OF bt cb] obtain m :: int where
    n: "rounded_rest (Finite t) (Finite (nearest_double (of_int k / 100)))
          = Finite (nearest_double (of_int m / 100))"
    and ne: "\<bar>nearest_double (of_int m / 100) - (t - nearest_double (of_int k / 100))\<bar> \<le> 64 / 10000"
    by blast
  have pc: "platform_commission e = Finite (nearest_double (of_int k / 100))"
    by (simp only: c0 c)
  have ip: "influencer_payout e = Finite (nearest_double (of_int m / 100))"
    by (simp only: p0 pc n)
  have "\<bar>nearest_double (of_int k / 100) + nearest_double (of_int m / 100) - t\<bar> \<le> 1 / 100"
    using ne by linarith
  with pc ip ce ne show ?thesis by blast
qed

lemma money_rule_within_cent:
  assumes "money_rule e" and "in_range e"
  shows "within_cent e"
proof -
  from assms(2) obtain t r where t: "total_amount e = Finite t" and r: "commission_rate e = Some (Finite r)"
    and b: "\<bar>t\<bar> \<le> 10 ^ 12" "0 \<le> r" "r \<le> 100"
    by (rule in_range_cases)
  from money_rule_close [OF assms(1) t r b] show ?thesis
    by (auto simp: within_cent_def t)
qed

lemma escrows_updateInfluencerRating [simp]:
  "escrow_payments (updateInfluencerRating u w) = escrow_payments w"
  by (simp add: updateInfluencerRating_def Let_def)

lemma escrows_fold_rating [simp]:
  "escrow_payments (fold updateInfluencerRating us w) = escrow_payments w"
  by (induction us arbitrary: w) simp_all

lemma escrows_autoReveal [simp]:
  "escrow_payments (autoRevealTimedOutReviews w now) = escrow_payments w"
  by (simp add: autoRevealTimedOutReviews_def Let_def)

lemma kept_status:
  "update_collaboration_status w actor cid s now = Inr w' \<Longrightarrow> kept (escrow_payments w) (escrow_payments w')"
  by (auto simp: update_collaboration_status_def Let_def same_money_def money_fields_def
      split: option.splits if_splits intro!: kept_refl kept_updateOne)

lemma kept_cancel:
  "cancel_collaboration w actor cid reason details new_id ts = Inr w' \<Longrightarrow> kept (escrow_payments w) (escrow_payments w')"
  by (auto simp: cancel_collaboration_def Let_def same_money_def money_fields_def
      split: option.splits if_splits intro!: kept_refl kept_updateOne)

lemma kept_resolve_cancellation:
  "resolve_cancellation w actor xid res notes partial ts = Inr w' \<Longrightarrow> kept (escrow_payments w) (escrow_payments w')"
  by (auto simp: resolve_cancellation_def Let_def same_money_def money_fields_def
      split: option.splits if_splits intro!: kept_refl kept_updateOne)

lemma kept_create_dispute:
  "create_dispute w actor cid reason details new_id ts = Inr w' \<Longrightarrow> kept (escrow_payments w) (escrow_payments w')"
  by (auto simp: create_dispute_def Let_def same_money_def money_fields_def
      split: option.splits if_splits intro!: kept_refl kept_updateOne)

lemma kept_resolve_dispute:
  "resolve_dispute w actor did res notes si sb gen ts = Inr w' \<Longrightarrow> kept (escrow_payments w) (escrow_payments w')"
  by (auto simp: resolve_dispute_def Let_def same_money_def money_fields_def
      split: option.splits if_splits intro!: kept_refl kept_updateOne)

lemma kept_create_escrow:
  "create_escrow w actor cid new_id ts = Inr w' \<Longrightarrow> kept (escrow_payments w) (escrow_payments w')"
  by (auto simp: create_escrow_def Let_def split: option.splits if_splits
      intro!: kept_append money_rule_new_escrow)

lemma kept_secure:
  "secure_escrow_payment w actor eid payment_ref ts = Inr w' \<Longrightarrow> kept (escrow_payments w) (escrow_payments w')"
  by (auto simp: secure_escrow_payment_def Let_def same_money_def money_fields_def
      split: option.splits if_splits intro!: kept_refl kept_updateOne)

lemma kept_release:
  "release_escrow w actor eid gen ts = Inr w' \<Longrightarrow> kept (escrow_payments w) (escrow_payments w')"
  by (auto simp: release_escrow_def Let_def same_money_def money_fields_def
      split: option.splits if_splits intro!: kept_refl kept_updateOne)

lemma kept_refund:
  "refund_escrow w actor eid ts = Inr w' \<Longrightarrow> kept (escrow_payments w) (escrow_payments w')"
  by (auto simp: refund_escrow_def Let_def same_money_def money_fields_def
      split: option.splits if_splits intro!: kept_refl kept_updateOne)

lemma kept_update_commission:
  "update_commission w actor r = Inr w' \<Longrightarrow> kept (escrow_payments w) (escrow_payments w')"
  by (auto simp: update_commission_def split: option.splits if_splits intro!: kept_refl)

lemma kept_create_review:
  "create_review w actor aid rating_in comment_in new_id ts = Inr (doc, w') \<Longrightarrow> kept (escrow_payments w) (escrow_payments w')"
  by (auto simp: create_review_def Let_def split: option.splits if_splits intro!: kept_refl)

lemma kept_exec: "exec w cmd = Inr w' \<Longrightarrow> kept (escrow_payments w) (escrow_payments w')"
  by (cases cmd)
     (auto simp: map_sum_snd_Inr intro: kept_status kept_cancel kept_resolve_cancellation kept_create_dispute
        kept_resolve_dispute kept_create_escrow kept_secure kept_release kept_refund
        kept_update_commission kept_create_review kept_refl)

lemma kept_run: "kept (escrow_payments w) (escrow_payments (run w cmds))"
proof (induction cmds arbitrary: w)
  case Nil
  show ?case by (simp add: kept_refl)
next
  case (Cons c cs)
  show ?case
  proof (cases "exec w c")
    case (Inl f)
    then show ?thesis using Cons.IH [of w] by simp
  next
    case (Inr w')
    from kept_exec [OF Inr] Cons.IH [of w'] have "kept (escrow_payments w) (escrow_payments (run w' cs))"
      by (rule kept_trans)
    with Inr show ?thesis by simp
  qed
qed

text \<open>
  C1 as stated fails for large budgets. With a budget of \<open>2 ^ 53\<close> and the default rate of
  10 percent, \<^verbatim>\<open>createEscrow\<close> stores the commission 900719925474099.25 and the payout
  8106479329266893, which miss the total amount by 0.25.
\<close>

theorem escrow_money_counterexample:
  "getCommissionRate (settings world_large_budget) = Finite 10 \<and>
   map_sum id (\<lambda>w'. map money_fields (escrow_payments w'))
     (create_escrow world_large_budget (Some brand0) ''c1'' ''e1'' 1)
     = Inr [(Finite (2 ^ 53), Finite (3602879701896397 / 4), Finite 8106479329266893)] \<and>
   (1 :: rat) / 100 < \<bar>3602879701896397 / 4 + 8106479329266893 - 2 ^ 53\<bar>"
  by code_simp

text \<open>
  C1, for budgets up to \<open>10 ^ 12\<close>. An escrow that \<^verbatim>\<open>createEscrow\<close> stores carries the
  rate read at that moment, and its commission and payout are computed from its total
  amount and that rate by the rule of the handler. If the total amount \<open>t\<close> is at most
  \<open>10 ^ 12\<close> in magnitude and the rate \<open>r\<close> is between 0 and 100, the commission is the
  double nearest to a whole number of cents and lies within 0.006 of \<open>t * r / 100\<close>, the
  payout is the double nearest to a whole number of cents and lies within 0.0064 of the
  total amount less the commission, and commission plus payout is the total amount up to
  one cent. After any run of commands every escrow is still in the collection at its place
  with the same total amount, commission, payout and stored rate; hence if every escrow
  obeyed the rule before the run, every escrow obeys it after the run, and every escrow
  whose total amount and rate are in that range satisfies the identity up to one cent.
\<close>

theorem escrow_money_identity:
  "(create_escrow w0 actor cid new_id ts = Inr w1 \<longrightarrow>
      (\<exists>e. escrow_payments w1 = escrow_payments w0 @ [e] \<and>
           commission_rate e = Some (getCommissionRate (settings w0)) \<and> money_rule e \<and>
           (\<forall>t r. total_amount e = Finite t \<and> \<bar>t\<bar> \<le> 10 ^ 12 \<and>
                  getCommissionRate (settings w0) = Finite r \<and> 0 \<le> r \<and> r \<le> 100 \<longrightarrow>
             (\<exists>k m :: int.
                platform_commission e = Finite (nearest_double (of_int k / 100)) \<and>
                influencer_payout e = Finite (nearest_double (of_int m / 100)) \<and>
                \<bar>nearest_double (of_int k / 100) - t * r / 100\<bar> \<le> 6 / 1000 \<and>
                \<bar>nearest_double (of_int m / 100) - (t - nearest_double (of_int k / 100))\<bar> \<le> 64 / 10000 \<and>
                \<bar>nearest_double (of_int k / 100) + nearest_double (of_int m / 100) - t\<bar> \<le> 1 / 100)))) \<and>
   length (escrow_payments w) \<le> length (escrow_payments (run w cmds)) \<and>
   (\<forall>i < length (escrow_payments w).
      money_fields (escrow_payments (run w cmds) ! i) = money_fields (escrow_payments w ! i) \<and>
      commission_rate (escrow_payments (run w cmds) ! i) = commission_rate (escrow_payments w ! i)) \<and>
   (list_all money_rule (escrow_payments w) \<longrightarrow>
      list_all money_rule (escrow_payments (run w cmds)) \<and>
      list_all (\<lambda>e. in_range e \<longrightarrow> within_cent e) (escrow_payments (run w cmds)))"
proof (intro conjI impI allI)
  assume ok: "create_escrow w0 actor cid new_id ts = Inr w1"
  then obtain uid budget where
    w1: "escrow_payments w1 = escrow_payments w0 @ [new_escrow new_id cid uid budget (getCommissionRate (settings w0)) ts]"
    by (auto simp: create_escrow_def Let_def split: option.splits if_splits)
  define e where "e = new_escrow new_id cid uid budget (getCommissionRate (settings w0)) ts"
  have rule: "money_rule e" unfolding e_def by (rule money_rule_new_escrow)
  have rate: "commission_rate e = Some (getCommissionRate (settings w0))"
    by (simp add: e_def new_escrow_def Let_def)
  have close: "\<forall>t r. total_amount e = Finite t \<and> \<bar>t\<bar> \<le> 10 ^ 12 \<and>
                  getCommissionRate (settings w0) = Finite r \<and> 0 \<le> r \<and> r \<le> 100 \<longrightarrow>
             (\<exists>k m :: int.
                platform_commission e = Finite (nearest_double (of_int k / 100)) \<and>
                influencer_payout e = Finite (nearest_double (of_int m / 100)) \<and>
                \<bar>nearest_double (of_int k / 100) - t * r / 100\<bar> \<le> 6 / 1000 \<and>
                \<bar>nearest_double (of_int m / 100) - (t - nearest_double (of_int k / 100))\<bar> \<le> 64 / 10000 \<and>
                \<bar>nearest_double (of_int k / 100) + nearest_double (of_int m / 100) - t\<bar> \<le> 1 / 100)"
  proof (intro allI impI)
    fix t r :: rat
    assume a: "total_amount e = Finite t \<and> \<bar>t\<bar> \<le> 10 ^ 12 \<and>
                  getCommissionRate (settings w0) = Finite r \<and> 0 \<le> r \<and> r \<le> 100"
    then have r: "commission_rate e = Some (Finite r)" using rate by simp
    from a have t: "total_amount e = Finite t" and b: "\<bar>t\<bar> \<le> 10 ^ 12" "0 \<le> r" "r \<le> 100"
      by simp_all
    show "\<exists>k m :: int.
                platform_commission e = Finite (nearest_double (of_int k / 100)) \<and>
                influencer_payout e = Finite (nearest_double (of_int m / 100)) \<and>
                \<bar>nearest_double (of_int k / 100) - t * r / 100\<bar> \<le> 6 / 1000 \<and>
                \<bar>nearest_double (of_int m / 100) - (t - nearest_double (of_int k / 100))\<bar> \<le> 64 / 10000 \<and>
                \<bar>nearest_double (of_int k / 100) + nearest_double (of_int m / 100) - t\<bar> \<le> 1 / 100"
      by (rule money_rule_close [OF rule t r b])
  qed
  from w1 have "escrow_payments w1 = escrow_payments w0 @ [e]" by (simp add: e_def)
  with rate rule close
  show "\<exists>e. escrow_payments w1 = escrow_payments w0 @ [e] \<and>
           commission_rate e = Some (getCommissionRate (settings w0)) \<and> money_rule e \<and>
           (\<forall>t r. total_amount e = Finite t \<and> \<bar>t\<bar> \<le> 10 ^ 12 \<and>
                  getCommissionRate (settings w0) = Finite r \<and> 0 \<le> r \<and> r \<le> 100 \<longrightarrow>
             (\<exists>k m :: int.
                platform_commission e = Finite (nearest_double (of_int k / 100)) \<and>
                influencer_payout e = Finite (nearest_double (of_int m / 100)) \<and>
                \<bar>nearest_double (of_int k / 100) - t * r / 100\<bar> \<le> 6 / 1000 \<and>
                \<bar>nearest_double (of_int m / 100) - (t - nearest_double (of_int k / 100))\<bar> \<le> 64 / 10000 \<and>
                \<bar>nearest_double (of_int k / 100) + nearest_double (of_int m / 100) - t\<bar> \<le> 1 / 100))"
    by blast
next
  show "length (escrow_payments w) \<le> length (escrow_payments (run w cmds))"
    using kept_run [of w cmds] by (simp add: kept_def)
next
  fix i assume i: "i < length (escrow_payments w)"
  from kept_run [of w cmds]
  have "list_all2 same_money (escrow_payments w) (take (length (escrow_payments w)) (escrow_payments (run w cmds)))"
    by (simp add: kept_def)
  with i have "same_money (escrow_payments w ! i) (take (length (escrow_payments w)) (escrow_payments (run w cmds)) ! i)"
    by (simp add: list_all2_conv_all_nth)
  with i have s: "same_money (escrow_payments w ! i) (escrow_payments (run w cmds) ! i)"
    by simp
  from s show "money_fields (escrow_payments (run w cmds) ! i) = money_fields (escrow_payments w ! i)"
    by (simp add: same_money_def)
  from s show "commission_rate (escrow_payments (run w cmds) ! i) = commission_rate (escrow_payments w ! i)"
    by (simp add: same_money_def)
next
  assume a: "list_all money_rule (escrow_payments w)"
  from kept_run [of w cmds] obtain ys1 ys2 where
    ys: "escrow_payments (run w cmds) = ys1 @ ys2" and s: "list_all2 same_money (escrow_payments w) ys1"
    and r: "list_all money_rule ys2" by (auto simp: kept_iff)
  from money_rule_all_same [OF s a] r ys
  show m: "list_all money_rule (escrow_payments (run w cmds))" by simp
  then show "list_all (\<lambda>e. in_range e \<longrightarrow> within_cent e) (escrow_payments (run w cmds))"
    by (auto simp: list_all_iff intro: money_rule_within_cent)
qed

theorem escrow_money_identity_witness:
  "create_escrow world0 (Some brand0) ''c1'' ''e1'' 1
     = Inr (run world0 [Create_escrow (Some brand0) ''c1'' ''e1'' 1]) \<and>
   map money_fields (escrow_payments (run world0 [Create_escrow (Some brand0) ''c1'' ''e1'' 1]))
     = [(Finite 1000, Finite 100, Finite 900)] \<and>
   map_sum id (\<lambda>w'. map money_fields (escrow_payments w'))
     (create_escrow (world0\<lparr> collaborations := [collab0\<lparr> budget_min := Some (Finite 17) \<rparr>],
                            settings := Some (Finite (15 / 2)) \<rparr>) (Some brand0) ''c1'' ''e1'' 1)
     = Inr [(Finite 17, Finite (nearest_double (127 / 100)), Finite (nearest_double (1573 / 100)))] \<and>
   (\<exists>e. escrow_payments (run world0 [Create_escrow (Some brand0) ''c1'' ''e1'' 1]) = [e] \<and>
        commission_rate e = Some (Finite 10) \<and> total_amount e = Finite 1000 \<and> money_rule e \<and>
        (\<exists>k m :: int.
                platform_commission e = Finite (nearest_double (of_int k / 100)) \<and>
                influencer_payout e = Finite (nearest_double (of_int m / 100)) \<and>
                \<bar>nearest_double (of_int k / 100) - 1000 * 10 / 100\<bar> \<le> 6 / 1000 \<and>
                \<bar>nearest_double (of_int m / 100) - (1000 - nearest_double (of_int k / 100))\<bar> \<le> 64 / 10000 \<and>
                \<bar>nearest_double (of_int k / 100) + nearest_double (of_int m / 100) - 1000\<bar> \<le> 1 / 100)) \<and>
   list_all money_rule (escrow_payments world_secured) \<and>
   money_fields (escrow_payments world_released ! 0) = money_fields (escrow_payments world_secured ! 0) \<and>
   list_all money_rule (escrow_payments world_released) \<and>
   list_all in_range (escrow_payments world_released) \<and>
   list_all within_cent (escrow_payments world_released)"
proof -
  let ?cmds = "[Change_status (Some brand0) ''c1'' ''completed'' 3,
                Release_escrow (Some brand0) ''e1'' (\<lambda>i. ''k1'') 4]"
  have ok: "create_escrow world0 (Some brand0) ''c1'' ''e1'' 1
     = Inr (run world0 [Create_escrow (Some brand0) ''c1'' ''e1'' 1])"
    by code_simp
  have none: "escrow_payments world0 = []" and rate: "getCommissionRate (settings world0) = Finite 10"
    by code_simp+
  have total: "map total_amount (escrow_payments (run world0 [Create_escrow (Some brand0) ''c1'' ''e1'' 1])) = [Finite 1000]"
    by code_simp
  have money: "map money_fields (escrow_payments (run world0 [Create_escrow (Some brand0) ''c1'' ''e1'' 1]))
     = [(Finite 1000, Finite 100, Finite 900)]"
    by code_simp
  have odd: "map_sum id (\<lambda>w'. map money_fields (escrow_payments w'))
     (create_escrow (world0\<lparr> collaborations := [collab0\<lparr> budget_min := Some (Finite 17) \<rparr>],
                            settings := Some (Finite (15 / 2)) \<rparr>) (Some brand0) ''c1'' ''e1'' 1)
     = Inr [(Finite 17, Finite (nearest_double (127 / 100)), Finite (nearest_double (1573 / 100)))]"
    by code_simp
  have rule: "list_all money_rule (escrow_payments world_secured)"
    by code_simp
  have range: "list_all in_range (escrow_payments world_released)"
    by code_simp
  have pos: "0 < length (escrow_payments world_secured)"
    by code_simp
  have run: "run world_secured ?cmds = world_released"
    by code_simp
  note inst = escrow_money_identity [of world0 "Some brand0" "''c1''" "''e1''" 1
      "run world0 [Create_escrow (Some brand0) ''c1'' ''e1'' 1]" world_secured ?cmds]
  from inst [THEN conjunct1, rule_format, OF ok]
  obtain e where e: "escrow_payments (run world0 [Create_escrow (Some brand0) ''c1'' ''e1'' 1])
        = escrow_payments world0 @ [e]"
      "commission_rate e = Some (getCommissionRate (settings world0))"
      "money_rule e"
    and close: "\<forall>t r. total_amount e = Finite t \<and> \<bar>t\<bar> \<le> 10 ^ 12 \<and>
                  getCommissionRate (settings world0) = Finite r \<and> 0 \<le> r \<and> r \<le> 100 \<longrightarrow>
             (\<exists>k m :: int.
                platform_commission e = Finite (nearest_double (of_int k / 100)) \<and>
                influencer_payout e = Finite (nearest_double (of_int m / 100)) \<and>
                \<bar>nearest_double (of_int k / 100) - t * r / 100\<bar> \<le> 6 / 1000 \<and>
                \<bar>nearest_double (of_int m / 100) - (t - nearest_double (of_int k / 100))\<bar> \<le> 64 / 10000 \<and>
                \<bar>nearest_double (of_int k / 100) + nearest_double (of_int m / 100) - t\<bar> \<le> 1 / 100)"
    by blast
  from e(1) total none have t: "total_amount e = Finite 1000" by simp
  have pre: "total_amount e = Finite 1000 \<and> \<bar>1000 :: rat\<bar> \<le> 10 ^ 12 \<and>
                  getCommissionRate (settings world0) = Finite 10 \<and> (0 :: rat) \<le> 10 \<and> (10 :: rat) \<le> 100"
    using t rate by simp
  from close [THEN spec, THEN spec, THEN mp, OF pre]
  have cl: "\<exists>k m :: int.
                platform_commission e = Finite (nearest_double (of_int k / 100)) \<and>
                influencer_payout e = Finite (nearest_double (of_int m / 100)) \<and>
                \<bar>nearest_double (of_int k / 100) - 1000 * 10 / 100\<bar> \<le> 6 / 1000 \<and>
                \<bar>nearest_double (of_int m / 100) - (1000 - nearest_double (of_int k / 100))\<bar> \<le> 64 / 10000 \<and>
                \<bar>nearest_double (of_int k / 100) + nearest_double (of_int m / 100) - 1000\<bar> \<le> 1 / 100" .
  have a: "\<exists>e. escrow_payments (run world0 [Create_escrow (Some brand0) ''c1'' ''e1'' 1]) = [e] \<and>
        commission_rate e = Some (Finite 10) \<and> total_amount e = Finite 1000 \<and> money_rule e \<and>
        (\<exists>k m :: int.
                platform_commission e = Finite (nearest_double (of_int k / 100)) \<and>
                influencer_payout e = Finite (nearest_double (of_int m / 100)) \<and>
                \<bar>nearest_double (of_int k / 100) - 1000 * 10 / 100\<bar> \<le> 6 / 1000 \<and>
                \<bar>nearest_double (of_int m / 100) - (1000 - nearest_double (of_int k / 100))\<bar> \<le> 64 / 10000 \<and>
                \<bar>nearest_double (of_int k / 100) + nearest_double (of_int m / 100) - 1000\<bar> \<le> 1 / 100)"
    using e t cl unfolding none rate by (intro exI [of _ e]) simp
  from inst [THEN conjunct2, THEN conjunct2, THEN conjunct1, rule_format, OF pos]
  have b: "money_fields (escrow_payments world_released ! 0) = money_fields (escrow_payments world_secured ! 0)"
    unfolding run by (rule conjunct1)
  from inst [THEN conjunct2, THEN conjunct2, THEN conjunct2, THEN mp, OF rule]
  have c: "list_all money_rule (escrow_payments world_released) \<and>
           list_all (\<lambda>e. in_range e \<longrightarrow> within_cent e) (escrow_payments world_released)"
    unfolding run .
  with range have d: "list_all within_cent (escrow_payments world_released)"
    by (simp add: list_all_iff)
  show ?thesis using ok money odd a rule b c range d by blast
qed

section \<open>The rate of a release\<close>

text \<open>
  A stored rate other than 0 (and other than \<^verbatim>\<open>NaN\<close>) is the rate of the release,
  whatever the settings say at that moment.
\<close>

lemma release_rate_snapshot:
  "commission_rate esc = Some r \<Longrightarrow> truthy r \<Longrightarrow> release_rate w esc = r"
  by (simp add: release_rate_def)

text \<open>
  C2 fails on the Express server when the rate stored in the escrow is 0. The escrow was
  created while the commission rate was 0, so it promises the influencer the whole 1000;
  the administrator then set the rate to 10. Releasing the funds, through the release
  handler or through a dispute resolved in favour of the influencer, records a commission
  of 100 at rate 10 and a net amount of 900. The FastAPI server's line takes the stored
  rate 0 here.
\<close>

theorem zero_rate_release:
  "map commission_rate (escrow_payments world_zero_rate) = [Some (Finite 0)] \<and>
   map platform_commission (escrow_payments world_zero_rate) = [Finite 0] \<and>
   map influencer_payout (escrow_payments world_zero_rate) = [Finite 1000] \<and>
   settings world_zero_rate = Some (Finite 10) \<and>
   map (\<lambda>k. (k_gross_amount k, k_commission_rate k, k_commission_amount k, k_net_amount k))
     (commissions (run world_zero_rate [Release_escrow (Some brand0) ''e1'' (\<lambda>i. ''k1'') 4]))
     = [(Finite 1000, Finite 10, Finite 100, Finite 900)] \<and>
   map (\<lambda>k. (k_gross_amount k, k_commission_rate k, k_commission_amount k, k_net_amount k))
     (commissions (run world_zero_rate
        [Open_dispute (Some influencer0) ''c1'' ''quality'' ''late'' ''d1'' 4,
         Resolve_dispute (Some admin0) ''d1'' ''release_to_influencer'' '''' 0 0 (\<lambda>i. ''k1'') 5]))
     = [(Finite 1000, Finite 10, Finite 100, Finite 900)] \<and>
   release_rate_py world_zero_rate (hd (escrow_payments world_zero_rate)) = Finite 0"
  by code_simp

section \<open>At most one pending or secured escrow\<close>

lemma one_active_each_iff:
  "one_active_each es \<longleftrightarrow> (\<forall>cid. length (active_escrows cid es) \<le> 1)"
proof
  assume a: "one_active_each es"
  show "\<forall>cid. length (active_escrows cid es) \<le> 1"
  proof
    fix cid
    show "length (active_escrows cid es) \<le> 1"
    proof (cases "active_escrows cid es")
      case Nil
      then show ?thesis by simp
    next
      case (Cons e rest)
      then have "e \<in> set (active_escrows cid es)" by simp
      then have "e \<in> set es" "e_collab_id e = cid" by (auto simp: active_escrows_def)
      with a show ?thesis by (auto simp: one_active_each_def list_all_iff)
    qed
  qed
next
  assume "\<forall>cid. length (active_escrows cid es) \<le> 1"
  then show "one_active_each es" by (simp add: one_active_each_def list_all_iff)
qed

lemma filter_updateOne_le:
  assumes "\<And>x. findOne P xs = Some x \<Longrightarrow> A (f x) \<Longrightarrow> A x"
  shows "length (filter A (updateOne P f xs)) \<le> length (filter A xs)"
  using assms
proof (induction xs)
  case Nil
  show ?case by simp
next
  case (Cons a xs)
  show ?case
  proof (cases "P a")
    case True
    with Cons.prems [of a] show ?thesis by auto
  next
    case False
    then have "\<And>x. findOne P xs = Some x \<Longrightarrow> A (f x) \<Longrightarrow> A x"
      using Cons.prems by simp
    from Cons.IH [OF this] False show ?thesis by simp
  qed
qed

lemma active_updateOne:
  assumes inv: "one_active_each xs"
    and f: "\<And>x cid. findOne P xs = Some x \<Longrightarrow>
              e_collab_id (f x) = cid \<and> e_status (f x) \<in> set [''pending'', ''secured'']
              \<Longrightarrow> e_collab_id x = cid \<and> e_status x \<in> set [''pending'', ''secured'']"
  shows "one_active_each (updateOne P f xs)"
  unfolding one_active_each_iff
proof
  fix cid
  have "length (active_escrows cid (updateOne P f xs)) \<le> length (active_escrows cid xs)"
    unfolding active_escrows_def by (rule filter_updateOne_le) (rule f)
  moreover from inv have "length (active_escrows cid xs) \<le> 1"
    by (simp add: one_active_each_iff)
  ultimately show "length (active_escrows cid (updateOne P f xs)) \<le> 1"
    by (rule le_trans)
qed

lemma active_leave:
  assumes "one_active_each xs"
    and "\<And>x. e_status (f x) \<notin> set [''pending'', ''secured'']"
  shows "one_active_each (updateOne P f xs)"
  using assms(1) by (rule active_updateOne) (use assms(2) in blast)

lemma active_append:
  assumes inv: "one_active_each xs"
    and none: "findOne (\<lambda>e. e_collab_id e = e_collab_id new \<and> e_status e \<in> set [''pending'', ''secured'']) xs = None"
  shows "one_active_each (xs @ [new])"
  unfolding one_active_each_iff
proof
  fix cid
  show "length (active_escrows cid (xs @ [new])) \<le> 1"
  proof (cases "cid = e_collab_id new")
    case True
    from none have "active_escrows (e_collab_id new) xs = []"
      by (auto simp: active_escrows_def find_None_iff filter_empty_conv)
    with True show ?thesis by (simp add: active_escrows_def)
  next
    case False
    with inv show ?thesis by (simp add: active_escrows_def one_active_each_iff)
  qed
qed

lemma one_active_status:
  "one_active_each (escrow_payments w) \<Longrightarrow> update_collaboration_status w actor cid s now = Inr w' \<Longrightarrow> one_active_each (escrow_payments w')"
  by (auto simp: update_collaboration_status_def Let_def split: option.splits if_splits
      intro!: active_leave)

lemma one_active_cancel:
  "one_active_each (escrow_payments w) \<Longrightarrow> cancel_collaboration w actor cid reason details new_id ts = Inr w' \<Longrightarrow> one_active_each (escrow_payments w')"
  by (auto simp: cancel_collaboration_def Let_def split: option.splits if_splits
      intro!: active_leave)

lemma one_active_resolve_cancellation:
  "one_active_each (escrow_payments w) \<Longrightarrow> resolve_cancellation w actor xid res notes partial ts = Inr w' \<Longrightarrow> one_active_each (escrow_payments w')"
  by (auto simp: resolve_cancellation_def Let_def split: option.splits if_splits
      intro!: active_leave)

lemma one_active_create_dispute:
  "one_active_each (escrow_payments w) \<Longrightarrow> create_dispute w actor cid reason details new_id ts = Inr w' \<Longrightarrow> one_active_each (escrow_payments w')"
  by (auto simp: create_dispute_def Let_def split: option.splits if_splits
      intro!: active_leave)

lemma one_active_resolve_dispute:
  "one_active_each (escrow_payments w) \<Longrightarrow> resolve_dispute w actor did res notes si sb gen ts = Inr w' \<Longrightarrow> one_active_each (escrow_payments w')"
  by (auto simp: resolve_dispute_def Let_def split: option.splits if_splits
      intro!: active_leave)

lemma one_active_create_escrow:
  "one_active_each (escrow_payments w) \<Longrightarrow> create_escrow w actor cid new_id ts = Inr w' \<Longrightarrow> one_active_each (escrow_payments w')"
  by (auto simp: create_escrow_def Let_def new_escrow_def split: option.splits if_splits
      intro!: active_append)

lemma one_active_secure:
  assumes "one_active_each (escrow_payments w)" and ok: "secure_escrow_payment w actor eid payment_ref ts = Inr w'"
  shows "one_active_each (escrow_payments w')"
proof -
  from ok obtain esc where found: "findOne (\<lambda>e. escrow_id e = eid) (escrow_payments w) = Some esc"
    and pending: "e_status esc = ''pending''"
    and w': "escrow_payments w' = updateOne (\<lambda>e. escrow_id e = eid)
               (\<lambda>e. e\<lparr> e_status := ''secured'', payment_reference := Some payment_ref,
                        secured_at := Some ts \<rparr>) (escrow_payments w)"
    by (auto simp: secure_escrow_payment_def split: option.splits if_splits)
  show ?thesis unfolding w'
    by (rule active_updateOne [OF assms(1)]) (use found pending in auto)
qed

lemma one_active_release:
  "one_active_each (escrow_payments w) \<Longrightarrow> release_escrow w actor eid gen ts = Inr w' \<Longrightarrow> one_active_each (escrow_payments w')"
  by (auto simp: release_escrow_def Let_def split: option.splits if_splits
      intro!: active_leave)

lemma one_active_refund:
  "one_active_each (escrow_payments w) \<Longrightarrow> refund_escrow w actor eid ts = Inr w' \<Longrightarrow> one_active_each (escrow_payments w')"
  by (auto simp: refund_escrow_def Let_def split: option.splits if_splits
      intro!: active_leave)

lemma one_active_update_commission:
  "one_active_each (escrow_payments w) \<Longrightarrow> update_commission w actor r = Inr w' \<Longrightarrow> one_active_each (escrow_payments w')"
  by (auto simp: update_commission_def split: option.splits if_splits)

lemma one_active_create_review:
  "one_active_each (escrow_payments w) \<Longrightarrow> create_review w actor aid rating_in comment_in new_id ts = Inr (doc, w') \<Longrightarrow> one_active_each (escrow_payments w')"
  by (auto simp: create_review_def Let_def split: option.splits if_splits)

lemma one_active_exec:
  "one_active_each (escrow_payments w) \<Longrightarrow> exec w cmd = Inr w' \<Longrightarrow> one_active_each (escrow_payments w')"
  by (cases cmd)
     (auto simp: map_sum_snd_Inr intro: one_active_status one_active_cancel one_active_resolve_cancellation
        one_active_create_dispute one_active_resolve_dispute one_active_create_escrow
        one_active_secure one_active_release one_active_refund one_active_update_commission
        one_active_create_review)

lemma one_active_run: "one_active_each (escrow_payments w) \<Longrightarrow> one_active_each (escrow_payments (run w cmds))"
proof (induction cmds arbitrary: w)
  case Nil
  then show ?case by simp
next
  case (Cons c cs)
  show ?case
  proof (cases "exec w c")
    case (Inl f)
    with Cons show ?thesis by simp
  next
    case (Inr w')
    from one_active_exec [OF Cons.prems Inr] have "one_active_each (escrow_payments (run w' cs))" by (rule Cons.IH)
    with Inr show ?thesis by simp
  qed
qed

text \<open>
  C3, as the code has it. For the owning brand of a paid collaboration, \<^verbatim>\<open>createEscrow\<close>
  fails with status 400 and the message that an escrow already exists exactly when the
  collaboration has an escrow in status \<^verbatim>\<open>pending\<close> or \<^verbatim>\<open>secured\<close>, and it succeeds
  exactly when it has none. If every collaboration has at most one escrow in status
  \<^verbatim>\<open>pending\<close> or \<^verbatim>\<open>secured\<close>, this is still so after any run of commands.
\<close>

theorem one_active_escrow:
  "(\<forall>usr collab.
      findOne (\<lambda>c. collab_id c = cid) (collaborations w0) = Some collab \<and>
      brand_user_id collab = user_id usr \<and> is_paid collab \<longrightarrow>
        (create_escrow w0 (Some usr) cid new_id ts = Inl (Failure 400 Escrow_already_exists)
           \<longleftrightarrow> (\<exists>e \<in> set (escrow_payments w0).
                  e_collab_id e = cid \<and> e_status e \<in> {''pending'', ''secured''})) \<and>
        ((\<exists>w1. create_escrow w0 (Some usr) cid new_id ts = Inr w1)
           \<longleftrightarrow> \<not> (\<exists>e \<in> set (escrow_payments w0).
                  e_collab_id e = cid \<and> e_status e \<in> {''pending'', ''secured''}))) \<and>
   ((\<forall>c. length (active_escrows c (escrow_payments w)) \<le> 1) \<longrightarrow>
      (\<forall>c. length (active_escrows c (escrow_payments (run w cmds))) \<le> 1))"
proof (intro conjI allI impI)
  fix usr :: user and collab :: collaboration
  assume a: "findOne (\<lambda>c. collab_id c = cid) (collaborations w0) = Some collab \<and>
      brand_user_id collab = user_id usr \<and> is_paid collab"
  let ?A = "\<lambda>e. e_collab_id e = cid \<and> e_status e \<in> set [''pending'', ''secured'']"
  have ex: "(\<exists>e \<in> set (escrow_payments w0). e_collab_id e = cid \<and> e_status e \<in> {''pending'', ''secured''})
        \<longleftrightarrow> findOne ?A (escrow_payments w0) \<noteq> None"
    by (auto simp: find_None_iff)
  from a have paid: "str_or (collaboration_type collab) ''paid'' = ''paid''"
    by (simp add: is_paid_def)
  show "create_escrow w0 (Some usr) cid new_id ts = Inl (Failure 400 Escrow_already_exists)
           \<longleftrightarrow> (\<exists>e \<in> set (escrow_payments w0).
                  e_collab_id e = cid \<and> e_status e \<in> {''pending'', ''secured''})"
    unfolding ex using a paid by (simp add: create_escrow_def Let_def)
  show "(\<exists>w1. create_escrow w0 (Some usr) cid new_id ts = Inr w1)
           \<longleftrightarrow> \<not> (\<exists>e \<in> set (escrow_payments w0).
                  e_collab_id e = cid \<and> e_status e \<in> {''pending'', ''secured''})"
    unfolding ex using a paid by (simp add: create_escrow_def Let_def)
next
  fix c
  assume "\<forall>c. length (active_escrows c (escrow_payments w)) \<le> 1"
  then have "one_active_each (escrow_payments w)" by (simp add: one_active_each_iff)
  then have "one_active_each (escrow_payments (run w cmds))" by (rule one_active_run)
  then show "length (active_escrows c (escrow_payments (run w cmds))) \<le> 1"
    by (simp add: one_active_each_iff)
qed

theorem one_active_escrow_witness:
  "findOne (\<lambda>c. collab_id c = ''c1'') (collaborations world_secured)
     = Some (collab0\<lparr> c_payment_status := Some ''secured'', c_escrow_id := Some ''e1'' \<rparr>) \<and>
   brand_user_id (collab0\<lparr> c_payment_status := Some ''secured'', c_escrow_id := Some ''e1'' \<rparr>) = user_id brand0 \<and>
   is_paid (collab0\<lparr> c_payment_status := Some ''secured'', c_escrow_id := Some ''e1'' \<rparr>) \<and>
   (\<exists>e \<in> set (escrow_payments world_secured). e_collab_id e = ''c1'' \<and> e_status e \<in> {''pending'', ''secured''}) \<and>
   create_escrow world_secured (Some brand0) ''c1'' ''e2'' 3 = Inl (Failure 400 Escrow_already_exists) \<and>
   (\<forall>c. length (active_escrows c (escrow_payments world0)) \<le> 1) \<and>
   (\<forall>c. length (active_escrows c (escrow_payments world_secured)) \<le> 1)"
proof -
  let ?c = "collab0\<lparr> c_payment_status := Some ''secured'', c_escrow_id := Some ''e1'' \<rparr>"
  let ?cmds = "[Create_escrow (Some brand0) ''c1'' ''e1'' 1, Secure_escrow (Some brand0) ''e1'' ''pay1'' 2]"
  have h: "findOne (\<lambda>c. collab_id c = ''c1'') (collaborations world_secured) = Some ?c \<and>
      brand_user_id ?c = user_id brand0 \<and> is_paid ?c"
    by code_simp
  have ex: "\<exists>e \<in> set (escrow_payments world_secured). e_collab_id e = ''c1'' \<and> e_status e \<in> {''pending'', ''secured''}"
    by code_simp
  have "one_active_each (escrow_payments world0)"
    by code_simp
  then have start: "\<forall>c. length (active_escrows c (escrow_payments world0)) \<le> 1"
    by (simp add: one_active_each_iff)
  have run: "run world0 ?cmds = world_secured"
    by (simp add: world_secured_def)
  note inst = one_active_escrow [of "''c1''" world_secured "''e2''" 3 world0 ?cmds]
  from inst [THEN conjunct1, rule_format, OF h, THEN conjunct1] ex
  have a: "create_escrow world_secured (Some brand0) ''c1'' ''e2'' 3 = Inl (Failure 400 Escrow_already_exists)"
    by (rule iffD2)
  from inst [THEN conjunct2, THEN mp, OF start]
  have b: "\<forall>c. length (active_escrows c (escrow_payments world_secured)) \<le> 1"
    unfolding run .
  show ?thesis using h ex a start b by blast
qed

text \<open>
  C3 as stated fails: an escrow in status \<^verbatim>\<open>completed_pending_release\<close> does not stop
  \<^verbatim>\<open>createEscrow\<close>. After create, secure and the brand's completion request, a second
  create succeeds, and the collaboration has two escrows in a non-terminal status.
\<close>

theorem non_terminal_escrow_counterexample:
  "world_window = run world0
     [Create_escrow (Some brand0) ''c1'' ''e1'' 1, Secure_escrow (Some brand0) ''e1'' ''pay1'' 2,
      Change_status (Some brand0) ''c1'' ''completed'' 3] \<and>
   map e_status (non_terminal_escrows ''c1'' (escrow_payments world_window))
     = [''completed_pending_release''] \<and>
   map_sum id (\<lambda>w'. map e_status (non_terminal_escrows ''c1'' (escrow_payments w')))
     (create_escrow world_window (Some brand0) ''c1'' ''e2'' 4)
     = Inr [''completed_pending_release'', ''pending'']"
  by code_simp

section \<open>Mutual reveal of reviews\<close>

lemma hidden_alone_agree:
  assumes "hidden_alone rs"
  shows "reveal_agree rs"
  unfolding reveal_agree_def list_all_iff
proof (intro ballI impI)
  fix r r' assume r: "r \<in> set rs" and r': "r' \<in> set rs"
    and same: "r_application_id r' = r_application_id r"
  show "is_revealed r' = is_revealed r"
  proof (cases "is_revealed r \<and> is_revealed r'")
    case True
    then show ?thesis by simp
  next
    case False
    with assms r r' same have "length (reviews_of (r_application_id r) rs) \<le> 1"
      by (auto simp: hidden_alone_def list_all_iff)
    moreover from r r' same have "r \<in> set (reviews_of (r_application_id r) rs)"
      "r' \<in> set (reviews_of (r_application_id r) rs)"
      by (simp_all add: reviews_of_def)
    ultimately have "r = r'"
      by (cases "reviews_of (r_application_id r) rs") auto
    then show ?thesis by simp
  qed
qed

lemma reviews_of_updateMany_reveal:
  "length (reviews_of aid (updateMany P (\<lambda>r. r\<lparr> is_revealed := True \<rparr>) rs)) = length (reviews_of aid rs)"
  by (induction rs) (auto simp: reviews_of_def updateMany_def)

lemma hidden_alone_reveal:
  assumes "hidden_alone rs"
  shows "hidden_alone (updateMany P (\<lambda>r. r\<lparr> is_revealed := True \<rparr>) rs)"
proof -
  let ?rs' = "updateMany P (\<lambda>r. r\<lparr> is_revealed := True \<rparr>) rs"
  have "is_revealed r' \<or> length (reviews_of (r_application_id r') ?rs') \<le> 1" if "r' \<in> set ?rs'" for r'
  proof -
    from that obtain r where r: "r \<in> set rs" and r': "r' = (if P r then r\<lparr> is_revealed := True \<rparr> else r)"
      by (auto simp: updateMany_def)
    show ?thesis
    proof (cases "P r")
      case True
      with r' show ?thesis by simp
    next
      case False
      with r' have "r' = r" by simp
      with assms r show ?thesis
        by (auto simp: hidden_alone_def list_all_iff reviews_of_updateMany_reveal)
    qed
  qed
  then show ?thesis by (simp add: hidden_alone_def list_all_iff)
qed

lemma hidden_alone_first:
  assumes inv: "hidden_alone rs" and none: "reviews_of (r_application_id doc) rs = []"
  shows "hidden_alone (rs @ [doc])"
proof -
  have "is_revealed r \<or> length (reviews_of (r_application_id r) (rs @ [doc])) \<le> 1" if "r \<in> set (rs @ [doc])" for r
  proof (cases "r_application_id r = r_application_id doc")
    case True
    with none show ?thesis by (simp add: reviews_of_def)
  next
    case False
    with that have "r \<in> set rs" by auto
    with inv False show ?thesis by (auto simp: hidden_alone_def list_all_iff reviews_of_def)
  qed
  then show ?thesis unfolding hidden_alone_def list_all_iff by blast
qed

lemma hidden_alone_second:
  assumes inv: "hidden_alone rs"
  shows "hidden_alone (updateMany (\<lambda>r. r_application_id r = r_application_id doc)
                         (\<lambda>r. r\<lparr> is_revealed := True \<rparr>) (rs @ [doc]))"
proof -
  let ?aid = "r_application_id doc"
  let ?rs' = "updateMany (\<lambda>r. r_application_id r = ?aid) (\<lambda>r. r\<lparr> is_revealed := True \<rparr>) (rs @ [doc])"
  have "is_revealed r' \<or> length (reviews_of (r_application_id r') ?rs') \<le> 1" if "r' \<in> set ?rs'" for r'
  proof (cases "r_application_id r' = ?aid")
    case True
    with that show ?thesis by (auto simp: updateMany_def)
  next
    case False
    with that have r: "r' \<in> set rs" by (auto simp: updateMany_def split: if_splits)
    have "length (reviews_of (r_application_id r') ?rs') = length (reviews_of (r_application_id r') (rs @ [doc]))"
      by (rule reviews_of_updateMany_reveal)
    also have "\<dots> = length (reviews_of (r_application_id r') rs)"
      using False by (simp add: reviews_of_def)
    finally show ?thesis using inv r by (auto simp: hidden_alone_def list_all_iff)
  qed
  then show ?thesis unfolding hidden_alone_def list_all_iff by blast
qed

lemma reviews_updateInfluencerRating [simp]:
  "reviews (updateInfluencerRating u w) = reviews w"
  by (simp add: updateInfluencerRating_def Let_def)

lemma reviews_fold_rating [simp]:
  "reviews (fold updateInfluencerRating us w) = reviews w"
  by (induction us arbitrary: w) simp_all

lemma findOne_append_reject:
  "\<not> P x \<Longrightarrow> (findOne P (xs @ [x]) \<noteq> None) = (\<exists>y \<in> set xs. P y)"
  by (induction xs) auto

lemma create_review_shape:
  assumes ok: "create_review w actor aid rating_in comment_in new_id ts = Inr (doc, w')"
  shows "\<exists>usr app.
           actor = Some usr \<and> findOne (\<lambda>a. application_id a = aid) (applications w) = Some app \<and>
           \<not> is_revealed doc \<and> review_id doc = new_id \<and> r_application_id doc = aid \<and>
           reviewer_user_id doc = user_id usr \<and> rating doc = rating_in \<and>
           \<not> (\<exists>r \<in> set (reviews w). r_application_id r = aid \<and> reviewer_user_id r = user_id usr) \<and>
           w' = (if \<exists>r \<in> set (reviews w). r_application_id r = aid \<and> reviewer_user_id r \<noteq> user_id usr
                 then updateInfluencerRating (influencer_user_id app)
                        (w\<lparr> reviews := updateMany (\<lambda>r. r_application_id r = aid)
                                          (\<lambda>r. r\<lparr> is_revealed := True \<rparr>) (reviews w @ [doc]) \<rparr>)
                 else w\<lparr> reviews := reviews w @ [doc] \<rparr>)"
proof -
  from ok obtain usr where actor: "actor = Some usr"
    by (cases actor) (auto simp: create_review_def)
  from ok actor obtain app where app: "findOne (\<lambda>a. application_id a = aid) (applications w) = Some app"
    by (cases "findOne (\<lambda>a. application_id a = aid) (applications w)")
       (auto simp: create_review_def split: if_splits)
  from ok actor app obtain collab where
    collab: "findOne (\<lambda>c. collab_id c = a_collab_id app) (collaborations w) = Some collab"
    by (cases "findOne (\<lambda>c. collab_id c = a_collab_id app) (collaborations w)")
       (auto simp: create_review_def split: if_splits)
  let ?brand = "brand_user_id collab = user_id usr"
  let ?doc = "\<lparr> review_id = new_id, r_application_id = aid, r_collab_id = collab_id collab,
                 reviewer_user_id = user_id usr, reviewer_name = user_name usr,
                 reviewer_type = (if ?brand then ''brand'' else ''influencer''),
                 reviewed_user_id = (if ?brand then influencer_user_id app else brand_user_id collab),
                 rating = rating_in,
                 comment = (case comment_in of None \<Rightarrow> None | Some s \<Rightarrow> if s = [] then None else Some s),
                 collab_title = title collab, is_revealed = False, r_created_at = ts \<rparr>"
  from ok actor app collab
  have dup: "findOne (\<lambda>r. r_application_id r = aid \<and> reviewer_user_id r = user_id usr) (reviews w) = None"
    by (auto simp: create_review_def Let_def split: if_splits)
  then have nodup: "\<not> (\<exists>r \<in> set (reviews w). r_application_id r = aid \<and> reviewer_user_id r = user_id usr)"
    by (auto simp: find_None_iff)
  have other: "findOne (\<lambda>r. r_application_id r = aid \<and> reviewer_user_id r \<noteq> user_id usr) (reviews w @ [?doc]) \<noteq> None
      \<longleftrightarrow> (\<exists>r \<in> set (reviews w). r_application_id r = aid \<and> reviewer_user_id r \<noteq> user_id usr)"
    by (rule findOne_append_reject) simp
  from ok actor app collab dup
  have "(doc, w') = (?doc,
              if findOne (\<lambda>r. r_application_id r = aid \<and> reviewer_user_id r \<noteq> user_id usr) (reviews w @ [?doc]) \<noteq> None
                 then updateInfluencerRating (influencer_user_id app)
                        (w\<lparr> reviews := updateMany (\<lambda>r. r_application_id r = aid)
                                          (\<lambda>r. r\<lparr> is_revealed := True \<rparr>) (reviews w @ [?doc]) \<rparr>)
                 else w\<lparr> reviews := reviews w @ [?doc] \<rparr>)"
    by (auto simp: create_review_def Let_def split: if_splits)
  then have doc: "doc = ?doc"
    and "w' = (if findOne (\<lambda>r. r_application_id r = aid \<and> reviewer_user_id r \<noteq> user_id usr) (reviews w @ [?doc]) \<noteq> None
                 then updateInfluencerRating (influencer_user_id app)
                        (w\<lparr> reviews := updateMany (\<lambda>r. r_application_id r = aid)
                                          (\<lambda>r. r\<lparr> is_revealed := True \<rparr>) (reviews w @ [?doc]) \<rparr>)
                 else w\<lparr> reviews := reviews w @ [?doc] \<rparr>)"
    by (simp_all only: prod.inject)
  then have w': "w' = (if \<exists>r \<in> set (reviews w). r_application_id r = aid \<and> reviewer_user_id r \<noteq> user_id usr
                 then updateInfluencerRating (influencer_user_id app)
                        (w\<lparr> reviews := updateMany (\<lambda>r. r_application_id r = aid)
                                          (\<lambda>r. r\<lparr> is_revealed := True \<rparr>) (reviews w @ [?doc]) \<rparr>)
                 else w\<lparr> reviews := reviews w @ [?doc] \<rparr>)"
    unfolding other by simp
  show ?thesis
    apply (rule exI [of _ usr], rule exI [of _ app])
    using actor app nodup w' unfolding doc by simp
qed

lemma hidden_alone_create_review:
  assumes inv: "hidden_alone (reviews w)"
    and ok: "create_review w actor aid rating_in comment_in new_id ts = Inr (doc, w')"
  shows "hidden_alone (reviews w')"
proof -
  from create_review_shape [OF ok] obtain usr app where
    all: "actor = Some usr \<and> findOne (\<lambda>a. application_id a = aid) (applications w) = Some app \<and>
           \<not> is_revealed doc \<and> review_id doc = new_id \<and> r_application_id doc = aid \<and>
           reviewer_user_id doc = user_id usr \<and> rating doc = rating_in \<and>
           \<not> (\<exists>r \<in> set (reviews w). r_application_id r = aid \<and> reviewer_user_id r = user_id usr) \<and>
           w' = (if \<exists>r \<in> set (reviews w). r_application_id r = aid \<and> reviewer_user_id r \<noteq> user_id usr
                 then updateInfluencerRating (influencer_user_id app)
                        (w\<lparr> reviews := updateMany (\<lambda>r. r_application_id r = aid)
                                          (\<lambda>r. r\<lparr> is_revealed := True \<rparr>) (reviews w @ [doc]) \<rparr>)
                 else w\<lparr> reviews := reviews w @ [doc] \<rparr>)"
    by (elim exE)
  then have doc: "r_application_id doc = aid" "reviewer_user_id doc = user_id usr"
    and nodup: "\<not> (\<exists>r \<in> set (reviews w). r_application_id r = aid \<and> reviewer_user_id r = user_id usr)"
    and w': "w' = (if \<exists>r \<in> set (reviews w). r_application_id r = aid \<and> reviewer_user_id r \<noteq> user_id usr
                 then updateInfluencerRating (influencer_user_id app)
                        (w\<lparr> reviews := updateMany (\<lambda>r. r_application_id r = aid)
                                          (\<lambda>r. r\<lparr> is_revealed := True \<rparr>) (reviews w @ [doc]) \<rparr>)
                 else w\<lparr> reviews := reviews w @ [doc] \<rparr>)"
    by simp_all
  show ?thesis
  proof (cases "\<exists>r \<in> set (reviews w). r_application_id r = aid \<and> reviewer_user_id r \<noteq> user_id usr")
    case True
    with w' have "w' = updateInfluencerRating (influencer_user_id app)
                        (w\<lparr> reviews := updateMany (\<lambda>r. r_application_id r = aid)
                                          (\<lambda>r. r\<lparr> is_revealed := True \<rparr>) (reviews w @ [doc]) \<rparr>)"
      by (simp only: if_P)
    then have "reviews w' = updateMany (\<lambda>r. r_application_id r = r_application_id doc)
                                 (\<lambda>r. r\<lparr> is_revealed := True \<rparr>) (reviews w @ [doc])"
      by (simp add: doc)
    with hidden_alone_second [OF inv, of doc] show ?thesis by simp
  next
    case False
    with nodup have "reviews_of (r_application_id doc) (reviews w) = []"
      by (auto simp: reviews_of_def filter_empty_conv doc)
    moreover from False w' have "w' = w\<lparr> reviews := reviews w @ [doc] \<rparr>"
      by (simp only: if_not_P if_False)
    ultimately show ?thesis using hidden_alone_first [OF inv, of doc] by simp
  qed
qed

lemma hidden_alone_autoReveal:
  "hidden_alone (reviews w) \<Longrightarrow> hidden_alone (reviews (autoRevealTimedOutReviews w now))"
  by (simp add: autoRevealTimedOutReviews_def Let_def hidden_alone_reveal)

lemma reviews_status: "update_collaboration_status w actor cid s now = Inr w' \<Longrightarrow> reviews w' = reviews w"
  by (auto simp: update_collaboration_status_def Let_def split: option.splits if_splits)

lemma reviews_cancel: "cancel_collaboration w actor cid reason details new_id ts = Inr w' \<Longrightarrow> reviews w' = reviews w"
  by (auto simp: cancel_collaboration_def Let_def split: option.splits if_splits)

lemma reviews_resolve_cancellation:
  "resolve_cancellation w actor xid res notes partial ts = Inr w' \<Longrightarrow> reviews w' = reviews w"
  by (auto simp: resolve_cancellation_def Let_def split: option.splits if_splits)

lemma reviews_create_dispute:
  "create_dispute w actor cid reason details new_id ts = Inr w' \<Longrightarrow> reviews w' = reviews w"
  by (auto simp: create_dispute_def Let_def split: option.splits if_splits)

lemma reviews_resolve_dispute:
  "resolve_dispute w actor did res notes si sb gen ts = Inr w' \<Longrightarrow> reviews w' = reviews w"
  by (auto simp: resolve_dispute_def Let_def split: option.splits if_splits)

lemma reviews_create_escrow: "create_escrow w actor cid new_id ts = Inr w' \<Longrightarrow> reviews w' = reviews w"
  by (auto simp: create_escrow_def Let_def split: option.splits if_splits)

lemma reviews_secure: "secure_escrow_payment w actor eid payment_ref ts = Inr w' \<Longrightarrow> reviews w' = reviews w"
  by (auto simp: secure_escrow_payment_def split: option.splits if_splits)

lemma reviews_release: "release_escrow w actor eid gen ts = Inr w' \<Longrightarrow> reviews w' = reviews w"
  by (auto simp: release_escrow_def split: option.splits if_splits)

lemma reviews_refund: "refund_escrow w actor eid ts = Inr w' \<Longrightarrow> reviews w' = reviews w"
  by (auto simp: refund_escrow_def split: option.splits if_splits)

lemma reviews_update_commission: "update_commission w actor r = Inr w' \<Longrightarrow> reviews w' = reviews w"
  by (auto simp: update_commission_def split: option.splits if_splits)

lemma hidden_alone_exec:
  "hidden_alone (reviews w) \<Longrightarrow> exec w cmd = Inr w' \<Longrightarrow> hidden_alone (reviews w')"
  by (cases cmd)
     (auto simp: map_sum_snd_Inr dest: reviews_status reviews_cancel reviews_resolve_cancellation reviews_create_dispute
        reviews_resolve_dispute reviews_create_escrow reviews_secure reviews_release reviews_refund
        reviews_update_commission
        intro: hidden_alone_create_review hidden_alone_autoReveal)

lemma hidden_alone_run: "hidden_alone (reviews w) \<Longrightarrow> hidden_alone (reviews (run w cmds))"
proof (induction cmds arbitrary: w)
  case Nil
  then show ?case by simp
next
  case (Cons c cs)
  show ?case
  proof (cases "exec w c")
    case (Inl f)
    with Cons show ?thesis by simp
  next
    case (Inr w')
    from hidden_alone_exec [OF Cons.prems Inr] have "hidden_alone (reviews (run w' cs))"
      by (rule Cons.IH)
    with Inr show ?thesis by simp
  qed
qed

lemma profiles_updateInfluencerRating:
  "influencer_profiles (updateInfluencerRating uid w) =
     (if revealed_brand_ratings uid (reviews w) = [] then influencer_profiles w
      else updateOne (\<lambda>p. p_user_id p = uid)
             (\<lambda>p. p\<lparr> avg_rating := shown_rating (revealed_brand_ratings uid (reviews w)),
                      review_count := length (revealed_brand_ratings uid (reviews w)) \<rparr>)
             (influencer_profiles w))"
  by (simp add: updateInfluencerRating_def revealed_brand_ratings_def Let_def shown_rating_def)

lemma second_review_profiles:
  "influencer_profiles (updateInfluencerRating uid (w\<lparr> reviews := rs \<rparr>)) =
     (if revealed_brand_ratings uid rs = [] then influencer_profiles w
      else updateOne (\<lambda>p. p_user_id p = uid)
             (\<lambda>p. p\<lparr> avg_rating := shown_rating (revealed_brand_ratings uid rs),
                      review_count := length (revealed_brand_ratings uid rs) \<rparr>)
             (influencer_profiles w))"
  by (simp add: profiles_updateInfluencerRating)

lemma second_review_world:
  assumes ok: "create_review w (Some usr) aid rating_in comment_in new_id ts = Inr (doc, w')"
    and other: "\<exists>r \<in> set (reviews w). r_application_id r = aid \<and> reviewer_user_id r \<noteq> user_id usr"
  shows "\<exists>app. findOne (\<lambda>a. application_id a = aid) (applications w) = Some app \<and>
           w' = updateInfluencerRating (influencer_user_id app)
                  (w\<lparr> reviews := updateMany (\<lambda>r. r_application_id r = aid)
                                    (\<lambda>r. r\<lparr> is_revealed := True \<rparr>) (reviews w @ [doc]) \<rparr>)"
proof -
  from create_review_shape [OF ok] obtain usr' app where
    u: "Some usr = Some usr'"
    and app: "findOne (\<lambda>a. application_id a = aid) (applications w) = Some app"
    and w': "w' = (if \<exists>r \<in> set (reviews w). r_application_id r = aid \<and> reviewer_user_id r \<noteq> user_id usr'
                 then updateInfluencerRating (influencer_user_id app)
                        (w\<lparr> reviews := updateMany (\<lambda>r. r_application_id r = aid)
                                          (\<lambda>r. r\<lparr> is_revealed := True \<rparr>) (reviews w @ [doc]) \<rparr>)
                 else w\<lparr> reviews := reviews w @ [doc] \<rparr>)"
    by (elim exE conjE) (rule that)
  from u have "usr' = usr" by simp
  with other w' have "w' = updateInfluencerRating (influencer_user_id app)
                        (w\<lparr> reviews := updateMany (\<lambda>r. r_application_id r = aid)
                                          (\<lambda>r. r\<lparr> is_revealed := True \<rparr>) (reviews w @ [doc]) \<rparr>)"
    by (simp only: if_P)
  with app show ?thesis by blast
qed

lemma updateMany_key_all:
  assumes "\<And>x. Q (f x)"
  shows "\<forall>r \<in> set (updateMany (\<lambda>r. k r = a) f xs). k r = a \<longrightarrow> Q r"
  by (induction xs) (auto simp: updateMany_def assms)


lemma second_review:
  assumes ok: "create_review w (Some usr) aid rating_in comment_in new_id ts = Inr (doc, w')"
    and other: "\<exists>r \<in> set (reviews w). r_application_id r = aid \<and> reviewer_user_id r \<noteq> user_id usr"
  shows "(\<forall>r \<in> set (reviews w'). r_application_id r = aid \<longrightarrow> is_revealed r) \<and>
        (\<forall>app. findOne (\<lambda>a. application_id a = aid) (applications w) = Some app \<longrightarrow>
           (revealed_brand_ratings (influencer_user_id app) (reviews w') = [] \<longrightarrow>
              influencer_profiles w' = influencer_profiles w) \<and>
           (\<forall>p. revealed_brand_ratings (influencer_user_id app) (reviews w') \<noteq> [] \<and>
                findOne (\<lambda>p. p_user_id p = influencer_user_id app) (influencer_profiles w) = Some p \<longrightarrow>
                findOne (\<lambda>p. p_user_id p = influencer_user_id app) (influencer_profiles w') =
                  Some (p\<lparr> avg_rating := shown_rating (revealed_brand_ratings (influencer_user_id app) (reviews w')),
                           review_count := length (revealed_brand_ratings (influencer_user_id app) (reviews w')) \<rparr>)))"
proof -
  from second_review_world [OF ok other] obtain app where
    app: "findOne (\<lambda>a. application_id a = aid) (applications w) = Some app"
    and w': "w' = updateInfluencerRating (influencer_user_id app)
                  (w\<lparr> reviews := updateMany (\<lambda>r. r_application_id r = aid)
                                    (\<lambda>r. r\<lparr> is_revealed := True \<rparr>) (reviews w @ [doc]) \<rparr>)"
    by blast
  define rs where "rs = updateMany (\<lambda>r. r_application_id r = aid) (\<lambda>r. r\<lparr> is_revealed := True \<rparr>) (reviews w @ [doc])"
  define uid where "uid = influencer_user_id app"
  define ratings where "ratings = revealed_brand_ratings uid rs"
  define f where "f = (\<lambda>p :: influencer_profile. p\<lparr> avg_rating := shown_rating ratings, review_count := length ratings \<rparr>)"
  have rev: "reviews w' = rs"
    by (simp add: w' rs_def)
  have prof: "influencer_profiles w' =
      (if ratings = [] then influencer_profiles w
       else updateOne (\<lambda>p. p_user_id p = uid) f (influencer_profiles w))"
    by (simp add: w' second_review_profiles rs_def [symmetric] uid_def [symmetric]
        ratings_def [symmetric] f_def)
  have a: "\<forall>r \<in> set (reviews w'). r_application_id r = aid \<longrightarrow> is_revealed r"
    unfolding rev rs_def by (rule updateMany_key_all) simp
  have b: "ratings = [] \<longrightarrow> influencer_profiles w' = influencer_profiles w"
    by (simp add: prof)
  have c: "\<forall>p. ratings \<noteq> [] \<and> findOne (\<lambda>p. p_user_id p = uid) (influencer_profiles w) = Some p \<longrightarrow>
                findOne (\<lambda>p. p_user_id p = uid) (influencer_profiles w') = Some (f p)"
  proof (intro allI impI)
    fix p assume p: "ratings \<noteq> [] \<and> findOne (\<lambda>p. p_user_id p = uid) (influencer_profiles w) = Some p"
    then have found: "findOne (\<lambda>p. p_user_id p = uid) (influencer_profiles w) = Some p" by simp
    have "p_user_id (f p) = uid" using findOne_in_set [OF found] by (simp add: f_def)
    with findOne_updateOne_same [OF found, of f] p
    show "findOne (\<lambda>p. p_user_id p = uid) (influencer_profiles w') = Some (f p)"
      by (simp add: prof)
  qed
  have d: "\<And>app'. findOne (\<lambda>a. application_id a = aid) (applications w) = Some app' \<Longrightarrow> app' = app"
    using app by simp
  from a b c show ?thesis
    unfolding ratings_def f_def uid_def rev [symmetric]
    using d by blast
qed

lemma sum_list_between:
  fixes xs :: "rat list"
  assumes "\<forall>x \<in> set xs. 1 \<le> x \<and> x \<le> 5"
  shows "of_nat (length xs) \<le> sum_list xs \<and> sum_list xs \<le> 5 * of_nat (length xs)"
  using assms by (induction xs) auto

lemma nearest_double_relative:
  "\<bar>nearest_double x - x\<bar> \<le> \<bar>x\<bar> / 9007199254740992 + 1 / 1000000000000000000"
proof -
  have "(1 :: rat) / 2 ^ 1075 \<le> 1 / 1000000000000000000" by simp
  moreover have "\<bar>x\<bar> / 2 ^ 53 = \<bar>x\<bar> / 9007199254740992" by simp
  ultimately show ?thesis using nearest_double_error [of x] by linarith
qed

lemma shown_rating_close:
  assumes ne: "xs \<noteq> []" and rng: "\<forall>x \<in> set xs. 1 \<le> x \<and> x \<le> 5" and len: "length xs \<le> 10 ^ 12"
  shows "\<exists>k :: int. shown_rating xs = Finite (nearest_double (of_int k / 10)) \<and>
           \<bar>of_int k / 10 - mean xs\<bar> \<le> 1 / 20 + 1 / 10 ^ 9"
proof -
  define n :: rat where "n = of_nat (length xs)"
  define s where "s = sum_list xs"
  define s1 where "s1 = nearest_double s"
  define a where "a = nearest_double (s1 / n)"
  define b where "b = nearest_double (a * 10)"
  define k where "k = \<lfloor>b + 1 / 2\<rfloor>"
  have "1 \<le> length xs" using ne by (cases xs) simp_all
  then have "(of_nat 1 :: rat) \<le> of_nat (length xs)" by (simp only: of_nat_le_iff)
  then have n1: "1 \<le> n" by (simp add: n_def)
  have "(of_nat (length xs) :: rat) \<le> of_nat (10 ^ 12)" using len by (simp only: of_nat_le_iff)
  then have n2: "n \<le> 1000000000000" by (simp add: n_def)
  from sum_list_between [OF rng] have sb: "n \<le> s" "s \<le> 5 * n" by (simp_all add: n_def s_def)
  have s0: "\<bar>s\<bar> \<le> 1000000000000000" using sb n1 n2 by linarith
  have e1: "\<bar>s1 - s\<bar> \<le> n * (6 / 10000000000000000)"
    using nearest_double_relative [of s] sb n1 unfolding s1_def by linarith
  have "s1 / n - s / n = (s1 - s) / n" by (simp add: diff_divide_distrib)
  then have "\<bar>s1 / n - s / n\<bar> = \<bar>s1 - s\<bar> / n" using n1 by (simp add: abs_divide)
  also have "\<dots> \<le> 6 / 10000000000000000"
    using e1 n1 by (simp add: pos_divide_le_eq mult.commute)
  finally have e2: "\<bar>s1 / n - s / n\<bar> \<le> 6 / 10000000000000000" .
  have m1: "1 \<le> s / n" using sb n1 by (simp add: pos_le_divide_eq)
  have m2: "s / n \<le> 5" using sb n1 by (simp add: pos_divide_le_eq)
  have b2: "\<bar>s1 / n\<bar> \<le> 6" using e2 m1 m2 by linarith
  have e3: "\<bar>a - s1 / n\<bar> \<le> 1 / 100000000000000"
    unfolding a_def by (rule nearest_double_within [OF b2]) simp_all
  have b3: "\<bar>a * 10\<bar> \<le> 61" using e3 b2 by linarith
  have e4: "\<bar>b - a * 10\<bar> \<le> 1 / 10000000000000"
    unfolding b_def by (rule nearest_double_within [OF b3]) simp_all
  have e5: "\<bar>of_int k - b\<bar> \<le> 1 / 2" unfolding k_def by (rule math_round_near)
  have b5: "\<bar>of_int k / 10 :: rat\<bar> \<le> 7" using e4 e5 b3 by linarith
  have f1: "to_double s = Finite s1"
    unfolding s1_def by (rule to_double_small [OF s0])
  have f2: "to_double (s1 / n) = Finite a"
    unfolding a_def by (rule to_double_small) (use b2 in linarith)
  have f3: "to_double (a * 10) = Finite b"
    unfolding b_def by (rule to_double_small) (use b3 in linarith)
  have f5: "to_double (of_int k / 10) = Finite (nearest_double (of_int k / 10))"
    by (rule to_double_small) (use b5 in linarith)
  have n0: "n \<noteq> 0" using n1 by simp
  have avg: "aggregate_avg xs = Finite a"
    using n0 by (simp add: aggregate_avg_def s_def [symmetric] n_def [symmetric] f1 f2)
  have "shown_rating xs = Finite (nearest_double (of_int k / 10))"
    by (simp add: shown_rating_def avg f3 k_def [symmetric] f5)
  moreover have "\<bar>of_int k / 10 - s / n\<bar> \<le> 1 / 20 + 1 / 1000000000"
    using e2 e3 e4 e5 by linarith
  then have "\<bar>of_int k / 10 - mean xs\<bar> \<le> 1 / 20 + 1 / 10 ^ 9"
    by (simp add: mean_def s_def n_def)
  ultimately show ?thesis by blast
qed

text \<open>
  C8. The review handler builds the document with \<^verbatim>\<open>is_revealed = false\<close> and answers
  with it. When no other user has reviewed the application, the collection afterwards is the
  old one with that hidden document appended; otherwise it is that list with every review
  of the application revealed. If in a database every hidden review is the only review of
  its application (as in a database without reviews), then after any run of commands, review
  submissions and the lazy sweep included, any two reviews of the same application are both
  revealed or both hidden. When a user submits a review of an application that another user
  has reviewed already, every review of the application is revealed afterwards, and the
  profile of the application's influencer gets as rating the average, rounded to one
  decimal in the arithmetic of the server, of the ratings of all revealed reviews that
  brands wrote about the influencer, and their number as review count (the profiles stay as
  they are when there is no such review). For up to \<open>10 ^ 12\<close> ratings between 1 and 5 that
  rating is the double nearest to a number of tenths that lies within 0.05, and a billionth
  for the rounding of the average, of their exact mean.
\<close>

theorem mutual_reveal:
  "(create_review w actor aid rating_in comment_in new_id ts = Inr (doc, w') \<longrightarrow>
      \<not> is_revealed doc \<and> review_id doc = new_id \<and> r_application_id doc = aid \<and>
      rating doc = rating_in \<and>
      (\<exists>usr. actor = Some usr \<and> reviewer_user_id doc = user_id usr \<and>
         reviews w' =
           (if \<exists>r \<in> set (reviews w). r_application_id r = aid \<and> reviewer_user_id r \<noteq> user_id usr
            then updateMany (\<lambda>r. r_application_id r = aid) (\<lambda>r. r\<lparr> is_revealed := True \<rparr>)
                   (reviews w @ [doc])
            else reviews w @ [doc]))) \<and>
   (hidden_alone (reviews v) \<longrightarrow>
      reveal_agree (reviews (run v cmds)) \<and> hidden_alone (reviews (run v cmds))) \<and>
   (\<forall>usr. actor = Some usr \<and>
      create_review w actor aid rating_in comment_in new_id ts = Inr (doc, w') \<and>
      (\<exists>r \<in> set (reviews w). r_application_id r = aid \<and> reviewer_user_id r \<noteq> user_id usr) \<longrightarrow>
        (\<forall>r \<in> set (reviews w'). r_application_id r = aid \<longrightarrow> is_revealed r) \<and>
        (\<forall>app. findOne (\<lambda>a. application_id a = aid) (applications w) = Some app \<longrightarrow>
           (revealed_brand_ratings (influencer_user_id app) (reviews w') = [] \<longrightarrow>
              influencer_profiles w' = influencer_profiles w) \<and>
           (\<forall>p. revealed_brand_ratings (influencer_user_id app) (reviews w') \<noteq> [] \<and>
                findOne (\<lambda>p. p_user_id p = influencer_user_id app) (influencer_profiles w) = Some p \<longrightarrow>
                findOne (\<lambda>p. p_user_id p = influencer_user_id app) (influencer_profiles w') =
                  Some (p\<lparr> avg_rating := shown_rating (revealed_brand_ratings (influencer_user_id app) (reviews w')),
                           review_count := length (revealed_brand_ratings (influencer_user_id app) (reviews w')) \<rparr>)))) \<and>
   (\<forall>xs. xs \<noteq> [] \<and> (\<forall>x \<in> set xs. 1 \<le> x \<and> x \<le> 5) \<and> length xs \<le> 10 ^ 12 \<longrightarrow>
      (\<exists>k :: int. shown_rating xs = Finite (nearest_double (of_int k / 10)) \<and>
                  \<bar>of_int k / 10 - mean xs\<bar> \<le> 1 / 20 + 1 / 10 ^ 9))"
proof (intro conjI)
  show "create_review w actor aid rating_in comment_in new_id ts = Inr (doc, w') \<longrightarrow>
      \<not> is_revealed doc \<and> review_id doc = new_id \<and> r_application_id doc = aid \<and>
      rating doc = rating_in \<and>
      (\<exists>usr. actor = Some usr \<and> reviewer_user_id doc = user_id usr \<and>
         reviews w' =
           (if \<exists>r \<in> set (reviews w). r_application_id r = aid \<and> reviewer_user_id r \<noteq> user_id usr
            then updateMany (\<lambda>r. r_application_id r = aid) (\<lambda>r. r\<lparr> is_revealed := True \<rparr>)
                   (reviews w @ [doc])
            else reviews w @ [doc]))"
  proof
    assume ok: "create_review w actor aid rating_in comment_in new_id ts = Inr (doc, w')"
    from create_review_shape [OF ok] obtain usr app where
      all: "actor = Some usr \<and> findOne (\<lambda>a. application_id a = aid) (applications w) = Some app \<and>
           \<not> is_revealed doc \<and> review_id doc = new_id \<and> r_application_id doc = aid \<and>
           reviewer_user_id doc = user_id usr \<and> rating doc = rating_in \<and>
           \<not> (\<exists>r \<in> set (reviews w). r_application_id r = aid \<and> reviewer_user_id r = user_id usr) \<and>
           w' = (if \<exists>r \<in> set (reviews w). r_application_id r = aid \<and> reviewer_user_id r \<noteq> user_id usr
                 then updateInfluencerRating (influencer_user_id app)
                        (w\<lparr> reviews := updateMany (\<lambda>r. r_application_id r = aid)
                                          (\<lambda>r. r\<lparr> is_revealed := True \<rparr>) (reviews w @ [doc]) \<rparr>)
                 else w\<lparr> reviews := reviews w @ [doc] \<rparr>)"
      by (elim exE)
    then have actor: "actor = Some usr"
      and d: "\<not> is_revealed doc" "review_id doc = new_id" "r_application_id doc = aid"
        "reviewer_user_id doc = user_id usr" "rating doc = rating_in"
      and w': "w' = (if \<exists>r \<in> set (reviews w). r_application_id r = aid \<and> reviewer_user_id r \<noteq> user_id usr
                 then updateInfluencerRating (influencer_user_id app)
                        (w\<lparr> reviews := updateMany (\<lambda>r. r_application_id r = aid)
                                          (\<lambda>r. r\<lparr> is_revealed := True \<rparr>) (reviews w @ [doc]) \<rparr>)
                 else w\<lparr> reviews := reviews w @ [doc] \<rparr>)"
      by simp_all
    have "reviews w' =
           (if \<exists>r \<in> set (reviews w). r_application_id r = aid \<and> reviewer_user_id r \<noteq> user_id usr
            then updateMany (\<lambda>r. r_application_id r = aid) (\<lambda>r. r\<lparr> is_revealed := True \<rparr>)
                   (reviews w @ [doc])
            else reviews w @ [doc])"
      by (cases "\<exists>r \<in> set (reviews w). r_application_id r = aid \<and> reviewer_user_id r \<noteq> user_id usr")
         (simp_all only: w' if_P if_not_P if_False reviews_updateInfluencerRating, simp_all)
    with actor d show "\<not> is_revealed doc \<and> review_id doc = new_id \<and> r_application_id doc = aid \<and>
      rating doc = rating_in \<and>
      (\<exists>usr. actor = Some usr \<and> reviewer_user_id doc = user_id usr \<and>
         reviews w' =
           (if \<exists>r \<in> set (reviews w). r_application_id r = aid \<and> reviewer_user_id r \<noteq> user_id usr
            then updateMany (\<lambda>r. r_application_id r = aid) (\<lambda>r. r\<lparr> is_revealed := True \<rparr>)
                   (reviews w @ [doc])
            else reviews w @ [doc]))"
      by blast
  qed
next
  show "hidden_alone (reviews v) \<longrightarrow>
      reveal_agree (reviews (run v cmds)) \<and> hidden_alone (reviews (run v cmds))"
  proof
    assume "hidden_alone (reviews v)"
    then have h: "hidden_alone (reviews (run v cmds))" by (rule hidden_alone_run)
    then have "reveal_agree (reviews (run v cmds))" by (rule hidden_alone_agree)
    with h show "reveal_agree (reviews (run v cmds)) \<and> hidden_alone (reviews (run v cmds))" by simp
  qed
next
  show "\<forall>usr. actor = Some usr \<and>
      create_review w actor aid rating_in comment_in new_id ts = Inr (doc, w') \<and>
      (\<exists>r \<in> set (reviews w). r_application_id r = aid \<and> reviewer_user_id r \<noteq> user_id usr) \<longrightarrow>
        (\<forall>r \<in> set (reviews w'). r_application_id r = aid \<longrightarrow> is_revealed r) \<and>
        (\<forall>app. findOne (\<lambda>a. application_id a = aid) (applications w) = Some app \<longrightarrow>
           (revealed_brand_ratings (influencer_user_id app) (reviews w') = [] \<longrightarrow>
              influencer_profiles w' = influencer_profiles w) \<and>
           (\<forall>p. revealed_brand_ratings (influencer_user_id app) (reviews w') \<noteq> [] \<and>
                findOne (\<lambda>p. p_user_id p = influencer_user_id app) (influencer_profiles w) = Some p \<longrightarrow>
                findOne (\<lambda>p. p_user_id p = influencer_user_id app) (influencer_profiles w') =
                  Some (p\<lparr> avg_rating := shown_rating (revealed_brand_ratings (influencer_user_id app) (reviews w')),
                           review_count := length (revealed_brand_ratings (influencer_user_id app) (reviews w')) \<rparr>)))"
  proof (intro allI impI)
    fix usr :: user
    assume a: "actor = Some usr \<and>
      create_review w actor aid rating_in comment_in new_id ts = Inr (doc, w') \<and>
      (\<exists>r \<in> set (reviews w). r_application_id r = aid \<and> reviewer_user_id r \<noteq> user_id usr)"
    then have e: "actor = Some usr"
      and ok0: "create_review w actor aid rating_in comment_in new_id ts = Inr (doc, w')"
      and other: "\<exists>r \<in> set (reviews w). r_application_id r = aid \<and> reviewer_user_id r \<noteq> user_id usr"
      by blast+
    from ok0 have ok: "create_review w (Some usr) aid rating_in comment_in new_id ts = Inr (doc, w')"
      unfolding e .
    from second_review [OF ok other]
    show "(\<forall>r \<in> set (reviews w'). r_application_id r = aid \<longrightarrow> is_revealed r) \<and>
        (\<forall>app. findOne (\<lambda>a. application_id a = aid) (applications w) = Some app \<longrightarrow>
           (revealed_brand_ratings (influencer_user_id app) (reviews w') = [] \<longrightarrow>
              influencer_profiles w' = influencer_profiles w) \<and>
           (\<forall>p. revealed_brand_ratings (influencer_user_id app) (reviews w') \<noteq> [] \<and>
                findOne (\<lambda>p. p_user_id p = influencer_user_id app) (influencer_profiles w) = Some p \<longrightarrow>
                findOne (\<lambda>p. p_user_id p = influencer_user_id app) (influencer_profiles w') =
                  Some (p\<lparr> avg_rating := shown_rating (revealed_brand_ratings (influencer_user_id app) (reviews w')),
                           review_count := length (revealed_brand_ratings (influencer_user_id app) (reviews w')) \<rparr>)))" .
  qed
next
  show "\<forall>xs. xs \<noteq> [] \<and> (\<forall>x \<in> set xs. 1 \<le> x \<and> x \<le> 5) \<and> length xs \<le> 10 ^ 12 \<longrightarrow>
      (\<exists>k :: int. shown_rating xs = Finite (nearest_double (of_int k / 10)) \<and>
                  \<bar>of_int k / 10 - mean xs\<bar> \<le> 1 / 20 + 1 / 10 ^ 9)"
  proof (intro allI impI)
    fix xs :: "rat list"
    assume a: "xs \<noteq> [] \<and> (\<forall>x \<in> set xs. 1 \<le> x \<and> x \<le> 5) \<and> length xs \<le> 10 ^ 12"
    then have "xs \<noteq> []" and "\<forall>x \<in> set xs. 1 \<le> x \<and> x \<le> 5" and "length xs \<le> 10 ^ 12"
      by blast+
    then show "\<exists>k :: int. shown_rating xs = Finite (nearest_double (of_int k / 10)) \<and>
                  \<bar>of_int k / 10 - mean xs\<bar> \<le> 1 / 20 + 1 / 10 ^ 9"
      by (rule shown_rating_close)
  qed
qed

theorem mutual_reveal_witness:
  "create_review world_released (Some brand0) ''app1'' 4 (Some ''on time'') ''r1'' 5
     = Inr (hd (reviews world_first_review), world_first_review) \<and>
   map is_revealed (reviews world_first_review) = [False] \<and>
   create_review world_first_review (Some influencer0) ''app1'' 5 None ''r2'' 6
     = Inr ((reviews world_second_review ! 1)\<lparr> is_revealed := False \<rparr>, world_second_review) \<and>
   (\<exists>r \<in> set (reviews world_first_review).
      r_application_id r = ''app1'' \<and> reviewer_user_id r \<noteq> user_id influencer0) \<and>
   review_id (reviews world_second_review ! 1) = ''r2'' \<and>
   reviews world_second_review =
     updateMany (\<lambda>r. r_application_id r = ''app1'') (\<lambda>r. r\<lparr> is_revealed := True \<rparr>)
       (reviews world_first_review @ [(reviews world_second_review ! 1)\<lparr> is_revealed := False \<rparr>]) \<and>
   hidden_alone (reviews world0) \<and>
   reveal_agree (reviews world_second_review) \<and>
   is_revealed (reviews world_second_review ! 0) \<and>
   is_revealed (reviews world_second_review ! 1) \<and>
   revealed_brand_ratings ''i1'' (reviews world_second_review) = [4] \<and>
   findOne (\<lambda>p. p_user_id p = ''i1'') (influencer_profiles world_second_review) =
     Some (profile0\<lparr> avg_rating := shown_rating [4], review_count := 1 \<rparr>) \<and>
   shown_rating [4] = Finite 4 \<and>
   (\<exists>k :: int. shown_rating [4] = Finite (nearest_double (of_int k / 10)) \<and>
               \<bar>of_int k / 10 - mean [4]\<bar> \<le> 1 / 20 + 1 / 10 ^ 9)"
proof -
  let ?cmds = "[Create_escrow (Some brand0) ''c1'' ''e1'' 1, Secure_escrow (Some brand0) ''e1'' ''pay1'' 2,
                Change_status (Some brand0) ''c1'' ''completed'' 3,
                Release_escrow (Some brand0) ''e1'' (\<lambda>i. ''k1'') 4,
                Submit_review (Some brand0) ''app1'' 4 (Some ''on time'') ''r1'' 5,
                Submit_review (Some influencer0) ''app1'' 5 None ''r2'' 6]"
  let ?d = "(reviews world_second_review ! 1)\<lparr> is_revealed := False \<rparr>"
  have first: "create_review world_released (Some brand0) ''app1'' 4 (Some ''on time'') ''r1'' 5
     = Inr (hd (reviews world_first_review), world_first_review)"
    by code_simp
  have hidden: "map is_revealed (reviews world_first_review) = [False]"
    by code_simp
  have ok: "create_review world_first_review (Some influencer0) ''app1'' 5 None ''r2'' 6
     = Inr (?d, world_second_review)"
    by code_simp
  have other: "\<exists>r \<in> set (reviews world_first_review).
      r_application_id r = ''app1'' \<and> reviewer_user_id r \<noteq> user_id influencer0"
    by code_simp
  have start: "hidden_alone (reviews world0)"
    by code_simp
  have run: "run world0 ?cmds = world_second_review"
    by code_simp
  have app: "findOne (\<lambda>a. application_id a = ''app1'') (applications world_first_review) = Some application0"
    and uid: "influencer_user_id application0 = ''i1''"
    and prof: "findOne (\<lambda>p. p_user_id p = ''i1'') (influencer_profiles world_first_review) = Some profile0"
    and ratings: "revealed_brand_ratings ''i1'' (reviews world_second_review) = [4]"
    and rid: "review_id (reviews world_second_review ! 1) = ''r2''"
    and four: "shown_rating [4] = Finite 4"
    by code_simp+
  have mem: "reviews world_second_review ! 0 \<in> set (reviews world_second_review)"
      "reviews world_second_review ! 1 \<in> set (reviews world_second_review)"
      "r_application_id (reviews world_second_review ! 0) = ''app1''"
      "r_application_id (reviews world_second_review ! 1) = ''app1''"
    by code_simp+
  note inst = mutual_reveal [of world_first_review "Some influencer0" "''app1''" 5 None "''r2''" 6
      ?d world_second_review world0 ?cmds]
  from inst [THEN conjunct1, THEN mp, OF ok]
  obtain usr where u: "Some influencer0 = Some usr"
    and rs: "reviews world_second_review =
           (if \<exists>r \<in> set (reviews world_first_review). r_application_id r = ''app1'' \<and> reviewer_user_id r \<noteq> user_id usr
            then updateMany (\<lambda>r. r_application_id r = ''app1'') (\<lambda>r. r\<lparr> is_revealed := True \<rparr>)
                   (reviews world_first_review @ [?d])
            else reviews world_first_review @ [?d])"
    by blast
  from u have "usr = influencer0" by simp
  with rs other have a: "reviews world_second_review =
     updateMany (\<lambda>r. r_application_id r = ''app1'') (\<lambda>r. r\<lparr> is_revealed := True \<rparr>)
       (reviews world_first_review @ [?d])"
    by (simp only: if_P)
  from inst [THEN conjunct2, THEN conjunct1, THEN mp, OF start]
  have b: "reveal_agree (reviews world_second_review)"
    unfolding run by (rule conjunct1)
  have pre: "Some influencer0 = Some influencer0 \<and>
      create_review world_first_review (Some influencer0) ''app1'' 5 None ''r2'' 6 = Inr (?d, world_second_review) \<and>
      (\<exists>r \<in> set (reviews world_first_review).
         r_application_id r = ''app1'' \<and> reviewer_user_id r \<noteq> user_id influencer0)"
    using ok other by simp
  note c = inst [THEN conjunct2, THEN conjunct2, THEN conjunct1, THEN spec, THEN mp, OF pre]
  from c [THEN conjunct1] mem
  have d: "is_revealed (reviews world_second_review ! 0)" "is_revealed (reviews world_second_review ! 1)"
    by blast+
  have ne: "revealed_brand_ratings (influencer_user_id application0) (reviews world_second_review) \<noteq> [] \<and>
     findOne (\<lambda>p. p_user_id p = influencer_user_id application0) (influencer_profiles world_first_review)
       = Some profile0"
    unfolding uid using ratings prof by simp
  from c [THEN conjunct2, THEN spec, THEN mp, OF app, THEN conjunct2, THEN spec, THEN mp, OF ne]
  have e: "findOne (\<lambda>p. p_user_id p = ''i1'') (influencer_profiles world_second_review) =
     Some (profile0\<lparr> avg_rating := shown_rating [4], review_count := 1 \<rparr>)"
    unfolding uid ratings by simp
  have pre4: "[4 :: rat] \<noteq> [] \<and> (\<forall>x \<in> set [4 :: rat]. 1 \<le> x \<and> x \<le> 5) \<and> length [4 :: rat] \<le> 10 ^ 12"
    by simp
  from inst [THEN conjunct2, THEN conjunct2, THEN conjunct2, THEN spec, THEN mp, OF pre4]
  have f: "\<exists>k :: int. shown_rating [4] = Finite (nearest_double (of_int k / 10)) \<and>
               \<bar>of_int k / 10 - mean [4]\<bar> \<le> 1 / 20 + 1 / 10 ^ 9" .
  show ?thesis
    using first hidden ok other rid a start b d ratings e four f by blast
qed

end
